theory Spec2Isabelle
  imports Main "HOL-Library.Word" "HOL-Library.Signed_Division"
begin

section \<open>Host values\<close>

text \<open>
  WordLang is a Go program. Its integers are \<open>int64\<close>: a 64-bit word whose sum,
  difference and product wrap around and whose order and quotient are the signed ones.
  Its floats are the host's \<open>float64\<close>. The interpreter only hands them to the
  host (\<open>strconv.ParseFloat\<close>, \<open>float64(x)\<close>, \<open>int64(f)\<close>, the arithmetic and
  comparison operators, and \<open>fmt.Sprintf("%f", f)\<close>), so the float type is a type
  parameter \<open>'f\<close> and those host operations are the fields of a record that every
  evaluation function takes as its first argument.
\<close>

type_synonym int64 = "64 word"

record 'f host =
  ParseFloat :: "string \<Rightarrow> string + 'f"
    \<comment> \<open>\<open>strconv.ParseFloat(s, 64)\<close>: \<open>Inl\<close> the text of \<open>err.Error()\<close>, \<open>Inr\<close> the value\<close>
  floatOfInt :: "int64 \<Rightarrow> 'f"
    \<comment> \<open>the conversion \<open>float64(x)\<close>\<close>
  intOfFloat :: "'f \<Rightarrow> int64"
    \<comment> \<open>the conversion \<open>int64(f)\<close>\<close>
  fadd :: "'f \<Rightarrow> 'f \<Rightarrow> 'f"
  fsub :: "'f \<Rightarrow> 'f \<Rightarrow> 'f"
  fmul :: "'f \<Rightarrow> 'f \<Rightarrow> 'f"
  fdiv :: "'f \<Rightarrow> 'f \<Rightarrow> 'f"
  feq :: "'f \<Rightarrow> 'f \<Rightarrow> bool"
    \<comment> \<open>the operator \<open>==\<close> on \<open>float64\<close>\<close>
  flt :: "'f \<Rightarrow> 'f \<Rightarrow> bool"
    \<comment> \<open>the operator \<open><\<close> on \<open>float64\<close>; \<open>a > b\<close> is \<open>flt b a\<close>\<close>
  fle :: "'f \<Rightarrow> 'f \<Rightarrow> bool"
    \<comment> \<open>the operator \<open><=\<close> on \<open>float64\<close>; \<open>a >= b\<close> is \<open>fle b a\<close>\<close>
  fmtFloat :: "'f \<Rightarrow> string"
    \<comment> \<open>\<open>fmt.Sprintf("%f", f)\<close>\<close>
  Scanln :: "string \<Rightarrow> string \<times> string"
    \<comment> \<open>\<open>fmt.Scanln(&input)\<close> on the unread standard input: the string stored and the rest\<close>
  ParseInt :: "string \<Rightarrow> int64 option"
    \<comment> \<open>\<open>strconv.ParseInt(s, 0, 64)\<close>: \<open>None\<close> when it returns an error\<close>

text \<open>\<open>fmt.Sprintf("%d", n)\<close>: the decimal digits of an integer, with a minus sign.\<close>

fun digits :: "nat \<Rightarrow> string" where
  "digits n = (if n < 10 then [''0123456789'' ! n] else digits (n div 10) @ [''0123456789'' ! (n mod 10)])"

declare digits.simps [simp del]

definition itoa :: "int \<Rightarrow> string" where
  "itoa i = (if i < 0 then CHR ''-'' # digits (nat (- i)) else digits (nat i))"

section \<open>The runtime values (package object)\<close>

text \<open>
  Every Go object is a pointer. \<open>TRUE\<close>, \<open>FALSE\<close> and \<open>NULL\<close> are the only
  \<open>*Boolean\<close> and \<open>*Null\<close> values the interpreter ever builds
  (\<open>nativeBoolToBooleanObject\<close> returns the two shared booleans), so \<open>Boolean b\<close>
  and \<open>Null\<close> stand for those three pointers. A list is compared by its pointer
  only, so a \<open>List\<close> carries the reference it was allocated at. Integers, floats
  and strings are compared by their contents whenever two of them meet, and their
  pointers are never equal to a pointer of another type.
\<close>

datatype 'f Object =
    Integer int64
  | Float 'f
  | Boolean bool
  | String string
  | Null
  | ReturnValue "'f Object"
  | Error string
  | List nat "'f Object list"

abbreviation INTEGER_OBJ :: string where "INTEGER_OBJ \<equiv> ''INTEGER''"
abbreviation FLOAT_OBJ :: string where "FLOAT_OBJ \<equiv> ''FLOAT''"
abbreviation BOOLEAN_OBJ :: string where "BOOLEAN_OBJ \<equiv> ''BOOLEAN''"
abbreviation STRING_OBJ :: string where "STRING_OBJ \<equiv> ''STRING''"
abbreviation NULL_OBJ :: string where "NULL_OBJ \<equiv> ''NULL''"
abbreviation RETURN_VALUE_OBJ :: string where "RETURN_VALUE_OBJ \<equiv> ''RETURN_VALUE''"
abbreviation ERROR_OBJ :: string where "ERROR_OBJ \<equiv> ''ERROR''"
abbreviation LIST_OBJ :: string where "LIST_OBJ \<equiv> ''LIST''"

fun Type_obj :: "'f Object \<Rightarrow> string" where
  "Type_obj (Integer _) = INTEGER_OBJ"
| "Type_obj (Float _) = FLOAT_OBJ"
| "Type_obj (Boolean _) = BOOLEAN_OBJ"
| "Type_obj (String _) = STRING_OBJ"
| "Type_obj Null = NULL_OBJ"
| "Type_obj (ReturnValue _) = RETURN_VALUE_OBJ"
| "Type_obj (Error _) = ERROR_OBJ"
| "Type_obj (List _ _) = LIST_OBJ"

text \<open>\<open>strings.Join(elems, sep)\<close>.\<close>

fun Join :: "string list \<Rightarrow> string \<Rightarrow> string" where
  "Join [] sep = []"
| "Join [x] sep = x"
| "Join (x # y # ys) sep = x @ sep @ Join (y # ys) sep"

fun Inspect :: "'f host \<Rightarrow> 'f Object \<Rightarrow> string" where
  "Inspect h (Integer v) = itoa (sint v)"
| "Inspect h (Float v) = fmtFloat h v"
| "Inspect h (Boolean b) = (if b then ''true'' else ''false'')"
| "Inspect h (String s) = s"
| "Inspect h Null = ''null''"
| "Inspect h (ReturnValue v) = Inspect h v"
| "Inspect h (Error m) = ''ERROR: '' @ m"
| "Inspect h (List r elems) = ''['' @ Join (map (Inspect h) elems) '', '' @ '']''"

text \<open>
  A Go call returns, panics (a failed type assertion) or ends the process
  (\<open>os.Exit\<close>).
\<close>

datatype 'a outcome = Done 'a | Panic string | Exit int

fun bind :: "'a outcome \<Rightarrow> ('a \<Rightarrow> 'b outcome) \<Rightarrow> 'b outcome" where
  "bind (Done x) f = f x"
| "bind (Panic m) f = Panic m"
| "bind (Exit c) f = Exit c"

text \<open>
  The type assertions \<open>o.(*object.Integer).Value\<close> and \<open>o.(*object.Float).Value\<close>:
  a run-time panic when \<open>o\<close> holds a pointer of another type. \<open>dynamicType\<close> is the
  name of the type in the panic's message.
\<close>

fun dynamicType :: "'f Object \<Rightarrow> string" where
  "dynamicType (Integer _) = ''*object.Integer''"
| "dynamicType (Float _) = ''*object.Float''"
| "dynamicType (Boolean _) = ''*object.Boolean''"
| "dynamicType (String _) = ''*object.String''"
| "dynamicType Null = ''*object.Null''"
| "dynamicType (ReturnValue _) = ''*object.ReturnValue''"
| "dynamicType (Error _) = ''*object.Error''"
| "dynamicType (List _ _) = ''*object.List''"

fun assertInteger :: "'f Object \<Rightarrow> int64 outcome" where
  "assertInteger (Integer v) = Done v"
| "assertInteger obj = Panic (''interface conversion: object.Object is '' @ dynamicType obj @ '', not *object.Integer'')"

fun assertFloat :: "'f Object \<Rightarrow> 'f outcome" where
  "assertFloat (Float v) = Done v"
| "assertFloat obj = Panic (''interface conversion: object.Object is '' @ dynamicType obj @ '', not *object.Float'')"

section \<open>The evaluator's operators (package interpreter)\<close>

definition nativeBoolToBooleanObject :: "bool \<Rightarrow> 'f Object" where
  "nativeBoolToBooleanObject input = (if input then Boolean True else Boolean False)"

definition isError :: "'f Object \<Rightarrow> bool" where
  "isError obj = (Type_obj obj = ERROR_OBJ)"

definition typeMismatch :: "string \<Rightarrow> 'f Object \<Rightarrow> 'f Object \<Rightarrow> 'f Object" where
  "typeMismatch operator left right =
     Error (''Eval: Type mismatch for '' @ [CHR 0x27] @ operator @ [CHR 0x27] @ '' operator: ''
            @ Type_obj left @ '' '' @ operator @ '' '' @ Type_obj right)"

fun evalNotOperatorExpression :: "'f Object \<Rightarrow> 'f Object" where
  "evalNotOperatorExpression (Boolean True) = Boolean False"
| "evalNotOperatorExpression (Boolean False) = Boolean True"
| "evalNotOperatorExpression Null = Boolean True"
| "evalNotOperatorExpression obj = Boolean False"

fun isTruthy :: "'f Object \<Rightarrow> bool" where
  "isTruthy Null = False"
| "isTruthy (Boolean True) = True"
| "isTruthy (Boolean False) = False"
| "isTruthy obj = True"

fun evalAddInfixExpression :: "'f host \<Rightarrow> string \<Rightarrow> 'f Object \<Rightarrow> 'f Object \<Rightarrow> 'f Object" where
  "evalAddInfixExpression h operator (Integer leftVal) (Integer rightVal) = Integer (leftVal + rightVal)"
| "evalAddInfixExpression h operator (Float leftVal) (Float rightVal) = Float (fadd h leftVal rightVal)"
| "evalAddInfixExpression h operator (Float leftVal) (Integer r) = Float (fadd h leftVal (floatOfInt h r))"
| "evalAddInfixExpression h operator (Integer l) (Float rightVal) = Float (fadd h (floatOfInt h l) rightVal)"
| "evalAddInfixExpression h operator (String leftVal) (String rightVal) = String (leftVal @ rightVal)"
| "evalAddInfixExpression h operator left right = typeMismatch operator left right"

fun evalSubtractInfixExpression :: "'f host \<Rightarrow> string \<Rightarrow> 'f Object \<Rightarrow> 'f Object \<Rightarrow> 'f Object" where
  "evalSubtractInfixExpression h operator (Integer leftVal) (Integer rightVal) = Integer (leftVal - rightVal)"
| "evalSubtractInfixExpression h operator (Float leftVal) (Float rightVal) = Float (fsub h leftVal rightVal)"
| "evalSubtractInfixExpression h operator (Float leftVal) (Integer r) = Float (fsub h leftVal (floatOfInt h r))"
| "evalSubtractInfixExpression h operator (Integer l) (Float rightVal) = Float (fsub h (floatOfInt h l) rightVal)"
| "evalSubtractInfixExpression h operator left right = typeMismatch operator left right"

fun evalMultiplyInfixExpression :: "'f host \<Rightarrow> string \<Rightarrow> 'f Object \<Rightarrow> 'f Object \<Rightarrow> 'f Object" where
  "evalMultiplyInfixExpression h operator (Integer leftVal) (Integer rightVal) = Integer (leftVal * rightVal)"
| "evalMultiplyInfixExpression h operator (Float leftVal) (Float rightVal) = Float (fmul h leftVal rightVal)"
| "evalMultiplyInfixExpression h operator (Float leftVal) (Integer r) = Float (fmul h leftVal (floatOfInt h r))"
| "evalMultiplyInfixExpression h operator (Integer l) (Float rightVal) = Float (fmul h (floatOfInt h l) rightVal)"
| "evalMultiplyInfixExpression h operator left right = typeMismatch operator left right"

text \<open>
  \<open>evalDivideInfixExpression\<close> opens with the condition
  \<^verbatim>\<open>right.(*object.Integer).Value == 0 && right.Type() == object.INTEGER_OBJ ||
  right.(*object.Float).Value == 0 && right.Type() == object.FLOAT_OBJ\<close>.
  Go evaluates it from the left and stops as soon as the result is known; each type
  assertion panics when \<open>right\<close> has another type. \<open>divisorIsZero\<close> is that condition.
\<close>

definition divisorIsZero :: "'f host \<Rightarrow> 'f Object \<Rightarrow> bool outcome" where
  "divisorIsZero h right =
     bind (assertInteger right) (\<lambda>i.
       if i = 0 \<and> Type_obj right = INTEGER_OBJ then Done True
       else bind (assertFloat right) (\<lambda>f.
         Done (feq h f (floatOfInt h 0) \<and> Type_obj right = FLOAT_OBJ)))"

text \<open>
  The quotient \<open>leftVal / rightVal\<close> of two \<open>int64\<close>: truncated towards zero,
  and wrapping in the one case that overflows (the least integer divided by \<open>-1\<close>).
\<close>

definition int64_div :: "int64 \<Rightarrow> int64 \<Rightarrow> int64" where
  "int64_div a b = word_of_int (sint a sdiv sint b)"

fun divideOperands :: "'f host \<Rightarrow> string \<Rightarrow> 'f Object \<Rightarrow> 'f Object \<Rightarrow> 'f Object" where
  "divideOperands h operator (Integer leftVal) (Integer rightVal) = Integer (int64_div leftVal rightVal)"
| "divideOperands h operator (Float leftVal) (Float rightVal) = Float (fdiv h leftVal rightVal)"
| "divideOperands h operator (Float leftVal) (Integer r) = Float (fdiv h leftVal (floatOfInt h r))"
| "divideOperands h operator (Integer l) (Float rightVal) = Float (fdiv h (floatOfInt h l) rightVal)"
| "divideOperands h operator left right = typeMismatch operator left right"

definition evalDivideInfixExpression :: "'f host \<Rightarrow> string \<Rightarrow> 'f Object \<Rightarrow> 'f Object \<Rightarrow> 'f Object outcome" where
  "evalDivideInfixExpression h operator left right =
     bind (divisorIsZero h right) (\<lambda>zero.
       if zero then Done (Error ''Eval: Division by zero error'')
       else Done (divideOperands h operator left right))"

text \<open>
  \<open>left == right\<close> on two interface values holding pointers: true when both hold
  the same pointer. Pointers of different dynamic types are never equal; the shared
  booleans and \<open>NULL\<close> are equal to themselves; two lists are equal when they are
  the same allocation. The remaining cases compare two pointers the evaluator allocates
  afresh for every value (an \<open>Error\<close> or a \<open>ReturnValue\<close> is never an operand, and
  integers, floats and strings are compared by content before this point is reached).
\<close>

fun samePointer :: "'f Object \<Rightarrow> 'f Object \<Rightarrow> bool" where
  "samePointer Null Null = True"
| "samePointer (Boolean a) (Boolean b) = (a = b)"
| "samePointer (List r _) (List r' _) = (r = r')"
| "samePointer left right = False"

fun evalEqualsInfixExpression :: "'f host \<Rightarrow> string \<Rightarrow> 'f Object \<Rightarrow> 'f Object \<Rightarrow> 'f Object" where
  "evalEqualsInfixExpression h operator (Integer leftVal) (Integer rightVal) = nativeBoolToBooleanObject (leftVal = rightVal)"
| "evalEqualsInfixExpression h operator (Float leftVal) (Float rightVal) = nativeBoolToBooleanObject (feq h leftVal rightVal)"
| "evalEqualsInfixExpression h operator (Float leftVal) (Integer r) = nativeBoolToBooleanObject (feq h leftVal (floatOfInt h r))"
| "evalEqualsInfixExpression h operator (Integer l) (Float rightVal) = nativeBoolToBooleanObject (feq h (floatOfInt h l) rightVal)"
| "evalEqualsInfixExpression h operator (String leftVal) (String rightVal) = nativeBoolToBooleanObject (leftVal = rightVal)"
| "evalEqualsInfixExpression h operator (Boolean leftVal) (Boolean rightVal) = nativeBoolToBooleanObject (leftVal = rightVal)"
| "evalEqualsInfixExpression h operator left right = nativeBoolToBooleanObject (samePointer left right)"

definition evalNotEqualsInfixExpression :: "'f host \<Rightarrow> string \<Rightarrow> 'f Object \<Rightarrow> 'f Object \<Rightarrow> 'f Object" where
  "evalNotEqualsInfixExpression h operator left right =
     (let equalsResult = evalEqualsInfixExpression h ''equals'' left right in
      if isError equalsResult then equalsResult
      else evalNotOperatorExpression equalsResult)"

fun evalGreaterThanInfixExpression :: "'f host \<Rightarrow> string \<Rightarrow> 'f Object \<Rightarrow> 'f Object \<Rightarrow> 'f Object" where
  "evalGreaterThanInfixExpression h operator (Integer leftVal) (Integer rightVal) = nativeBoolToBooleanObject (rightVal <s leftVal)"
| "evalGreaterThanInfixExpression h operator (Float leftVal) (Float rightVal) = nativeBoolToBooleanObject (flt h rightVal leftVal)"
| "evalGreaterThanInfixExpression h operator (Float leftVal) (Integer r) = nativeBoolToBooleanObject (flt h (floatOfInt h r) leftVal)"
| "evalGreaterThanInfixExpression h operator (Integer l) (Float rightVal) = nativeBoolToBooleanObject (flt h rightVal (floatOfInt h l))"
| "evalGreaterThanInfixExpression h operator left right = typeMismatch operator left right"

fun evalLessThanInfixExpression :: "'f host \<Rightarrow> string \<Rightarrow> 'f Object \<Rightarrow> 'f Object \<Rightarrow> 'f Object" where
  "evalLessThanInfixExpression h operator (Integer leftVal) (Integer rightVal) = nativeBoolToBooleanObject (leftVal <s rightVal)"
| "evalLessThanInfixExpression h operator (Float leftVal) (Float rightVal) = nativeBoolToBooleanObject (flt h leftVal rightVal)"
| "evalLessThanInfixExpression h operator (Float leftVal) (Integer r) = nativeBoolToBooleanObject (flt h leftVal (floatOfInt h r))"
| "evalLessThanInfixExpression h operator (Integer l) (Float rightVal) = nativeBoolToBooleanObject (flt h (floatOfInt h l) rightVal)"
| "evalLessThanInfixExpression h operator left right = typeMismatch operator left right"

fun evalGreaterOrEqualInfixExpression :: "'f host \<Rightarrow> string \<Rightarrow> 'f Object \<Rightarrow> 'f Object \<Rightarrow> 'f Object" where
  "evalGreaterOrEqualInfixExpression h operator (Integer leftVal) (Integer rightVal) = nativeBoolToBooleanObject (rightVal \<le>s leftVal)"
| "evalGreaterOrEqualInfixExpression h operator (Float leftVal) (Float rightVal) = nativeBoolToBooleanObject (fle h rightVal leftVal)"
| "evalGreaterOrEqualInfixExpression h operator (Float leftVal) (Integer r) = nativeBoolToBooleanObject (fle h (floatOfInt h r) leftVal)"
| "evalGreaterOrEqualInfixExpression h operator (Integer l) (Float rightVal) = nativeBoolToBooleanObject (fle h rightVal (floatOfInt h l))"
| "evalGreaterOrEqualInfixExpression h operator left right = typeMismatch operator left right"

fun evalLessOrEqualInfixExpression :: "'f host \<Rightarrow> string \<Rightarrow> 'f Object \<Rightarrow> 'f Object \<Rightarrow> 'f Object" where
  "evalLessOrEqualInfixExpression h operator (Integer leftVal) (Integer rightVal) = nativeBoolToBooleanObject (leftVal \<le>s rightVal)"
| "evalLessOrEqualInfixExpression h operator (Float leftVal) (Float rightVal) = nativeBoolToBooleanObject (fle h leftVal rightVal)"
| "evalLessOrEqualInfixExpression h operator (Float leftVal) (Integer r) = nativeBoolToBooleanObject (fle h leftVal (floatOfInt h r))"
| "evalLessOrEqualInfixExpression h operator (Integer l) (Float rightVal) = nativeBoolToBooleanObject (fle h (floatOfInt h l) rightVal)"
| "evalLessOrEqualInfixExpression h operator left right = typeMismatch operator left right"

definition evalAndInfixExpression :: "string \<Rightarrow> 'f Object \<Rightarrow> 'f Object \<Rightarrow> 'f Object" where
  "evalAndInfixExpression operator left right =
     (let leftBool = isTruthy left; rightBool = isTruthy right
      in nativeBoolToBooleanObject (leftBool \<and> rightBool))"

definition evalOrInfixExpression :: "string \<Rightarrow> 'f Object \<Rightarrow> 'f Object \<Rightarrow> 'f Object" where
  "evalOrInfixExpression operator left right =
     (let leftBool = isTruthy left; rightBool = isTruthy right
      in nativeBoolToBooleanObject (leftBool \<or> rightBool))"

section \<open>Tokens (package token)\<close>

text \<open>
  A \<open>TokenType\<close> is a Go string; the constants below are the ones of the package.
\<close>

type_synonym TokenType = string

record Token =
  Type :: TokenType
  Literal :: string
  Line :: int
  Column :: int

abbreviation ILLEGAL :: TokenType where "ILLEGAL \<equiv> ''ILLEGAL''"
abbreviation EOF :: TokenType where "EOF \<equiv> ''EOF''"
abbreviation IDENT :: TokenType where "IDENT \<equiv> ''IDENT''"
abbreviation NUMBER :: TokenType where "NUMBER \<equiv> ''NUMBER''"
abbreviation STRING :: TokenType where "STRING \<equiv> ''STRING''"
abbreviation TRUE :: TokenType where "TRUE \<equiv> ''TRUE''"
abbreviation FALSE :: TokenType where "FALSE \<equiv> ''FALSE''"
abbreviation LET :: TokenType where "LET \<equiv> ''LET''"
abbreviation FUNCTION :: TokenType where "FUNCTION \<equiv> ''FUNCTION''"
abbreviation CALL :: TokenType where "CALL \<equiv> ''CALL''"
abbreviation IF :: TokenType where "IF \<equiv> ''IF''"
abbreviation ELSE :: TokenType where "ELSE \<equiv> ''ELSE''"
abbreviation ELSEIF :: TokenType where "ELSEIF \<equiv> ''ELSEIF''"
abbreviation ENDIF :: TokenType where "ENDIF \<equiv> ''ENDIF''"
abbreviation WHILE :: TokenType where "WHILE \<equiv> ''WHILE''"
abbreviation ENDWHILE :: TokenType where "ENDWHILE \<equiv> ''ENDWHILE''"
abbreviation FOREACH :: TokenType where "FOREACH \<equiv> ''FOREACH''"
abbreviation IN :: TokenType where "IN \<equiv> ''IN''"
abbreviation ENDFOREACH :: TokenType where "ENDFOREACH \<equiv> ''ENDFOREACH''"
abbreviation PRINT :: TokenType where "PRINT \<equiv> ''PRINT''"
abbreviation INPUT :: TokenType where "INPUT \<equiv> ''INPUT''"
abbreviation ADD :: TokenType where "ADD \<equiv> ''ADD''"
abbreviation SUBTRACT :: TokenType where "SUBTRACT \<equiv> ''SUBTRACT''"
abbreviation MULTIPLY :: TokenType where "MULTIPLY \<equiv> ''MULTIPLY''"
abbreviation DIVIDE :: TokenType where "DIVIDE \<equiv> ''DIVIDE''"
abbreviation AND :: TokenType where "AND \<equiv> ''AND''"
abbreviation OR :: TokenType where "OR \<equiv> ''OR''"
abbreviation NOT :: TokenType where "NOT \<equiv> ''NOT''"
abbreviation EQUALS :: TokenType where "EQUALS \<equiv> ''EQUALS''"
abbreviation NOTEQUALS :: TokenType where "NOTEQUALS \<equiv> ''NOTEQUALS''"
abbreviation GREATERTHAN :: TokenType where "GREATERTHAN \<equiv> ''GREATERTHAN''"
abbreviation LESSTHAN :: TokenType where "LESSTHAN \<equiv> ''LESSTHAN''"
abbreviation GREATEREQUAL :: TokenType where "GREATEREQUAL \<equiv> ''GREATEREQUAL''"
abbreviation LESSEQUAL :: TokenType where "LESSEQUAL \<equiv> ''LESSEQUAL''"
abbreviation THEN :: TokenType where "THEN \<equiv> ''THEN''"
abbreviation DO :: TokenType where "DO \<equiv> ''DO''"
abbreviation END :: TokenType where "END \<equiv> ''END''"
abbreviation LIST :: TokenType where "LIST \<equiv> ''LIST''"
abbreviation FROM :: TokenType where "FROM \<equiv> ''FROM''"
abbreviation INDEX :: TokenType where "INDEX \<equiv> ''INDEX''"
abbreviation ISDEFINED :: TokenType where "ISDEFINED \<equiv> ''ISDEFINED''"
abbreviation EXIT :: TokenType where "EXIT \<equiv> ''EXIT''"
abbreviation RETURN :: TokenType where "RETURN \<equiv> ''RETURN''"
abbreviation CONVERTTONUMBER :: TokenType where "CONVERTTONUMBER \<equiv> ''CONVERTTONUMBER''"
abbreviation CONVERTTOSTRING :: TokenType where "CONVERTTOSTRING \<equiv> ''CONVERTTOSTRING''"
abbreviation BE :: TokenType where "BE \<equiv> ''BE''"
abbreviation ENDFUNCTION :: TokenType where "ENDFUNCTION \<equiv> ''ENDFUNCTION''"
abbreviation COMMENT :: TokenType where "COMMENT \<equiv> ''COMMENT''"

text \<open>
  Modelled from the spec: the constant \<open>GETITEMATINDEX\<close>, which the lexer, the
  parser and the keyword table use and the constant block of the package does not
  declare. The spec gives every keyword phrase a kind of its own
  (\<open>get item at index\<close> among them); the constant is named like its neighbours.
\<close>

abbreviation GETITEMATINDEX :: TokenType where "GETITEMATINDEX \<equiv> ''GETITEMATINDEX''"

section \<open>The syntax tree (package ast)\<close>

text \<open>
  A field of interface type \<open>Expression\<close> may hold Go's \<open>nil\<close> (the parser
  stores what \<open>parseExpression\<close> returned): it is an \<open>expr option\<close>. The optional
  pointers \<open>ElseBlock\<close>, \<open>Prompt\<close> and \<open>Code\<close> are options too.
\<close>

datatype Identifier = MkIdentifier Token string

datatype StringLiteral = MkStringLiteral Token string

datatype 'f expr =
    Identifier Identifier
  | IntegerLiteral Token int64
  | FloatLiteral Token 'f
  | StringLiteral StringLiteral
  | BooleanLiteral Token bool
  | PrefixExpression Token string "'f expr option"
  | InfixExpression Token "'f expr option" string "'f expr option"
  | FunctionLiteral Token "Identifier list" "'f block"
  | CallExpression Token "'f expr option" "'f expr option list"
  | ListLiteral Token "'f expr option list"
  | GetItemAtIndexExpression Token "'f expr option" "'f expr option"
  | IsDefinedExpression Token Identifier
  | ConvertToNumberExpression Token "'f expr option"
  | ConvertToStringExpression Token "'f expr option"
and 'f stmt =
    LetStatement Token Identifier "'f expr option"
  | ReturnStatement Token "'f expr option"
  | ExpressionStatement Token "'f expr option"
  | IfStatement Token "'f expr option" "'f block" "('f expr option \<times> 'f block) list" "'f block option"
  | WhileStatement Token "'f expr option" "'f block"
  | ForEachStatement Token Identifier "'f expr option" "'f block"
  | PrintStatement Token "'f expr option"
  | InputStatement Token "StringLiteral option"
  | ExitStatement Token "'f expr option"
and 'f block =
    BlockStatement Token "'f stmt list"

text \<open>What \<open>Eval\<close> can be given: a value of the interface \<open>ast.Node\<close>.\<close>

datatype 'f Node =
    Program "'f stmt list"
  | Statement "'f stmt"
  | Block "'f block"
  | Expression "'f expr option"

section \<open>Environments and the world\<close>

datatype 'f Environment =
  Environment (store: "string \<rightharpoonup> 'f Object") (outer: "'f Environment option")

definition NewEnvironment :: "'f Environment" where
  "NewEnvironment = Environment Map.empty None"

fun Get :: "'f Environment \<Rightarrow> string \<Rightarrow> 'f Object option" where
  "Get (Environment s out) name =
     (case s name of
        Some obj \<Rightarrow> Some obj
      | None \<Rightarrow> (case out of None \<Rightarrow> None | Some e \<Rightarrow> Get e name))"

fun Set :: "'f Environment \<Rightarrow> string \<Rightarrow> 'f Object \<Rightarrow> 'f Environment" where
  "Set (Environment s out) name val = Environment (s(name \<mapsto> val)) out"

definition NewEnclosedEnvironment :: "'f Environment \<Rightarrow> 'f Environment" where
  "NewEnclosedEnvironment out = Environment Map.empty (Some out)"

text \<open>
  What an evaluation changes besides the environment: the bytes written to the
  standard output, the unread standard input, and the next free list reference.
\<close>

record world =
  stdout :: string
  stdin :: string
  nextRef :: nat

section \<open>Evaluating expressions\<close>

text \<open>
  The branches of \<open>Eval\<close> for the expression nodes, and the functions they call.
  No expression writes a binding, prints or reads; a list literal allocates. The
  recursion follows the tree, so these functions are total. \<open>Eval\<close> has no case
  for \<open>*ast.FunctionLiteral\<close> and \<open>*ast.CallExpression\<close>: they reach its
  \<open>default\<close> branch, as the \<open>nil\<close> expression does.
\<close>

function (sequential) Eval_expr :: "'f host \<Rightarrow> 'f expr option \<Rightarrow> 'f Environment \<Rightarrow> world \<Rightarrow> 'f Object outcome \<times> world"
and evalPrefixExpression :: "'f host \<Rightarrow> string \<Rightarrow> 'f expr option \<Rightarrow> 'f Environment \<Rightarrow> world \<Rightarrow> 'f Object outcome \<times> world"
and evalInfixExpression :: "'f host \<Rightarrow> 'f expr option \<Rightarrow> string \<Rightarrow> 'f expr option \<Rightarrow> 'f Environment \<Rightarrow> world \<Rightarrow> 'f Object outcome \<times> world"
and evalExpressions :: "'f host \<Rightarrow> 'f expr option list \<Rightarrow> 'f Environment \<Rightarrow> world \<Rightarrow> 'f Object list \<Rightarrow> 'f Object list outcome \<times> world"
and evalListLiteral :: "'f host \<Rightarrow> 'f expr option list \<Rightarrow> 'f Environment \<Rightarrow> world \<Rightarrow> 'f Object outcome \<times> world"
and evalGetItemAtIndexExpression :: "'f host \<Rightarrow> 'f expr option \<Rightarrow> 'f expr option \<Rightarrow> 'f Environment \<Rightarrow> world \<Rightarrow> 'f Object outcome \<times> world"
and evalConvertToNumberExpression :: "'f host \<Rightarrow> 'f expr option \<Rightarrow> 'f Environment \<Rightarrow> world \<Rightarrow> 'f Object outcome \<times> world"
and evalConvertToStringExpression :: "'f host \<Rightarrow> 'f expr option \<Rightarrow> 'f Environment \<Rightarrow> world \<Rightarrow> 'f Object outcome \<times> world"
where
  "Eval_expr h None env w = (Done (Error ''Eval: Node type not handled: <nil>''), w)"
| "Eval_expr h (Some (IntegerLiteral t v)) env w = (Done (Integer v), w)"
| "Eval_expr h (Some (FloatLiteral t v)) env w = (Done (Float v), w)"
| "Eval_expr h (Some (StringLiteral (MkStringLiteral t v))) env w = (Done (String v), w)"
| "Eval_expr h (Some (BooleanLiteral t v)) env w = (Done (nativeBoolToBooleanObject v), w)"
| "Eval_expr h (Some (PrefixExpression t operator right)) env w = evalPrefixExpression h operator right env w"
| "Eval_expr h (Some (InfixExpression t left operator right)) env w = evalInfixExpression h left operator right env w"
| "Eval_expr h (Some (Identifier (MkIdentifier t name))) env w =
     (case Get env name of
        None \<Rightarrow> (Done (Error (''Eval: Identifier not found: '' @ name)), w)
      | Some val \<Rightarrow> (Done val, w))"
| "Eval_expr h (Some (ListLiteral t elems)) env w = evalListLiteral h elems env w"
| "Eval_expr h (Some (GetItemAtIndexExpression t list index)) env w = evalGetItemAtIndexExpression h list index env w"
| "Eval_expr h (Some (IsDefinedExpression t (MkIdentifier t' name))) env w =
     (Done (nativeBoolToBooleanObject (Get env name \<noteq> None)), w)"
| "Eval_expr h (Some (ConvertToNumberExpression t e)) env w = evalConvertToNumberExpression h e env w"
| "Eval_expr h (Some (ConvertToStringExpression t e)) env w = evalConvertToStringExpression h e env w"
| "Eval_expr h (Some (FunctionLiteral t params body)) env w =
     (Done (Error ''Eval: Node type not handled: *ast.FunctionLiteral''), w)"
| "Eval_expr h (Some (CallExpression t f args)) env w =
     (Done (Error ''Eval: Node type not handled: *ast.CallExpression''), w)"

| "evalPrefixExpression h operator e env w =
     (case Eval_expr h e env w of
        (Done right, w1) \<Rightarrow>
          if isError right then (Done right, w1)
          else if operator = ''not'' then (Done (evalNotOperatorExpression right), w1)
          else (Done (Error (''Eval: Unknown prefix operator: '' @ operator @ Type_obj right)), w1)
      | (Panic m, w1) \<Rightarrow> (Panic m, w1)
      | (Exit c, w1) \<Rightarrow> (Exit c, w1))"

| "evalInfixExpression h l operator r env w =
     (case Eval_expr h l env w of
        (Done left, w1) \<Rightarrow>
          if isError left then (Done left, w1)
          else (case Eval_expr h r env w1 of
            (Done right, w2) \<Rightarrow>
              if isError right then (Done right, w2)
              else if operator = ''add'' then (Done (evalAddInfixExpression h operator left right), w2)
              else if operator = ''subtract'' then (Done (evalSubtractInfixExpression h operator left right), w2)
              else if operator = ''multiply'' then (Done (evalMultiplyInfixExpression h operator left right), w2)
              else if operator = ''divide'' then (evalDivideInfixExpression h operator left right, w2)
              else if operator = ''equals'' then (Done (evalEqualsInfixExpression h operator left right), w2)
              else if operator = ''notequals'' then (Done (evalNotEqualsInfixExpression h operator left right), w2)
              else if operator = ''greater'' then (Done (evalGreaterThanInfixExpression h operator left right), w2)
              else if operator = ''less'' then (Done (evalLessThanInfixExpression h operator left right), w2)
              else if operator = ''greater or equal'' then (Done (evalGreaterOrEqualInfixExpression h operator left right), w2)
              else if operator = ''less or equal'' then (Done (evalLessOrEqualInfixExpression h operator left right), w2)
              else if operator = ''and'' then (Done (evalAndInfixExpression operator left right), w2)
              else if operator = ''or'' then (Done (evalOrInfixExpression operator left right), w2)
              else (Done (Error (''Eval: Unknown infix operator: '' @ Type_obj left @ '' '' @ operator @ '' '' @ Type_obj right)), w2)
          | (Panic m, w2) \<Rightarrow> (Panic m, w2)
          | (Exit c, w2) \<Rightarrow> (Exit c, w2))
      | (Panic m, w1) \<Rightarrow> (Panic m, w1)
      | (Exit c, w1) \<Rightarrow> (Exit c, w1))"

| "evalExpressions h [] env w results = (Done results, w)"
| "evalExpressions h (exp # exps) env w results =
     (case Eval_expr h exp env w of
        (Done evaluated, w1) \<Rightarrow>
          if isError evaluated then (Done [evaluated], w1)
          else evalExpressions h exps env w1 (results @ [evaluated])
      | (Panic m, w1) \<Rightarrow> (Panic m, w1)
      | (Exit c, w1) \<Rightarrow> (Exit c, w1))"

| "evalListLiteral h elems env w =
     (case evalExpressions h elems env w [] of
        (Done elements, w1) \<Rightarrow>
          if length elements > 0 \<and> isError (elements ! 0) then (Done (elements ! 0), w1)
          else (Done (List (nextRef w1) elements), w1\<lparr>nextRef := nextRef w1 + 1\<rparr>)
      | (Panic m, w1) \<Rightarrow> (Panic m, w1)
      | (Exit c, w1) \<Rightarrow> (Exit c, w1))"

| "evalGetItemAtIndexExpression h list index env w =
     (case Eval_expr h list env w of
        (Done listObj, w1) \<Rightarrow>
          if isError listObj then (Done listObj, w1)
          else (case listObj of
            List r elements \<Rightarrow>
              (case Eval_expr h index env w1 of
                 (Done indexObj, w2) \<Rightarrow>
                   if isError indexObj then (Done indexObj, w2)
                   else (case indexObj of
                     Integer i \<Rightarrow>
                       if sint i < 0 \<or> int (length elements) \<le> sint i
                       then (Done (Error (''Eval: Index out of bounds: '' @ itoa (sint i)
                               @ '', list length: '' @ itoa (int (length elements)))), w2)
                       else (Done (elements ! nat (sint i)), w2)
                   | _ \<Rightarrow> (Done (Error (''Eval: '' @ [CHR 0x27] @ ''get item at index'' @ [CHR 0x27]
                               @ '' index must be a number, got '' @ Type_obj indexObj)), w2))
               | (Panic m, w2) \<Rightarrow> (Panic m, w2)
               | (Exit c, w2) \<Rightarrow> (Exit c, w2))
          | _ \<Rightarrow> (Done (Error (''Eval: '' @ [CHR 0x27] @ ''get item at index'' @ [CHR 0x27]
                      @ '' expected a list, got '' @ Type_obj listObj)), w1))
      | (Panic m, w1) \<Rightarrow> (Panic m, w1)
      | (Exit c, w1) \<Rightarrow> (Exit c, w1))"

| "evalConvertToNumberExpression h e env w =
     (case Eval_expr h e env w of
        (Done expValue, w1) \<Rightarrow>
          if isError expValue then (Done expValue, w1)
          else (case expValue of
            String v \<Rightarrow>
              (case ParseFloat h v of
                 Inl err \<Rightarrow> (Done (Error (''Eval: Cannot convert string '' @ [CHR 0x27] @ v @ [CHR 0x27]
                              @ '' to number: '' @ err)), w1)
               | Inr floatVal \<Rightarrow>
                   if CHR ''.'' \<in> set v then (Done (Float floatVal), w1)
                   else (Done (Integer (intOfFloat h floatVal)), w1))
          | Integer i \<Rightarrow> (Done expValue, w1)
          | Float f \<Rightarrow> (Done expValue, w1)
          | _ \<Rightarrow> (Done (Error (''Eval: Cannot convert type '' @ Type_obj expValue @ '' to number'')), w1))
      | (Panic m, w1) \<Rightarrow> (Panic m, w1)
      | (Exit c, w1) \<Rightarrow> (Exit c, w1))"

| "evalConvertToStringExpression h e env w =
     (case Eval_expr h e env w of
        (Done expValue, w1) \<Rightarrow>
          if isError expValue then (Done expValue, w1)
          else (Done (String (Inspect h expValue)), w1)
      | (Panic m, w1) \<Rightarrow> (Panic m, w1)
      | (Exit c, w1) \<Rightarrow> (Exit c, w1))"

  by pat_completeness auto
termination
  by (relation "measure (\<lambda>x. case x of
      Inl (Inl (Inl (h, e, env, w))) \<Rightarrow> 2 * size_option size e
    | Inl (Inl (Inr (h, operator, e, env, w))) \<Rightarrow> 2 * size_option size e + 1
    | Inl (Inr (Inl (h, l, operator, r, env, w))) \<Rightarrow> 2 * (size_option size l + size_option size r) + 1
    | Inl (Inr (Inr (h, es, env, w, results))) \<Rightarrow> 2 * size_list (size_option size) es + 1
    | Inr (Inl (Inl (h, es, env, w))) \<Rightarrow> 2 * size_list (size_option size) es + 2
    | Inr (Inl (Inr (h, l, i, env, w))) \<Rightarrow> 2 * (size_option size l + size_option size i) + 1
    | Inr (Inr (Inl (h, e, env, w))) \<Rightarrow> 2 * size_option size e + 1
    | Inr (Inr (Inr (h, e, env, w))) \<Rightarrow> 2 * size_option size e + 1)") auto

section \<open>Evaluating statements\<close>

text \<open>
  A statement yields an object or Go's \<open>nil\<close> (\<open>None\<close>: the value of a block
  with no statement), and may bind names, print and read. A \<open>while\<close> loop may run
  forever, so \<open>Eval\<close> takes fuel: \<open>None\<close> is the answer of a run that needs more.
  The functions below are the Go functions of the same names; \<open>ev\<close> is the recursive
  call of \<open>Eval\<close>. On an expression node \<open>Eval\<close> is \<open>Eval_expr\<close>.
\<close>

type_synonym 'f result = "'f Object option outcome \<times> 'f Environment \<times> world"

type_synonym 'f evaluator = "'f Node \<Rightarrow> 'f Environment \<Rightarrow> world \<Rightarrow> 'f result option"

fun evalProgram :: "'f evaluator \<Rightarrow> 'f stmt list \<Rightarrow> 'f Environment \<Rightarrow> world \<Rightarrow> 'f Object option \<Rightarrow> 'f result option" where
  "evalProgram ev [] env w result = Some (Done result, env, w)"
| "evalProgram ev (statement # rest) env w result =
     (case ev (Statement statement) env w of
        None \<Rightarrow> None
      | Some (Done (Some (ReturnValue v)), env1, w1) \<Rightarrow> Some (Done (Some v), env1, w1)
      | Some (Done (Some (Error m)), env1, w1) \<Rightarrow> Some (Done (Some (Error m)), env1, w1)
      | Some (Done r, env1, w1) \<Rightarrow> evalProgram ev rest env1 w1 r
      | Some (Panic m, env1, w1) \<Rightarrow> Some (Panic m, env1, w1)
      | Some (Exit c, env1, w1) \<Rightarrow> Some (Exit c, env1, w1))"

fun evalBlockStatement :: "'f evaluator \<Rightarrow> 'f stmt list \<Rightarrow> 'f Environment \<Rightarrow> world \<Rightarrow> 'f Object option \<Rightarrow> 'f result option" where
  "evalBlockStatement ev [] env w result = Some (Done result, env, w)"
| "evalBlockStatement ev (statement # rest) env w result =
     (case ev (Statement statement) env w of
        None \<Rightarrow> None
      | Some (Done None, env1, w1) \<Rightarrow> evalBlockStatement ev rest env1 w1 None
      | Some (Done (Some r), env1, w1) \<Rightarrow>
          if Type_obj r = RETURN_VALUE_OBJ \<or> Type_obj r = ERROR_OBJ then Some (Done (Some r), env1, w1)
          else evalBlockStatement ev rest env1 w1 (Some r)
      | Some (Panic m, env1, w1) \<Rightarrow> Some (Panic m, env1, w1)
      | Some (Exit c, env1, w1) \<Rightarrow> Some (Exit c, env1, w1))"

text \<open>The loop of \<open>evalIfStatement\<close> over the \<open>elseif\<close> branches, and what follows it.\<close>

fun evalElseIfBlocks :: "'f host \<Rightarrow> 'f evaluator \<Rightarrow> ('f expr option \<times> 'f block) list \<Rightarrow> 'f block option
    \<Rightarrow> 'f Environment \<Rightarrow> world \<Rightarrow> 'f result option" where
  "evalElseIfBlocks h ev [] elseBlock env w =
     (case elseBlock of
        Some b \<Rightarrow> ev (Block b) env w
      | None \<Rightarrow> Some (Done (Some Null), env, w))"
| "evalElseIfBlocks h ev ((cond, blk) # rest) elseBlock env w =
     (case Eval_expr h cond env w of
        (Done elseifCondition, w1) \<Rightarrow>
          if isError elseifCondition then Some (Done (Some elseifCondition), env, w1)
          else if isTruthy elseifCondition then ev (Block blk) env w1
          else evalElseIfBlocks h ev rest elseBlock env w1
      | (Panic m, w1) \<Rightarrow> Some (Panic m, env, w1)
      | (Exit c, w1) \<Rightarrow> Some (Exit c, env, w1))"

definition evalIfStatement :: "'f host \<Rightarrow> 'f evaluator \<Rightarrow> 'f expr option \<Rightarrow> 'f block \<Rightarrow> ('f expr option \<times> 'f block) list
    \<Rightarrow> 'f block option \<Rightarrow> 'f Environment \<Rightarrow> world \<Rightarrow> 'f result option" where
  "evalIfStatement h ev cond thenBlock elseIfBlocks elseBlock env w =
     (case Eval_expr h cond env w of
        (Done condition, w1) \<Rightarrow>
          if isError condition then Some (Done (Some condition), env, w1)
          else if isTruthy condition then ev (Block thenBlock) env w1
          else evalElseIfBlocks h ev elseIfBlocks elseBlock env w1
      | (Panic m, w1) \<Rightarrow> Some (Panic m, env, w1)
      | (Exit c, w1) \<Rightarrow> Some (Exit c, env, w1))"

text \<open>
  The loop of \<open>evalWhileStatement\<close>; every turn takes one unit of fuel.
  \<open>isError(blockResult)\<close> is false on \<open>nil\<close>.
\<close>

fun evalWhileLoop :: "'f host \<Rightarrow> 'f evaluator \<Rightarrow> nat \<Rightarrow> 'f expr option \<Rightarrow> 'f block
    \<Rightarrow> 'f Environment \<Rightarrow> world \<Rightarrow> 'f Object option \<Rightarrow> 'f result option" where
  "evalWhileLoop h ev 0 cond body env w result = None"
| "evalWhileLoop h ev (Suc k) cond body env w result =
     (case Eval_expr h cond env w of
        (Done condition, w1) \<Rightarrow>
          if isError condition then Some (Done (Some condition), env, w1)
          else if \<not> isTruthy condition then Some (Done result, env, w1)
          else (case ev (Block body) env w1 of
                  None \<Rightarrow> None
                | Some (Done None, env2, w2) \<Rightarrow> evalWhileLoop h ev k cond body env2 w2 None
                | Some (Done (Some blockResult), env2, w2) \<Rightarrow>
                    if Type_obj blockResult = RETURN_VALUE_OBJ then Some (Done (Some blockResult), env2, w2)
                    else if isError blockResult then Some (Done (Some blockResult), env2, w2)
                    else evalWhileLoop h ev k cond body env2 w2 (Some blockResult)
                | Some (Panic m, env2, w2) \<Rightarrow> Some (Panic m, env2, w2)
                | Some (Exit c, env2, w2) \<Rightarrow> Some (Exit c, env2, w2))
      | (Panic m, w1) \<Rightarrow> Some (Panic m, env, w1)
      | (Exit c, w1) \<Rightarrow> Some (Exit c, env, w1))"

definition evalWhileStatement :: "'f host \<Rightarrow> 'f evaluator \<Rightarrow> nat \<Rightarrow> 'f expr option \<Rightarrow> 'f block
    \<Rightarrow> 'f Environment \<Rightarrow> world \<Rightarrow> 'f result option" where
  "evalWhileStatement h ev k cond body env w = evalWhileLoop h ev k cond body env w (Some Null)"

text \<open>
  The loop of \<open>evalForEachStatement\<close> over the elements. Every turn builds
  \<open>currentEnv\<close>, a new frame whose \<open>outer\<close> is \<open>env\<close>, and evaluates the body
  in it; the frame is dropped after the turn. \<open>Set\<close> writes the frame it is given
  and never its \<open>outer\<close>, so \<open>env\<close> itself is what it was.
\<close>

fun evalForEachLoop :: "'f evaluator \<Rightarrow> string \<Rightarrow> 'f block \<Rightarrow> 'f Object list
    \<Rightarrow> 'f Environment \<Rightarrow> world \<Rightarrow> 'f Object option \<Rightarrow> 'f result option" where
  "evalForEachLoop ev var body [] env w result = Some (Done result, env, w)"
| "evalForEachLoop ev var body (element # rest) env w result =
     (let currentEnv = Set (NewEnclosedEnvironment env) var element in
      case ev (Block body) currentEnv w of
        None \<Rightarrow> None
      | Some (Done None, env1, w1) \<Rightarrow> evalForEachLoop ev var body rest env w1 None
      | Some (Done (Some blockResult), env1, w1) \<Rightarrow>
          if Type_obj blockResult = RETURN_VALUE_OBJ then Some (Done (Some blockResult), env, w1)
          else if isError blockResult then Some (Done (Some blockResult), env, w1)
          else evalForEachLoop ev var body rest env w1 (Some blockResult)
      | Some (Panic m, env1, w1) \<Rightarrow> Some (Panic m, env, w1)
      | Some (Exit c, env1, w1) \<Rightarrow> Some (Exit c, env, w1))"

definition evalForEachStatement :: "'f host \<Rightarrow> 'f evaluator \<Rightarrow> Identifier \<Rightarrow> 'f expr option \<Rightarrow> 'f block
    \<Rightarrow> 'f Environment \<Rightarrow> world \<Rightarrow> 'f result option" where
  "evalForEachStatement h ev variable iter body env w =
     (case Eval_expr h iter env w of
        (Done iterable, w1) \<Rightarrow>
          if isError iterable then Some (Done (Some iterable), env, w1)
          else (case iterable of
            List r elements \<Rightarrow>
              (case variable of MkIdentifier t var \<Rightarrow>
                 evalForEachLoop ev var body elements env w1 (Some Null))
          | _ \<Rightarrow> Some (Done (Some (Error (''Eval: '' @ [CHR 0x27] @ ''for each'' @ [CHR 0x27]
                      @ '' loop requires a list as iterable, got '' @ Type_obj iterable))), env, w1))
      | (Panic m, w1) \<Rightarrow> Some (Panic m, env, w1)
      | (Exit c, w1) \<Rightarrow> Some (Exit c, env, w1))"

definition evalLetStatement :: "'f host \<Rightarrow> Identifier \<Rightarrow> 'f expr option \<Rightarrow> 'f Environment \<Rightarrow> world \<Rightarrow> 'f result" where
  "evalLetStatement h name e env w =
     (case Eval_expr h e env w of
        (Done val, w1) \<Rightarrow>
          if isError val then (Done (Some val), env, w1)
          else (case name of MkIdentifier t n \<Rightarrow> (Done (Some val), Set env n val, w1))
      | (Panic m, w1) \<Rightarrow> (Panic m, env, w1)
      | (Exit c, w1) \<Rightarrow> (Exit c, env, w1))"

definition evalReturnStatement :: "'f host \<Rightarrow> 'f expr option \<Rightarrow> 'f Environment \<Rightarrow> world \<Rightarrow> 'f result" where
  "evalReturnStatement h e env w =
     (case Eval_expr h e env w of
        (Done val, w1) \<Rightarrow>
          if isError val then (Done (Some val), env, w1)
          else (Done (Some (ReturnValue val)), env, w1)
      | (Panic m, w1) \<Rightarrow> (Panic m, env, w1)
      | (Exit c, w1) \<Rightarrow> (Exit c, env, w1))"

text \<open>\<open>fmt.Println(s)\<close> and \<open>fmt.Print(s)\<close> on the standard output.\<close>

definition Println :: "string \<Rightarrow> world \<Rightarrow> world" where
  "Println s w = w\<lparr>stdout := stdout w @ s @ [CHR 0x0A]\<rparr>"

definition Print :: "string \<Rightarrow> world \<Rightarrow> world" where
  "Print s w = w\<lparr>stdout := stdout w @ s\<rparr>"

definition evalPrintStatement :: "'f host \<Rightarrow> 'f expr option \<Rightarrow> 'f Environment \<Rightarrow> world \<Rightarrow> 'f result" where
  "evalPrintStatement h e env w =
     (case Eval_expr h e env w of
        (Done val, w1) \<Rightarrow>
          if isError val then (Done (Some val), env, w1)
          else (Done (Some Null), env, Println (Inspect h val) w1)
      | (Panic m, w1) \<Rightarrow> (Panic m, env, w1)
      | (Exit c, w1) \<Rightarrow> (Exit c, env, w1))"

definition evalInputStatement :: "'f host \<Rightarrow> StringLiteral option \<Rightarrow> 'f Environment \<Rightarrow> world \<Rightarrow> 'f result" where
  "evalInputStatement h prompt env w =
     (let w1 = (case prompt of None \<Rightarrow> w | Some (MkStringLiteral t v) \<Rightarrow> Print v w);
          (input, rest) = Scanln h (stdin w1)
      in (Done (Some (String input)), env, w1\<lparr>stdin := rest\<rparr>))"

definition evalExitStatement :: "'f host \<Rightarrow> 'f expr option \<Rightarrow> 'f Environment \<Rightarrow> world \<Rightarrow> 'f result" where
  "evalExitStatement h code env w =
     (case code of
        None \<Rightarrow> (Exit 0, env, w)
      | Some e \<Rightarrow>
          (case Eval_expr h (Some e) env w of
             (Done codeObj, w1) \<Rightarrow>
               if isError codeObj then (Exit 1, env, Println (Inspect h codeObj) w1)
               else (case codeObj of
                 Integer intCode \<Rightarrow> (Exit (sint intCode), env, w1)
               | _ \<Rightarrow> (Exit 1, env, Println (Inspect h (Error (''Eval: Exit code must be an integer, got ''
                          @ Type_obj codeObj))) w1))
           | (Panic m, w1) \<Rightarrow> (Panic m, env, w1)
           | (Exit c, w1) \<Rightarrow> (Exit c, env, w1)))"

definition liftExpr :: "'f Object outcome \<times> world \<Rightarrow> 'f Environment \<Rightarrow> 'f result" where
  "liftExpr r env =
     (case r of
        (Done obj, w1) \<Rightarrow> (Done (Some obj), env, w1)
      | (Panic m, w1) \<Rightarrow> (Panic m, env, w1)
      | (Exit c, w1) \<Rightarrow> (Exit c, env, w1))"

fun Eval :: "'f host \<Rightarrow> nat \<Rightarrow> 'f Node \<Rightarrow> 'f Environment \<Rightarrow> world \<Rightarrow> 'f result option" where
  "Eval h 0 node env w = None"
| "Eval h (Suc n) (Program statements) env w = evalProgram (Eval h n) statements env w None"
| "Eval h (Suc n) (Expression e) env w = Some (liftExpr (Eval_expr h e env w) env)"
| "Eval h (Suc n) (Block (BlockStatement t statements)) env w = evalBlockStatement (Eval h n) statements env w None"
| "Eval h (Suc n) (Statement (ExpressionStatement t e)) env w = Eval h n (Expression e) env w"
| "Eval h (Suc n) (Statement (IfStatement t cond thenBlock elseIfBlocks elseBlock)) env w =
     evalIfStatement h (Eval h n) cond thenBlock elseIfBlocks elseBlock env w"
| "Eval h (Suc n) (Statement (WhileStatement t cond body)) env w = evalWhileStatement h (Eval h n) n cond body env w"
| "Eval h (Suc n) (Statement (ForEachStatement t variable iter body)) env w =
     evalForEachStatement h (Eval h n) variable iter body env w"
| "Eval h (Suc n) (Statement (LetStatement t name e)) env w = Some (evalLetStatement h name e env w)"
| "Eval h (Suc n) (Statement (ReturnStatement t e)) env w = Some (evalReturnStatement h e env w)"
| "Eval h (Suc n) (Statement (PrintStatement t e)) env w = Some (evalPrintStatement h e env w)"
| "Eval h (Suc n) (Statement (InputStatement t prompt)) env w = Some (evalInputStatement h prompt env w)"
| "Eval h (Suc n) (Statement (ExitStatement t code)) env w =
     Some (evalExitStatement h code env w)"

section \<open>Characters (package unicode)\<close>

text \<open>
  The lexer looks at one byte at a time and asks \<open>unicode.IsLetter\<close>,
  \<open>unicode.IsDigit\<close> and \<open>unicode.IsSpace\<close> about \<open>rune(l.ch)\<close>, a code point
  below 256. On that range the letters are \<open>A-Z\<close>, \<open>a-z\<close>, \<open>0xAA\<close>, \<open>0xB5\<close>,
  \<open>0xBA\<close>, \<open>0xC0-0xD6\<close>, \<open>0xD8-0xF6\<close> and \<open>0xF8-0xFF\<close>; the digits are
  \<open>0-9\<close>; the spaces are tab, line feed, vertical tab, form feed, carriage return,
  space, \<open>0x85\<close> and \<open>0xA0\<close>.
\<close>

definition isLetter :: "char \<Rightarrow> bool" where
  "isLetter c =
     (let n = (of_char c :: nat) in
        (65 \<le> n \<and> n \<le> 90) \<or> (97 \<le> n \<and> n \<le> 122) \<or> n = 170 \<or> n = 181 \<or> n = 186
        \<or> (192 \<le> n \<and> n \<le> 214) \<or> (216 \<le> n \<and> n \<le> 246) \<or> (248 \<le> n \<and> n \<le> 255))"

definition isDigit :: "char \<Rightarrow> bool" where
  "isDigit c = (48 \<le> (of_char c :: nat) \<and> (of_char c :: nat) \<le> 57)"

definition isSpace :: "char \<Rightarrow> bool" where
  "isSpace c =
     (let n = (of_char c :: nat) in
        n = 9 \<or> n = 10 \<or> n = 11 \<or> n = 12 \<or> n = 13 \<or> n = 32 \<or> n = 133 \<or> n = 160)"

section \<open>The lexer (package lexer)\<close>

text \<open>
  The input is a Go string: a sequence of bytes. \<open>position\<close> and \<open>readPosition\<close>
  only grow from 0; \<open>ch\<close> is a byte, 0 at the end of the input.
\<close>

record Lexer =
  input :: string
  position :: nat
  readPosition :: nat
  ch :: char
  line :: int
  column :: int
  errors :: "string list"

definition readChar :: "Lexer \<Rightarrow> Lexer" where
  "readChar l =
     l\<lparr>ch := (if length (input l) \<le> readPosition l then CHR 0x00 else input l ! readPosition l),
       position := readPosition l,
       readPosition := readPosition l + 1,
       column := column l + 1\<rparr>"

definition Lexer_New :: "string \<Rightarrow> Lexer" where
  "Lexer_New inp =
     readChar \<lparr>input = inp, position = 0, readPosition = 0, ch = CHR 0x00, line = 1, column = 1, errors = []\<rparr>"

definition peekChar :: "Lexer \<Rightarrow> char" where
  "peekChar l = (if length (input l) \<le> readPosition l then CHR 0x00 else input l ! readPosition l)"

text \<open>
  The slice \<open>s[a:b]\<close>. Go panics when \<open>a > b\<close> or \<open>b > len(s)\<close>; the lexer only
  slices its input from a position it has read to the position it has reached, in
  states where both are at most the length.
\<close>

definition slice :: "string \<Rightarrow> nat \<Rightarrow> nat \<Rightarrow> string" where
  "slice s a b = take (b - a) (drop a s)"

text \<open>
  Every loop of the lexer reads on while \<open>ch\<close> is of some kind that excludes the
  byte 0, and \<open>readChar\<close> sets \<open>ch\<close> to 0 once \<open>readPosition\<close> has reached the
  end. \<open>remaining\<close> is the measure that shows the loops end.
\<close>

definition remaining :: "Lexer \<Rightarrow> nat" where
  "remaining l = 2 * (length (input l) - readPosition l) + (if ch l = CHR 0x00 then 0 else 1)"

lemma remaining_readChar: "ch l \<noteq> CHR 0x00 \<Longrightarrow> remaining (readChar l) < remaining l"
  by (auto simp: remaining_def readChar_def)

lemma remaining_readChar_le: "remaining (readChar l) \<le> remaining l"
  by (auto simp: remaining_def readChar_def)

lemma zero_no_letter [simp]: "\<not> isLetter (CHR 0x00)"
  by (simp add: isLetter_def)

lemma zero_no_digit [simp]: "\<not> isDigit (CHR 0x00)"
  by (simp add: isDigit_def)

lemma zero_no_space [simp]: "\<not> isSpace (CHR 0x00)"
  by (simp add: isSpace_def)

lemma isSpace_not_zero: "isSpace c \<Longrightarrow> c \<noteq> CHR 0x00"
  by (auto simp: isSpace_def)

lemma isLetter_not_zero: "isLetter c \<Longrightarrow> c \<noteq> CHR 0x00"
  by (auto simp: isLetter_def)

lemma isDigit_not_zero: "isDigit c \<Longrightarrow> c \<noteq> CHR 0x00"
  by (auto simp: isDigit_def)

function skipWhitespace :: "Lexer \<Rightarrow> Lexer" where
  "skipWhitespace l =
     (if isSpace (ch l)
      then skipWhitespace (readChar (if ch l = CHR 0x0A then l\<lparr>line := line l + 1, column := 0\<rparr> else l))
      else l)"
  by pat_completeness auto
termination
proof (relation "measure remaining")
  show "wf (measure remaining)" by simp
next
  fix l :: Lexer
  assume sp: "isSpace (ch l)"
  let ?l = "if ch l = CHR 0x0A then l\<lparr>line := line l + 1, column := 0\<rparr> else l"
  have "ch ?l \<noteq> CHR 0x00"
    using isSpace_not_zero [OF sp] by simp
  then have "remaining (readChar ?l) < remaining ?l"
    by (rule remaining_readChar)
  moreover have "remaining ?l = remaining l" by (simp add: remaining_def)
  ultimately show "(readChar ?l, l) \<in> measure remaining" by simp
qed

declare skipWhitespace.simps [simp del]

text \<open>The loop of \<open>readIdentifier\<close>.\<close>

function readIdentifier_loop :: "Lexer \<Rightarrow> Lexer" where
  "readIdentifier_loop l =
     (if isLetter (ch l) \<or> isDigit (ch l) \<or> ch l = CHR ''_'' then readIdentifier_loop (readChar l) else l)"
  by pat_completeness auto
termination
  by (relation "measure remaining") (auto intro!: remaining_readChar)

declare readIdentifier_loop.simps [simp del]

definition readIdentifier :: "Lexer \<Rightarrow> string \<times> Lexer" where
  "readIdentifier l =
     (let startPos = position l;
          l1 = readIdentifier_loop l
      in (slice (input l1) startPos (position l1), l1))"

text \<open>The loop of \<open>peekKeyword\<close>, which reads letters only.\<close>

function peekKeyword_loop :: "Lexer \<Rightarrow> Lexer" where
  "peekKeyword_loop l = (if isLetter (ch l) then peekKeyword_loop (readChar l) else l)"
  by pat_completeness auto
termination
  by (relation "measure remaining") (auto intro!: remaining_readChar)

declare peekKeyword_loop.simps [simp del]

text \<open>
  \<open>peekKeyword\<close> saves \<open>position\<close>, \<open>readPosition\<close>, \<open>column\<close> and \<open>ch\<close>, skips
  the whitespace, reads a word and puts the four saved fields back. The result is the
  answer and the lexer as the call leaves it.
\<close>

definition peekKeyword :: "Lexer \<Rightarrow> string \<Rightarrow> bool \<times> Lexer" where
  "peekKeyword l keyword =
     (let currentPos = position l;
          currentReadPos = readPosition l;
          currentColumn = column l;
          currentChar = ch l;
          l1 = skipWhitespace l;
          startPos = position l1;
          l2 = peekKeyword_loop l1;
          peekedWord = slice (input l2) startPos (position l2);
          l3 = l2\<lparr>position := currentPos, readPosition := currentReadPos,
                  column := currentColumn, ch := currentChar\<rparr>
      in (peekedWord = keyword, l3))"

function readNumber_loop :: "Lexer \<Rightarrow> Lexer" where
  "readNumber_loop l = (if isDigit (ch l) \<or> ch l = CHR ''.'' then readNumber_loop (readChar l) else l)"
  by pat_completeness auto
termination
  by (relation "measure remaining") (auto intro!: remaining_readChar)

declare readNumber_loop.simps [simp del]

definition readNumber :: "Lexer \<Rightarrow> Token \<times> Lexer" where
  "readNumber l =
     (let startPos = position l;
          l1 = readNumber_loop l;
          literal = slice (input l1) startPos (position l1)
      in (\<lparr>Type = NUMBER, Literal = literal, Line = line l1,
           Column = column l1 - int (length literal) + 1\<rparr>, l1))"

function readString_loop :: "Lexer \<Rightarrow> Lexer" where
  "readString_loop l = (if ch l \<noteq> CHR 0x22 \<and> ch l \<noteq> CHR 0x00 then readString_loop (readChar l) else l)"
  by pat_completeness auto
termination
  by (relation "measure remaining") (auto intro!: remaining_readChar)

declare readString_loop.simps [simp del]

definition readString :: "Lexer \<Rightarrow> Token \<times> Lexer" where
  "readString l =
     (let startPos = position l + 1;
          l1 = readString_loop (readChar l);
          literal = slice (input l1) startPos (position l1)
      in (\<lparr>Type = STRING, Literal = literal, Line = line l1,
           Column = column l1 - int (length literal) - 1\<rparr>, l1))"

function readComment_loop :: "Lexer \<Rightarrow> Lexer" where
  "readComment_loop l = (if ch l \<noteq> CHR 0x0A \<and> ch l \<noteq> CHR 0x00 then readComment_loop (readChar l) else l)"
  by pat_completeness auto
termination
  by (relation "measure remaining") (auto intro!: remaining_readChar)

declare readComment_loop.simps [simp del]

definition readComment :: "Lexer \<Rightarrow> Token \<times> Lexer" where
  "readComment l =
     (let startPos = position l;
          l1 = readComment_loop l;
          literal = slice (input l1) startPos (position l1)
      in (\<lparr>Type = COMMENT, Literal = literal, Line = line l1,
           Column = column l1 - int (length literal) + 1\<rparr>, l1))"

text \<open>
  \<open>string(ch)\<close> of a byte is the UTF-8 text of the code point of that number: one
  byte below 128, two bytes from 128 on.
\<close>

definition stringOfByte :: "char \<Rightarrow> string" where
  "stringOfByte c =
     (let n = (of_char c :: nat) in
      if n < 128 then [c] else [char_of (192 + n div 64), char_of (128 + n mod 64)])"

definition newToken :: "TokenType \<Rightarrow> char \<Rightarrow> Token" where
  "newToken tokenType c = \<lparr>Type = tokenType, Literal = stringOfByte c, Line = 0, Column = 0\<rparr>"

text \<open>The map \<open>keywords\<close> of the package token.\<close>

definition keywordTable :: "(string \<times> TokenType) list" where
  "keywordTable =
     [(''let'', LET), (''function'', FUNCTION), (''call'', CALL), (''if'', IF), (''else'', ELSE),
      (''elseif'', ELSEIF), (''endif'', ENDIF), (''while'', WHILE), (''endwhile'', ENDWHILE),
      (''foreach'', FOREACH), (''in'', IN), (''endforeach'', ENDFOREACH), (''input'', INPUT),
      (''add'', ADD), (''sub'', SUBTRACT), (''mult'', MULTIPLY), (''div'', DIVIDE), (''and'', AND),
      (''or'', OR), (''not'', NOT), (''equals'', EQUALS), (''notequals'', NOTEQUALS),
      (''greater'', GREATERTHAN), (''less'', LESSTHAN), (''greater or equal'', GREATEREQUAL),
      (''less or equal'', LESSEQUAL), (''then'', THEN), (''do'', DO), (''end'', END), (''list'', LIST),
      (''get item at index'', GETITEMATINDEX), (''from'', FROM), (''index'', INDEX),
      (''isdefined'', ISDEFINED), (''exit'', EXIT), (''return'', RETURN),
      (''convert to number'', CONVERTTONUMBER), (''convert to string'', CONVERTTOSTRING),
      (''true'', TRUE), (''false'', FALSE), (''be'', BE), (''endfunction'', ENDFUNCTION)]"

definition LookupIdent :: "string \<Rightarrow> TokenType" where
  "LookupIdent ident = (case map_of keywordTable ident of Some tok \<Rightarrow> tok | None \<Rightarrow> IDENT)"

text \<open>
  A token whose column is counted back from the lexer's column by the length of a text.
\<close>

definition tokenAt :: "TokenType \<Rightarrow> string \<Rightarrow> Lexer \<Rightarrow> Token" where
  "tokenAt tokenType literal l =
     \<lparr>Type = tokenType, Literal = literal, Line = line l, Column = column l - int (length literal) + 1\<rparr>"

text \<open>
  The branch of \<open>NextToken\<close> for a letter: it reads an identifier and, for the first
  words of the phrases, peeks at what follows. Every \<open>return\<close> of that branch leaves
  the lexer where it is (the \<open>readChar\<close> at the end of \<open>NextToken\<close> is not reached).
\<close>

definition lexGreater :: "Lexer \<Rightarrow> Token \<times> Lexer" where
  "lexGreater l =
     (case peekKeyword l ''or'' of
        (True, l1) \<Rightarrow>
          (case readIdentifier l1 of (w1, l2) \<Rightarrow>
             (case peekKeyword l2 ''equal'' of
                (True, l3) \<Rightarrow>
                  (case readIdentifier l3 of (w2, l4) \<Rightarrow>
                     (tokenAt GREATEREQUAL ''greater or equal'' l4, l4))
              | (False, l3) \<Rightarrow> (tokenAt OR ''or'' l3, l3)))
      | (False, l1) \<Rightarrow>
          (case peekKeyword l1 ''than'' of
             (True, l2) \<Rightarrow>
               (case readIdentifier l2 of (w1, l3) \<Rightarrow> (tokenAt GREATERTHAN ''greater than'' l3, l3))
           | (False, l2) \<Rightarrow> (tokenAt GREATERTHAN ''greater'' l2, l2)))"

definition lexLess :: "Lexer \<Rightarrow> Token \<times> Lexer" where
  "lexLess l =
     (case peekKeyword l ''or'' of
        (True, l1) \<Rightarrow>
          (case readIdentifier l1 of (w1, l2) \<Rightarrow>
             (case peekKeyword l2 ''equal'' of
                (True, l3) \<Rightarrow>
                  (case readIdentifier l3 of (w2, l4) \<Rightarrow>
                     (tokenAt LESSEQUAL ''less or equal'' l4, l4))
              | (False, l3) \<Rightarrow> (tokenAt OR ''or'' l3, l3)))
      | (False, l1) \<Rightarrow>
          (case peekKeyword l1 ''than'' of
             (True, l2) \<Rightarrow>
               (case readIdentifier l2 of (w1, l3) \<Rightarrow> (tokenAt LESSTHAN ''less than'' l3, l3))
           | (False, l2) \<Rightarrow> (tokenAt LESSTHAN ''less'' l2, l2)))"

definition lexEnd :: "Lexer \<Rightarrow> Token \<times> Lexer" where
  "lexEnd l =
     (case peekKeyword l ''if'' of
        (True, l1) \<Rightarrow> (case readIdentifier l1 of (w1, l2) \<Rightarrow> (tokenAt ENDIF ''endif'' l2, l2))
      | (False, l1) \<Rightarrow>
     (case peekKeyword l1 ''while'' of
        (True, l2) \<Rightarrow> (case readIdentifier l2 of (w1, l3) \<Rightarrow> (tokenAt ENDWHILE ''endwhile'' l3, l3))
      | (False, l2) \<Rightarrow>
     (case peekKeyword l2 ''foreach'' of
        (True, l3) \<Rightarrow> (case readIdentifier l3 of (w1, l4) \<Rightarrow> (tokenAt ENDFOREACH ''endforeach'' l4, l4))
      | (False, l3) \<Rightarrow>
     (case peekKeyword l3 ''function'' of
        (True, l4) \<Rightarrow> (case readIdentifier l4 of (w1, l5) \<Rightarrow> (tokenAt ENDFUNCTION ''end function'' l5, l5))
      | (False, l4) \<Rightarrow> (tokenAt END ''end'' l4, l4)))))"

definition lexGet :: "Lexer \<Rightarrow> Token \<times> Lexer" where
  "lexGet l =
     (case peekKeyword l ''item'' of
        (True, l1) \<Rightarrow>
          (case readIdentifier l1 of (w1, l2) \<Rightarrow>
             (case peekKeyword l2 ''at'' of
                (True, l3) \<Rightarrow>
                  (case readIdentifier l3 of (w2, l4) \<Rightarrow>
                     (case peekKeyword l4 ''index'' of
                        (True, l5) \<Rightarrow>
                          (case readIdentifier l5 of (w3, l6) \<Rightarrow>
                             (tokenAt GETITEMATINDEX ''get item at index'' l6, l6))
                      | (False, l5) \<Rightarrow> (tokenAt GETITEMATINDEX ''get'' l5, l5)))
              | (False, l3) \<Rightarrow> (tokenAt GETITEMATINDEX ''get'' l3, l3)))
      | (False, l1) \<Rightarrow> (tokenAt GETITEMATINDEX ''get'' l1, l1))"

definition lexIs :: "Lexer \<Rightarrow> Token \<times> Lexer" where
  "lexIs l =
     (case peekKeyword l ''defined'' of
        (True, l1) \<Rightarrow> (case readIdentifier l1 of (w1, l2) \<Rightarrow> (tokenAt ISDEFINED ''is defined'' l2, l2))
      | (False, l1) \<Rightarrow> (tokenAt ISDEFINED ''is'' l1, l1))"

definition lexConvert :: "Lexer \<Rightarrow> Token \<times> Lexer" where
  "lexConvert l =
     (case peekKeyword l ''to'' of
        (True, l1) \<Rightarrow>
          (case readIdentifier l1 of (w1, l2) \<Rightarrow>
             (case peekKeyword l2 ''number'' of
                (True, l3) \<Rightarrow>
                  (case readIdentifier l3 of (w2, l4) \<Rightarrow>
                     (tokenAt CONVERTTONUMBER ''convert to number'' l4, l4))
              | (False, l3) \<Rightarrow>
                  (case peekKeyword l3 ''string'' of
                     (True, l4) \<Rightarrow>
                       (case readIdentifier l4 of (w2, l5) \<Rightarrow>
                          (tokenAt CONVERTTOSTRING ''convert to string'' l5, l5))
                   | (False, l4) \<Rightarrow> (tokenAt CONVERTTONUMBER ''convert'' l4, l4))))
      | (False, l1) \<Rightarrow> (tokenAt CONVERTTONUMBER ''convert'' l1, l1))"

definition lexWord :: "Lexer \<Rightarrow> Token \<times> Lexer" where
  "lexWord l =
     (case readIdentifier l of (ident, l1) \<Rightarrow>
        if ident = ''greater'' then lexGreater l1
        else if ident = ''less'' then lexLess l1
        else if ident = ''end'' then lexEnd l1
        else if ident = ''get'' then lexGet l1
        else if ident = ''is'' then lexIs l1
        else if ident = ''convert'' then lexConvert l1
        else (tokenAt (LookupIdent ident) ident l1, l1))"

lemma remaining_skipWhitespace: "remaining (skipWhitespace l) \<le> remaining l"
proof (induction l rule: skipWhitespace.induct)
  case (1 l)
  show ?case
  proof (cases "isSpace (ch l)")
    case True
    let ?l = "if ch l = CHR 0x0A then l\<lparr>line := line l + 1, column := 0\<rparr> else l"
    have "remaining (skipWhitespace (readChar ?l)) \<le> remaining (readChar ?l)"
      using "1.IH" True by simp
    also have "\<dots> \<le> remaining ?l" by (rule remaining_readChar_le)
    also have "\<dots> = remaining l" by (simp add: remaining_def)
    finally show ?thesis using True by (simp add: skipWhitespace.simps [of l])
  next
    case False
    then show ?thesis by (simp add: skipWhitespace.simps [of l])
  qed
qed

lemma remaining_readComment_loop: "remaining (readComment_loop l) \<le> remaining l"
proof (induction l rule: readComment_loop.induct)
  case (1 l)
  show ?case
  proof (cases "ch l \<noteq> CHR 0x0A \<and> ch l \<noteq> CHR 0x00")
    case True
    then have eq: "readComment_loop l = readComment_loop (readChar l)"
      by (simp add: readComment_loop.simps [of l])
    have "remaining (readComment_loop (readChar l)) \<le> remaining (readChar l)"
      using "1.IH" True by simp
    also have "\<dots> \<le> remaining l" by (rule remaining_readChar_le)
    finally show ?thesis unfolding eq .
  next
    case False
    then show ?thesis by (auto simp: readComment_loop.simps [of l])
  qed
qed

lemma remaining_readComment: "ch l = CHR ''#'' \<Longrightarrow> remaining (snd (readComment l)) < remaining l"
proof -
  assume h: "ch l = CHR ''#''"
  have "readComment_loop l = readComment_loop (readChar l)"
    using h by (simp add: readComment_loop.simps [of l])
  moreover have "remaining (readComment_loop (readChar l)) \<le> remaining (readChar l)"
    by (rule remaining_readComment_loop)
  moreover have "remaining (readChar l) < remaining l"
    using h by (intro remaining_readChar) simp
  ultimately show ?thesis by (simp add: readComment_def Let_def)
qed

function NextToken :: "Lexer \<Rightarrow> Token \<times> Lexer" where
  "NextToken l =
     (let l1 = skipWhitespace l in
      if ch l1 = CHR 0x00
        then ((newToken EOF (ch l1))\<lparr>Line := line l1, Column := column l1\<rparr>, readChar l1)
      else if ch l1 = CHR ''#''
        then NextToken (snd (readComment l1))
      else if ch l1 = CHR 0x22
        then (case readString l1 of (tok, l2) \<Rightarrow> (tok, readChar l2))
      else if isLetter (ch l1) then lexWord l1
      else if isDigit (ch l1) then readNumber l1
      else ((newToken ILLEGAL (ch l1))\<lparr>Line := line l1, Column := column l1\<rparr>, readChar l1))"
  by pat_completeness auto
termination
proof (relation "measure remaining")
  show "wf (measure remaining)" by simp
next
  fix l l1 :: Lexer
  assume l1: "l1 = skipWhitespace l" and "ch l1 \<noteq> CHR 0x00" and h: "ch l1 = CHR ''#''"
  have "remaining (snd (readComment l1)) < remaining l1"
    using h by (rule remaining_readComment)
  also have "\<dots> \<le> remaining l"
    unfolding l1 by (rule remaining_skipWhitespace)
  finally show "(snd (readComment l1), l) \<in> measure remaining" by simp
qed

declare NextToken.simps [simp del]

section \<open>The parser (package parser)\<close>

text \<open>
  The parser holds its lexer (the field \<open>l\<close>, here \<open>lexer\<close>), the current and the next
  token, and its diagnostics (the field \<open>errors\<close>, here \<open>perrors\<close>: the lexer's
  record has a field of that name). Its three maps of parse functions are filled once,
  by \<open>registerParseFunctions\<close>, and never change: they are the constants
  \<open>prefixParseFns\<close>, \<open>infixParseFns\<close> and \<open>statementParseFns\<close> below.
\<close>

record Parser =
  lexer :: Lexer
  curToken :: Token
  peekToken :: Token
  perrors :: "string list"

definition nextToken :: "Parser \<Rightarrow> Parser" where
  "nextToken p =
     (case NextToken (lexer p) of
        (tok, l1) \<Rightarrow> p\<lparr>curToken := peekToken p, peekToken := tok, lexer := l1\<rparr>)"

text \<open>\<open>New\<close>: both tokens start as the zero value of \<open>token.Token\<close>.\<close>

definition Parser_New :: "Lexer \<Rightarrow> Parser" where
  "Parser_New l0 =
     nextToken (nextToken
       \<lparr>lexer = l0,
        curToken = \<lparr>Type = '''', Literal = '''', Line = 0, Column = 0\<rparr>,
        peekToken = \<lparr>Type = '''', Literal = '''', Line = 0, Column = 0\<rparr>,
        perrors = []\<rparr>)"

definition peekError :: "Parser \<Rightarrow> TokenType \<Rightarrow> Parser" where
  "peekError p t =
     p\<lparr>perrors := perrors p @
         [''expected next token to be '' @ t @ '', got '' @ Type (peekToken p)
          @ '' instead at line '' @ itoa (Line (peekToken p))
          @ '', column '' @ itoa (Column (peekToken p))]\<rparr>"

definition curTokenIs :: "Parser \<Rightarrow> TokenType \<Rightarrow> bool" where
  "curTokenIs p t = (Type (curToken p) = t)"

definition peekTokenIs :: "Parser \<Rightarrow> TokenType \<Rightarrow> bool" where
  "peekTokenIs p t = (Type (peekToken p) = t)"

definition expectPeek :: "Parser \<Rightarrow> TokenType \<Rightarrow> bool \<times> Parser" where
  "expectPeek p t = (if peekTokenIs p t then (True, nextToken p) else (False, peekError p t))"

text \<open>The precedences: the constants that follow \<open>iota\<close>, and the map \<open>precedence\<close>.\<close>

definition LOWEST :: int where "LOWEST = 1"
definition EQUALS_PREC :: int where "EQUALS_PREC = 2"
definition LESSGREATER_PREC :: int where "LESSGREATER_PREC = 3"
definition SUM_PREC :: int where "SUM_PREC = 4"
definition PRODUCT_PREC :: int where "PRODUCT_PREC = 5"
definition PREFIX_PREC :: int where "PREFIX_PREC = 6"
definition CALL_PREC :: int where "CALL_PREC = 7"
definition INDEX_PREC :: int where "INDEX_PREC = 8"

definition precedence :: "(TokenType \<times> int) list" where
  "precedence =
     [(EQUALS, EQUALS_PREC), (NOTEQUALS, EQUALS_PREC), (GREATERTHAN, LESSGREATER_PREC),
      (LESSTHAN, LESSGREATER_PREC), (GREATEREQUAL, LESSGREATER_PREC), (LESSEQUAL, LESSGREATER_PREC),
      (ADD, SUM_PREC), (SUBTRACT, SUM_PREC), (MULTIPLY, PRODUCT_PREC), (DIVIDE, PRODUCT_PREC),
      (OR, EQUALS_PREC), (AND, EQUALS_PREC), (CALL, CALL_PREC), (GETITEMATINDEX, INDEX_PREC)]"

definition peekPrecedence :: "Parser \<Rightarrow> int" where
  "peekPrecedence p = (case map_of precedence (Type (peekToken p)) of Some v \<Rightarrow> v | None \<Rightarrow> LOWEST)"

definition curPrecedence :: "Parser \<Rightarrow> int" where
  "curPrecedence p = (case map_of precedence (Type (curToken p)) of Some v \<Rightarrow> v | None \<Rightarrow> LOWEST)"

definition noPrefixParseFnError :: "Parser \<Rightarrow> TokenType \<Rightarrow> Parser" where
  "noPrefixParseFnError p t =
     p\<lparr>perrors := perrors p @
         [''no prefix parse function for '' @ t @ '' found at line '' @ itoa (Line (curToken p))
          @ '', column '' @ itoa (Column (curToken p))]\<rparr>"

text \<open>
  \<open>%q\<close> of a string: the text between double quotes, with a backslash before a double
  quote and before a backslash. (Go also writes control and non-ASCII bytes as escapes;
  the text of a \<open>NUMBER\<close> token is made of digits and dots.)
\<close>

definition quoted :: "string \<Rightarrow> string" where
  "quoted s =
     [CHR 0x22] @ concat (map (\<lambda>c. if c = CHR 0x22 \<or> c = CHR 0x5C then [CHR 0x5C, c] else [c]) s) @ [CHR 0x22]"

subsection \<open>The parse functions and their registration\<close>

text \<open>
  The maps hold method values. A function that has the type of a map's values is a
  constructor of the datatype of that map's values, registered or not; calling a value
  of the datatype calls its function (\<open>callPrefix\<close>, \<open>callStatement\<close>).
\<close>

datatype prefixParseFn =
    FnParseIdentifier
  | FnParseIntegerLiteral
  | FnParseFloatLiteral
  | FnParseStringLiteral
  | FnParseBoolean
  | FnParsePrefixExpression
  | FnParseGroupedExpression
  | FnParseFunctionStatement
  | FnParseListLiteral
  | FnParseGetItemAtIndexPrefix
  | FnParseIsDefinedExpression
  | FnParseConvertToNumberExpression
  | FnParseConvertToStringExpression

datatype infixParseFn =
    FnParseInfixExpression
  | FnParseGetItemAtIndexExpression
  | FnParseGetItemAtIndexInfix
  | FnParseCallExpressionInfix

datatype statementParseFn =
    FnParseLetStatement
  | FnParseIfStatement
  | FnParsePrintStatement
  | FnParseWhileStatement
  | FnParseForEachStatement
  | FnParseReturnStatement
  | FnParseExitStatement
  | FnParseInputStatement

text \<open>\<open>registerParseFunctions\<close>: what the three maps hold after it.\<close>

definition prefixParseFns :: "(TokenType \<times> prefixParseFn) list" where
  "prefixParseFns =
     [(IDENT, FnParseIdentifier), (NUMBER, FnParseIntegerLiteral), (STRING, FnParseStringLiteral),
      (TRUE, FnParseBoolean), (FALSE, FnParseBoolean), (FUNCTION, FnParseFunctionStatement),
      (LIST, FnParseListLiteral), (GETITEMATINDEX, FnParseGetItemAtIndexPrefix),
      (ISDEFINED, FnParseIsDefinedExpression), (CONVERTTONUMBER, FnParseConvertToNumberExpression),
      (CONVERTTOSTRING, FnParseConvertToStringExpression)]"

definition infixParseFns :: "(TokenType \<times> infixParseFn) list" where
  "infixParseFns = []"

definition statementParseFns :: "(TokenType \<times> statementParseFn) list" where
  "statementParseFns =
     [(LET, FnParseLetStatement), (IF, FnParseIfStatement), (PRINT, FnParsePrintStatement),
      (WHILE, FnParseWhileStatement), (FOREACH, FnParseForEachStatement),
      (RETURN, FnParseReturnStatement), (EXIT, FnParseExitStatement), (INPUT, FnParseInputStatement)]"

text \<open>
  A parse function returns its node, or Go's \<open>nil\<close>, and the parser as it leaves it.
  The parse functions call one another through \<open>parseExpression\<close> and
  \<open>parseStatement\<close>, as deep as the program text is nested, and their loops run as
  long as tokens of some kind come: the model counts both down from a number \<open>n\<close>, and a
  parse function that would go deeper or longer returns \<open>None\<close>. A parse function takes
  \<open>parseExpression\<close> and \<open>parseStatement\<close> as the arguments \<open>pe\<close> and \<open>ps\<close>, and
  the length \<open>k\<close> its loops may have.
\<close>

type_synonym 'a parsed = "('a \<times> Parser) option"

type_synonym 'f parseExpressionFn = "int \<Rightarrow> Parser \<Rightarrow> 'f expr option parsed"

type_synonym 'f parseStatementFn = "Parser \<Rightarrow> 'f stmt option parsed"

definition parseIdentifier :: "Parser \<Rightarrow> 'f expr option \<times> Parser" where
  "parseIdentifier p = (Some (Identifier (MkIdentifier (curToken p) (Literal (curToken p)))), p)"

definition parseIntegerLiteral :: "'f host \<Rightarrow> Parser \<Rightarrow> 'f expr option \<times> Parser" where
  "parseIntegerLiteral h p =
     (case ParseInt h (Literal (curToken p)) of
        None \<Rightarrow>
          (None, p\<lparr>perrors := perrors p @
             [''could not parse '' @ quoted (Literal (curToken p)) @ '' as integer at line ''
              @ itoa (Line (curToken p)) @ '', column '' @ itoa (Column (curToken p))]\<rparr>)
      | Some v \<Rightarrow> (Some (IntegerLiteral (curToken p) v), p))"

definition parseFloatLiteral :: "'f host \<Rightarrow> Parser \<Rightarrow> 'f expr option \<times> Parser" where
  "parseFloatLiteral h p =
     (case ParseFloat h (Literal (curToken p)) of
        Inl err \<Rightarrow>
          (None, p\<lparr>perrors := perrors p @
             [''could not parse '' @ quoted (Literal (curToken p)) @ '' as float at line ''
              @ itoa (Line (curToken p)) @ '', column '' @ itoa (Column (curToken p))]\<rparr>)
      | Inr v \<Rightarrow> (Some (FloatLiteral (curToken p) v), p))"

definition parseStringLiteral :: "Parser \<Rightarrow> 'f expr option \<times> Parser" where
  "parseStringLiteral p = (Some (StringLiteral (MkStringLiteral (curToken p) (Literal (curToken p)))), p)"

definition parseBoolean :: "Parser \<Rightarrow> 'f expr option \<times> Parser" where
  "parseBoolean p = (Some (BooleanLiteral (curToken p) (curTokenIs p TRUE)), p)"

definition parsePrefixExpression :: "'f parseExpressionFn \<Rightarrow> Parser \<Rightarrow> 'f expr option parsed" where
  "parsePrefixExpression pe p =
     (case pe PREFIX_PREC (nextToken p) of
        None \<Rightarrow> None
      | Some (right, p1) \<Rightarrow> Some (Some (PrefixExpression (curToken p) (Literal (curToken p)) right), p1))"

definition parseInfixExpression :: "'f parseExpressionFn \<Rightarrow> 'f expr option \<Rightarrow> Parser \<Rightarrow> 'f expr option parsed" where
  "parseInfixExpression pe left p =
     (case pe (curPrecedence p) (nextToken p) of
        None \<Rightarrow> None
      | Some (right, p1) \<Rightarrow> Some (Some (InfixExpression (curToken p) left (Literal (curToken p)) right), p1))"

definition parseGroupedExpression :: "'f parseExpressionFn \<Rightarrow> Parser \<Rightarrow> 'f expr option parsed" where
  "parseGroupedExpression pe p = pe LOWEST (nextToken p)"

text \<open>
  \<open>parseBlockStatement\<close>: the block's token is the current one; the loop reads
  statements up to a token that ends a block (\<open>ENDFUNCTION\<close> is not one of them) and
  leaves that token the current one.
\<close>

definition endsBlock :: "Parser \<Rightarrow> bool" where
  "endsBlock p =
     (curTokenIs p ENDIF \<or> curTokenIs p ELSE \<or> curTokenIs p ELSEIF \<or> curTokenIs p ENDWHILE
      \<or> curTokenIs p ENDFOREACH \<or> curTokenIs p END \<or> curTokenIs p EOF)"

definition appendStatement :: "'f stmt list \<Rightarrow> 'f stmt option \<Rightarrow> 'f stmt list" where
  "appendStatement statements stmt = (case stmt of None \<Rightarrow> statements | Some s \<Rightarrow> statements @ [s])"

fun parseBlockStatement_loop :: "'f parseStatementFn \<Rightarrow> nat \<Rightarrow> 'f stmt list \<Rightarrow> Parser \<Rightarrow> 'f stmt list parsed" where
  "parseBlockStatement_loop ps 0 statements p = (if endsBlock p then Some (statements, p) else None)"
| "parseBlockStatement_loop ps (Suc k) statements p =
     (if endsBlock p then Some (statements, p)
      else (case ps p of
              None \<Rightarrow> None
            | Some (stmt, p1) \<Rightarrow> parseBlockStatement_loop ps k (appendStatement statements stmt) (nextToken p1)))"

definition parseBlockStatement :: "'f parseStatementFn \<Rightarrow> nat \<Rightarrow> Parser \<Rightarrow> 'f block parsed" where
  "parseBlockStatement ps k p =
     (case parseBlockStatement_loop ps k [] (nextToken p) of
        None \<Rightarrow> None
      | Some (statements, p1) \<Rightarrow> Some (BlockStatement (curToken p) statements, p1))"

text \<open>
  The loop of \<open>parseIfStatement\<close> over the \<open>elseif\<close> blocks. Its result is \<open>None\<close>
  where the function returns \<open>nil\<close> from inside the loop.
\<close>

fun parseElseIfBlocks :: "'f parseExpressionFn \<Rightarrow> 'f parseStatementFn \<Rightarrow> nat \<Rightarrow> nat
    \<Rightarrow> ('f expr option \<times> 'f block) list \<Rightarrow> Parser \<Rightarrow> ('f expr option \<times> 'f block) list option parsed" where
  "parseElseIfBlocks pe ps k 0 blocks p = (if peekTokenIs p ELSEIF then None else Some (Some blocks, p))"
| "parseElseIfBlocks pe ps k (Suc j) blocks p =
     (if peekTokenIs p ELSEIF
      then (case pe LOWEST (nextToken p) of
              None \<Rightarrow> None
            | Some (cond, p1) \<Rightarrow>
                (case expectPeek p1 THEN of
                   (False, p2) \<Rightarrow> Some (None, p2)
                 | (True, p2) \<Rightarrow>
                     (case parseBlockStatement ps k p2 of
                        None \<Rightarrow> None
                      | Some (block, p3) \<Rightarrow> parseElseIfBlocks pe ps k j (blocks @ [(cond, block)]) p3)))
      else Some (Some blocks, p))"

definition parseElseBlock :: "'f parseStatementFn \<Rightarrow> nat \<Rightarrow> Parser \<Rightarrow> 'f block option parsed" where
  "parseElseBlock ps k p =
     (if peekTokenIs p ELSE
      then (case parseBlockStatement ps k (nextToken p) of
              None \<Rightarrow> None
            | Some (block, p1) \<Rightarrow> Some (Some block, p1))
      else Some (None, p))"

definition parseIfStatement :: "'f parseExpressionFn \<Rightarrow> 'f parseStatementFn \<Rightarrow> nat \<Rightarrow> Parser \<Rightarrow> 'f stmt option parsed" where
  "parseIfStatement pe ps k p =
     (case pe LOWEST (nextToken p) of
        None \<Rightarrow> None
      | Some (cond, p1) \<Rightarrow>
          (case expectPeek p1 THEN of
             (False, p2) \<Rightarrow> Some (None, p2)
           | (True, p2) \<Rightarrow>
               (case parseBlockStatement ps k p2 of
                  None \<Rightarrow> None
                | Some (thenBlock, p3) \<Rightarrow>
                    (case parseElseIfBlocks pe ps k k [] p3 of
                       None \<Rightarrow> None
                     | Some (None, p4) \<Rightarrow> Some (None, p4)
                     | Some (Some elseIfBlocks, p4) \<Rightarrow>
                         (case parseElseBlock ps k p4 of
                            None \<Rightarrow> None
                          | Some (elseBlock, p5) \<Rightarrow>
                              (case expectPeek p5 ENDIF of
                                 (False, p6) \<Rightarrow> Some (None, p6)
                               | (True, p6) \<Rightarrow>
                                   Some (Some (IfStatement (curToken p) cond thenBlock elseIfBlocks elseBlock), p6)))))))"

definition parseWhileStatement :: "'f parseExpressionFn \<Rightarrow> 'f parseStatementFn \<Rightarrow> nat \<Rightarrow> Parser \<Rightarrow> 'f stmt option parsed" where
  "parseWhileStatement pe ps k p =
     (case pe LOWEST (nextToken p) of
        None \<Rightarrow> None
      | Some (cond, p1) \<Rightarrow>
          (case expectPeek p1 DO of
             (False, p2) \<Rightarrow> Some (None, p2)
           | (True, p2) \<Rightarrow>
               (case parseBlockStatement ps k p2 of
                  None \<Rightarrow> None
                | Some (body, p3) \<Rightarrow>
                    (case expectPeek p3 ENDWHILE of
                       (False, p4) \<Rightarrow> Some (None, p4)
                     | (True, p4) \<Rightarrow> Some (Some (WhileStatement (curToken p) cond body), p4)))))"

definition parseForEachStatement :: "'f parseExpressionFn \<Rightarrow> 'f parseStatementFn \<Rightarrow> nat \<Rightarrow> Parser \<Rightarrow> 'f stmt option parsed" where
  "parseForEachStatement pe ps k p =
     (case expectPeek p IDENT of
        (False, p1) \<Rightarrow> Some (None, p1)
      | (True, p1) \<Rightarrow>
          (case expectPeek p1 IN of
             (False, p2) \<Rightarrow> Some (None, p2)
           | (True, p2) \<Rightarrow>
               (case pe LOWEST (nextToken p2) of
                  None \<Rightarrow> None
                | Some (iterable, p3) \<Rightarrow>
                    (case expectPeek p3 DO of
                       (False, p4) \<Rightarrow> Some (None, p4)
                     | (True, p4) \<Rightarrow>
                         (case parseBlockStatement ps k p4 of
                            None \<Rightarrow> None
                          | Some (body, p5) \<Rightarrow>
                              (case expectPeek p5 ENDFOREACH of
                                 (False, p6) \<Rightarrow> Some (None, p6)
                               | (True, p6) \<Rightarrow>
                                   Some (Some (ForEachStatement (curToken p)
                                     (MkIdentifier (curToken p1) (Literal (curToken p1))) iterable body), p6)))))))"

text \<open>The loop of \<open>parseFunctionParameters\<close>, entered with the first parameter read.\<close>

fun parseFunctionParameters_loop :: "nat \<Rightarrow> Identifier list \<Rightarrow> Parser \<Rightarrow> Identifier list parsed" where
  "parseFunctionParameters_loop 0 identifiers p = (if peekTokenIs p IDENT then None else Some (identifiers, p))"
| "parseFunctionParameters_loop (Suc k) identifiers p =
     (if peekTokenIs p IDENT
      then parseFunctionParameters_loop k
             (identifiers @ [MkIdentifier (curToken (nextToken p)) (Literal (curToken (nextToken p)))]) (nextToken p)
      else Some (identifiers, p))"

definition parseFunctionParameters :: "nat \<Rightarrow> Parser \<Rightarrow> Identifier list parsed" where
  "parseFunctionParameters k p =
     (if \<not> curTokenIs p IDENT then Some ([], p)
      else parseFunctionParameters_loop k [MkIdentifier (curToken p) (Literal (curToken p))] p)"

definition parseFunctionStatement :: "'f parseStatementFn \<Rightarrow> nat \<Rightarrow> Parser \<Rightarrow> 'f expr option parsed" where
  "parseFunctionStatement ps k p =
     (case (if peekTokenIs p IDENT then parseFunctionParameters k (nextToken p) else Some ([], p)) of
        None \<Rightarrow> None
      | Some (parameters, p1) \<Rightarrow>
          (case parseBlockStatement ps k p1 of
             None \<Rightarrow> None
           | Some (body, p2) \<Rightarrow>
               (case expectPeek p2 ENDFUNCTION of
                  (True, p3) \<Rightarrow> Some (Some (FunctionLiteral (curToken p) parameters body), p3)
                | (False, p3) \<Rightarrow>
                    (case expectPeek p3 END of
                       (True, p4) \<Rightarrow> Some (Some (FunctionLiteral (curToken p) parameters body), p4)
                     | (False, p4) \<Rightarrow> Some (None, p4)))))"

text \<open>
  The loop of \<open>parseCallArguments\<close> and of \<open>parseListLiteral\<close>: one more expression
  as long as the next token is of a kind that starts one.
\<close>

definition startsExpression :: "Parser \<Rightarrow> bool" where
  "startsExpression p =
     (peekTokenIs p IDENT \<or> peekTokenIs p NUMBER \<or> peekTokenIs p STRING \<or> peekTokenIs p TRUE
      \<or> peekTokenIs p FALSE \<or> peekTokenIs p LIST \<or> peekTokenIs p GETITEMATINDEX
      \<or> peekTokenIs p CONVERTTONUMBER \<or> peekTokenIs p CONVERTTOSTRING)"

fun parseExpressions_loop :: "'f parseExpressionFn \<Rightarrow> nat \<Rightarrow> 'f expr option list \<Rightarrow> Parser \<Rightarrow> 'f expr option list parsed" where
  "parseExpressions_loop pe 0 args p = (if startsExpression p then None else Some (args, p))"
| "parseExpressions_loop pe (Suc k) args p =
     (if startsExpression p
      then (case pe LOWEST (nextToken p) of
              None \<Rightarrow> None
            | Some (e, p1) \<Rightarrow> parseExpressions_loop pe k (args @ [e]) p1)
      else Some (args, p))"

definition parseCallArguments :: "'f parseExpressionFn \<Rightarrow> nat \<Rightarrow> Parser \<Rightarrow> 'f expr option list parsed" where
  "parseCallArguments pe k p =
     (if peekTokenIs p END then Some ([], nextToken p)
      else (case pe LOWEST (nextToken p) of
              None \<Rightarrow> None
            | Some (e, p1) \<Rightarrow> parseExpressions_loop pe k [e] p1))"

definition parseCallStatement :: "'f parseExpressionFn \<Rightarrow> nat \<Rightarrow> Parser \<Rightarrow> 'f expr option parsed" where
  "parseCallStatement pe k p =
     (case pe CALL_PREC (nextToken p) of
        None \<Rightarrow> None
      | Some (function, p1) \<Rightarrow>
          (case parseCallArguments pe k p1 of
             None \<Rightarrow> None
           | Some (args, p2) \<Rightarrow> Some (Some (CallExpression (curToken p) function args), p2)))"

definition parseCallExpressionInfix :: "'f parseExpressionFn \<Rightarrow> nat \<Rightarrow> 'f expr option \<Rightarrow> Parser \<Rightarrow> 'f expr option parsed" where
  "parseCallExpressionInfix pe k function p =
     (case parseCallArguments pe k p of
        None \<Rightarrow> None
      | Some (args, p1) \<Rightarrow> Some (Some (CallExpression (curToken p) function args), p1))"

definition parseListLiteral :: "'f parseExpressionFn \<Rightarrow> nat \<Rightarrow> Parser \<Rightarrow> 'f expr option parsed" where
  "parseListLiteral pe k p =
     (if peekTokenIs p END then Some (Some (ListLiteral (curToken p) []), nextToken p)
      else (case pe LOWEST (nextToken p) of
              None \<Rightarrow> None
            | Some (e, p1) \<Rightarrow>
                (case parseExpressions_loop pe k [e] p1 of
                   None \<Rightarrow> None
                 | Some (elements, p2) \<Rightarrow> Some (Some (ListLiteral (curToken p) elements), p2))))"

definition parseGetItemAtIndexExpression :: "'f parseExpressionFn \<Rightarrow> 'f expr option \<Rightarrow> Parser \<Rightarrow> 'f expr option parsed" where
  "parseGetItemAtIndexExpression pe list p =
     (case expectPeek p INDEX of
        (False, p1) \<Rightarrow> Some (None, p1)
      | (True, p1) \<Rightarrow>
          (case pe LOWEST (nextToken p1) of
             None \<Rightarrow> None
           | Some (index, p2) \<Rightarrow>
               (case expectPeek p2 FROM of
                  (False, p3) \<Rightarrow> Some (None, p3)
                | (True, p3) \<Rightarrow> Some (Some (GetItemAtIndexExpression (curToken p) list index), nextToken p3))))"

text \<open>\<open>parseGetItemAtIndexInfix\<close> has the body of \<open>parseGetItemAtIndexExpression\<close>.\<close>

definition parseGetItemAtIndexInfix :: "'f parseExpressionFn \<Rightarrow> 'f expr option \<Rightarrow> Parser \<Rightarrow> 'f expr option parsed" where
  "parseGetItemAtIndexInfix pe left p = parseGetItemAtIndexExpression pe left p"

definition parseGetItemAtIndexPrefix :: "'f parseExpressionFn \<Rightarrow> Parser \<Rightarrow> 'f expr option parsed" where
  "parseGetItemAtIndexPrefix pe p =
     (case pe LOWEST (nextToken p) of
        None \<Rightarrow> None
      | Some (indexExp, p1) \<Rightarrow>
          (case expectPeek p1 FROM of
             (False, p2) \<Rightarrow> Some (None, p2)
           | (True, p2) \<Rightarrow>
               (case pe LOWEST (nextToken p2) of
                  None \<Rightarrow> None
                | Some (listExp, p3) \<Rightarrow> Some (Some (GetItemAtIndexExpression (curToken p3) listExp indexExp), p3))))"

definition parseIsDefinedExpression :: "Parser \<Rightarrow> 'f expr option \<times> Parser" where
  "parseIsDefinedExpression p =
     (case expectPeek p IDENT of
        (False, p1) \<Rightarrow> (None, p1)
      | (True, p1) \<Rightarrow>
          (Some (IsDefinedExpression (curToken p) (MkIdentifier (curToken p1) (Literal (curToken p1)))), p1))"

definition parseConvertToNumberExpression :: "'f parseExpressionFn \<Rightarrow> Parser \<Rightarrow> 'f expr option parsed" where
  "parseConvertToNumberExpression pe p =
     (case pe LOWEST (nextToken p) of
        None \<Rightarrow> None
      | Some (e, p1) \<Rightarrow> Some (Some (ConvertToNumberExpression (curToken p) e), p1))"

definition parseConvertToStringExpression :: "'f parseExpressionFn \<Rightarrow> Parser \<Rightarrow> 'f expr option parsed" where
  "parseConvertToStringExpression pe p =
     (case pe LOWEST (nextToken p) of
        None \<Rightarrow> None
      | Some (e, p1) \<Rightarrow> Some (Some (ConvertToStringExpression (curToken p) e), p1))"

text \<open>
  The statements. A statement function that returns a \<open>nil\<close> pointer gives no
  statement (\<open>parseStatement\<close>'s callers test \<open>stmt != nil\<close>). What
  \<open>parseLetStatement\<close> prints while it works is not part of the model.
\<close>

definition parseLetStatement :: "'f parseExpressionFn \<Rightarrow> Parser \<Rightarrow> 'f stmt option parsed" where
  "parseLetStatement pe p =
     (case expectPeek p IDENT of
        (False, p1) \<Rightarrow> Some (None, p1)
      | (True, p1) \<Rightarrow>
          (case expectPeek p1 BE of
             (False, p2) \<Rightarrow> Some (None, p2)
           | (True, p2) \<Rightarrow>
               (case pe LOWEST (nextToken p2) of
                  None \<Rightarrow> None
                | Some (v, p3) \<Rightarrow>
                    Some (Some (LetStatement (curToken p)
                      (MkIdentifier (curToken p1) (Literal (curToken p1))) v), p3))))"

definition parseReturnStatement :: "'f parseExpressionFn \<Rightarrow> Parser \<Rightarrow> 'f stmt option parsed" where
  "parseReturnStatement pe p =
     (case pe LOWEST (nextToken p) of
        None \<Rightarrow> None
      | Some (v, p1) \<Rightarrow> Some (Some (ReturnStatement (curToken p) v), p1))"

definition parseExpressionStatement :: "'f parseExpressionFn \<Rightarrow> Parser \<Rightarrow> 'f stmt option parsed" where
  "parseExpressionStatement pe p =
     (case pe LOWEST p of
        None \<Rightarrow> None
      | Some (e, p1) \<Rightarrow> Some (Some (ExpressionStatement (curToken p) e), p1))"

definition parsePrintStatement :: "'f parseExpressionFn \<Rightarrow> Parser \<Rightarrow> 'f stmt option parsed" where
  "parsePrintStatement pe p =
     (case pe LOWEST (nextToken p) of
        None \<Rightarrow> None
      | Some (v, p1) \<Rightarrow> Some (Some (PrintStatement (curToken p) v), p1))"

definition parseInputStatement :: "Parser \<Rightarrow> 'f stmt option \<times> Parser" where
  "parseInputStatement p =
     (if peekTokenIs p STRING
      then (Some (InputStatement (curToken p)
              (Some (MkStringLiteral (curToken (nextToken p)) (Literal (curToken (nextToken p)))))), nextToken p)
      else (Some (InputStatement (curToken p) None), p))"

definition parseExitStatement :: "'f parseExpressionFn \<Rightarrow> Parser \<Rightarrow> 'f stmt option parsed" where
  "parseExitStatement pe p =
     (if \<not> peekTokenIs p END \<and> \<not> peekTokenIs p EOF
      then (case pe LOWEST (nextToken p) of
              None \<Rightarrow> None
            | Some (code, p1) \<Rightarrow> Some (Some (ExitStatement (curToken p) code), p1))
      else Some (Some (ExitStatement (curToken p) None), p))"

subsection \<open>\<open>parseExpression\<close>, \<open>parseStatement\<close> and \<open>ParseProgram\<close>\<close>

definition callPrefix :: "'f host \<Rightarrow> 'f parseExpressionFn \<Rightarrow> 'f parseStatementFn \<Rightarrow> nat
    \<Rightarrow> prefixParseFn \<Rightarrow> Parser \<Rightarrow> 'f expr option parsed" where
  "callPrefix h pe ps k fn p =
     (case fn of
        FnParseIdentifier \<Rightarrow> Some (parseIdentifier p)
      | FnParseIntegerLiteral \<Rightarrow> Some (parseIntegerLiteral h p)
      | FnParseFloatLiteral \<Rightarrow> Some (parseFloatLiteral h p)
      | FnParseStringLiteral \<Rightarrow> Some (parseStringLiteral p)
      | FnParseBoolean \<Rightarrow> Some (parseBoolean p)
      | FnParsePrefixExpression \<Rightarrow> parsePrefixExpression pe p
      | FnParseGroupedExpression \<Rightarrow> parseGroupedExpression pe p
      | FnParseFunctionStatement \<Rightarrow> parseFunctionStatement ps k p
      | FnParseListLiteral \<Rightarrow> parseListLiteral pe k p
      | FnParseGetItemAtIndexPrefix \<Rightarrow> parseGetItemAtIndexPrefix pe p
      | FnParseIsDefinedExpression \<Rightarrow> Some (parseIsDefinedExpression p)
      | FnParseConvertToNumberExpression \<Rightarrow> parseConvertToNumberExpression pe p
      | FnParseConvertToStringExpression \<Rightarrow> parseConvertToStringExpression pe p)"

definition callStatement :: "'f parseExpressionFn \<Rightarrow> 'f parseStatementFn \<Rightarrow> nat
    \<Rightarrow> statementParseFn \<Rightarrow> Parser \<Rightarrow> 'f stmt option parsed" where
  "callStatement pe ps k fn p =
     (case fn of
        FnParseLetStatement \<Rightarrow> parseLetStatement pe p
      | FnParseIfStatement \<Rightarrow> parseIfStatement pe ps k p
      | FnParsePrintStatement \<Rightarrow> parsePrintStatement pe p
      | FnParseWhileStatement \<Rightarrow> parseWhileStatement pe ps k p
      | FnParseForEachStatement \<Rightarrow> parseForEachStatement pe ps k p
      | FnParseReturnStatement \<Rightarrow> parseReturnStatement pe p
      | FnParseExitStatement \<Rightarrow> parseExitStatement pe p
      | FnParseInputStatement \<Rightarrow> Some (parseInputStatement p))"

text \<open>
  \<open>parseExpression\<close> looks up the prefix function of the current token and returns
  what it returns. It reads neither its argument \<open>prec\<close> nor \<open>infixParseFns\<close>.
\<close>

fun parseExpression :: "'f host \<Rightarrow> nat \<Rightarrow> int \<Rightarrow> Parser \<Rightarrow> 'f expr option parsed"
and parseStatement :: "'f host \<Rightarrow> nat \<Rightarrow> Parser \<Rightarrow> 'f stmt option parsed"
where
  "parseExpression h 0 prec p = None"
| "parseExpression h (Suc n) prec p =
     (case map_of prefixParseFns (Type (curToken p)) of
        None \<Rightarrow> Some (None, noPrefixParseFnError p (Type (curToken p)))
      | Some prefixFn \<Rightarrow> callPrefix h (parseExpression h n) (parseStatement h n) n prefixFn p)"
| "parseStatement h 0 p = None"
| "parseStatement h (Suc n) p =
     (case map_of statementParseFns (Type (curToken p)) of
        Some parseStatementFn \<Rightarrow> callStatement (parseExpression h n) (parseStatement h n) n parseStatementFn p
      | None \<Rightarrow> parseExpressionStatement (parseExpression h n) p)"

fun ParseProgram_loop :: "'f parseStatementFn \<Rightarrow> nat \<Rightarrow> 'f stmt list \<Rightarrow> Parser \<Rightarrow> 'f stmt list parsed" where
  "ParseProgram_loop ps 0 statements p = (if curTokenIs p EOF then Some (statements, p) else None)"
| "ParseProgram_loop ps (Suc k) statements p =
     (if curTokenIs p EOF then Some (statements, p)
      else (case ps p of
              None \<Rightarrow> None
            | Some (stmt, p1) \<Rightarrow> ParseProgram_loop ps k (appendStatement statements stmt) (nextToken p1)))"

definition ParseProgram :: "'f host \<Rightarrow> nat \<Rightarrow> Parser \<Rightarrow> 'f stmt list parsed" where
  "ParseProgram h n p = ParseProgram_loop (parseStatement h n) n [] p"

section \<open>The nodes of a syntax tree\<close>

text \<open>
  \<open>everyExpr P\<close> says that \<open>P\<close> holds of every expression node of a tree: of the
  expression itself and of every expression below it, also inside the blocks of a
  function literal. \<open>everyExpr_stmt\<close> and \<open>everyExpr_block\<close> say it for the
  expressions of a statement and of a block. A \<open>nil\<close> field holds no node.
\<close>

primrec everyExpr :: "('f expr \<Rightarrow> bool) \<Rightarrow> 'f expr \<Rightarrow> bool"
  and everyExpr_stmt :: "('f expr \<Rightarrow> bool) \<Rightarrow> 'f stmt \<Rightarrow> bool"
  and everyExpr_block :: "('f expr \<Rightarrow> bool) \<Rightarrow> 'f block \<Rightarrow> bool"
where
  "everyExpr P (Identifier i) = P (Identifier i)"
| "everyExpr P (IntegerLiteral t v) = P (IntegerLiteral t v)"
| "everyExpr P (FloatLiteral t v) = P (FloatLiteral t v)"
| "everyExpr P (StringLiteral s) = P (StringLiteral s)"
| "everyExpr P (BooleanLiteral t b) = P (BooleanLiteral t b)"
| "everyExpr P (PrefixExpression t operator right) =
     (P (PrefixExpression t operator right) \<and> pred_option id (map_option (everyExpr P) right))"
| "everyExpr P (InfixExpression t left operator right) =
     (P (InfixExpression t left operator right)
      \<and> pred_option id (map_option (everyExpr P) left) \<and> pred_option id (map_option (everyExpr P) right))"
| "everyExpr P (FunctionLiteral t parameters body) =
     (P (FunctionLiteral t parameters body) \<and> everyExpr_block P body)"
| "everyExpr P (CallExpression t function arguments) =
     (P (CallExpression t function arguments)
      \<and> pred_option id (map_option (everyExpr P) function)
      \<and> list_all (pred_option id) (map (map_option (everyExpr P)) arguments))"
| "everyExpr P (ListLiteral t elements) =
     (P (ListLiteral t elements) \<and> list_all (pred_option id) (map (map_option (everyExpr P)) elements))"
| "everyExpr P (GetItemAtIndexExpression t list index) =
     (P (GetItemAtIndexExpression t list index)
      \<and> pred_option id (map_option (everyExpr P) list) \<and> pred_option id (map_option (everyExpr P) index))"
| "everyExpr P (IsDefinedExpression t i) = P (IsDefinedExpression t i)"
| "everyExpr P (ConvertToNumberExpression t e) =
     (P (ConvertToNumberExpression t e) \<and> pred_option id (map_option (everyExpr P) e))"
| "everyExpr P (ConvertToStringExpression t e) =
     (P (ConvertToStringExpression t e) \<and> pred_option id (map_option (everyExpr P) e))"
| "everyExpr_stmt P (LetStatement t name v) = pred_option id (map_option (everyExpr P) v)"
| "everyExpr_stmt P (ReturnStatement t v) = pred_option id (map_option (everyExpr P) v)"
| "everyExpr_stmt P (ExpressionStatement t e) = pred_option id (map_option (everyExpr P) e)"
| "everyExpr_stmt P (IfStatement t cond thenBlock elseIfBlocks elseBlock) =
     (pred_option id (map_option (everyExpr P) cond) \<and> everyExpr_block P thenBlock
      \<and> list_all (\<lambda>b. pred_option id (fst b) \<and> snd b)
           (map (map_prod (map_option (everyExpr P)) (everyExpr_block P)) elseIfBlocks)
      \<and> pred_option id (map_option (everyExpr_block P) elseBlock))"
| "everyExpr_stmt P (WhileStatement t cond body) =
     (pred_option id (map_option (everyExpr P) cond) \<and> everyExpr_block P body)"
| "everyExpr_stmt P (ForEachStatement t variable iterable body) =
     (pred_option id (map_option (everyExpr P) iterable) \<and> everyExpr_block P body)"
| "everyExpr_stmt P (PrintStatement t v) = pred_option id (map_option (everyExpr P) v)"
| "everyExpr_stmt P (InputStatement t prompt) = True"
| "everyExpr_stmt P (ExitStatement t code) = pred_option id (map_option (everyExpr P) code)"
| "everyExpr_block P (BlockStatement t statements) = list_all id (map (everyExpr_stmt P) statements)"

text \<open>The kinds of expression that a registered parse function builds.\<close>

definition registeredKind :: "'f expr \<Rightarrow> bool" where
  "registeredKind e =
     (case e of
        FloatLiteral t v \<Rightarrow> False
      | PrefixExpression t operator right \<Rightarrow> False
      | InfixExpression t left operator right \<Rightarrow> False
      | CallExpression t function arguments \<Rightarrow> False
      | _ \<Rightarrow> True)"

definition isFloatLiteral :: "'f expr \<Rightarrow> bool" where
  "isFloatLiteral e = (case e of FloatLiteral t v \<Rightarrow> True | _ \<Rightarrow> False)"

definition isInfixExpression :: "'f expr \<Rightarrow> bool" where
  "isInfixExpression e = (case e of InfixExpression t left operator right \<Rightarrow> True | _ \<Rightarrow> False)"

definition isCallExpression :: "'f expr \<Rightarrow> bool" where
  "isCallExpression e = (case e of CallExpression t function arguments \<Rightarrow> True | _ \<Rightarrow> False)"

text \<open>
  A parse function for expressions, or for statements, returns only trees whose nodes
  have the property \<open>P\<close>.
\<close>

definition exprsOk :: "('f expr \<Rightarrow> bool) \<Rightarrow> 'f parseExpressionFn \<Rightarrow> bool" where
  "exprsOk P pe = (\<forall>prec p e p1. pe prec p = Some (Some e, p1) \<longrightarrow> everyExpr P e)"

definition stmtsOk :: "('f expr \<Rightarrow> bool) \<Rightarrow> 'f parseStatementFn \<Rightarrow> bool" where
  "stmtsOk P ps = (\<forall>p s p1. ps p = Some (Some s, p1) \<longrightarrow> everyExpr_stmt P s)"


text \<open>
  The token kinds of the binary operators: the keys of \<open>precedence\<close> other than
  \<open>CALL\<close> and \<open>GETITEMATINDEX\<close>.
\<close>

definition binaryOperators :: "TokenType list" where
  "binaryOperators =
     [EQUALS, NOTEQUALS, GREATERTHAN, LESSTHAN, GREATEREQUAL, LESSEQUAL,
      ADD, SUBTRACT, MULTIPLY, DIVIDE, AND, OR]"
section \<open>A host to run the definitions on\<close>

text \<open>
  The theorems below hold for every host. To run the definitions on concrete inputs a
  host is needed: \<open>fixedHost\<close> computes with exact fixed-point numbers of six decimals
  (an \<open>int\<close> counts millionths). It reads a plain decimal text, and prints six decimals
  as \<open>%f\<close> does. On the texts \<open>3.14\<close> and \<open>3\<close> it answers as Go's \<open>float64\<close> does.
\<close>

lemmas digits_numeral = digits.simps [of "numeral k" for k] digits.simps [of 0] digits.simps [of "Suc 0"]

fun decimalValue :: "string \<Rightarrow> nat \<Rightarrow> nat" where
  "decimalValue [] acc = acc"
| "decimalValue (c # cs) acc = decimalValue cs (10 * acc + (of_char c - 48))"

definition parseFixed :: "string \<Rightarrow> string + int" where
  "parseFixed s =
     (let whole = takeWhile (\<lambda>c. c \<noteq> CHR ''.'') s;
          frac = drop 1 (dropWhile (\<lambda>c. c \<noteq> CHR ''.'') s)
      in if whole \<noteq> [] \<and> list_all isDigit whole \<and> list_all isDigit frac
            \<and> (frac \<noteq> [] \<or> CHR ''.'' \<notin> set s)
         then Inr (int (decimalValue whole 0 * 1000000 + decimalValue (take 6 (frac @ ''000000'')) 0))
         else Inl (''strconv.ParseFloat: parsing '' @ [CHR 0x22] @ s @ [CHR 0x22] @ '': invalid syntax''))"

definition fmtFixed :: "int \<Rightarrow> string" where
  "fmtFixed f =
     (if f < 0 then ''-'' else '''') @ digits (nat \<bar>f\<bar> div 1000000) @ ''.''
       @ drop 1 (digits (1000000 + nat \<bar>f\<bar> mod 1000000))"

text \<open>
  Its \<open>ParseInt\<close> reads a text of decimal digits, or of octal digits after a leading
  \<open>0\<close>, with an optional sign, within the range of \<open>int64\<close>, and fails on every
  other text: on the text of a \<open>NUMBER\<close> token (digits and dots) it answers as
  Go's \<open>strconv.ParseInt(s, 0, 64)\<close> does.
\<close>

fun digitsValue :: "int \<Rightarrow> string \<Rightarrow> int \<Rightarrow> int option" where
  "digitsValue b [] acc = Some acc"
| "digitsValue b (c # cs) acc =
     (if isDigit c \<and> of_char c - 48 < b then digitsValue b cs (b * acc + (of_char c - 48)) else None)"

definition parseIntFixed :: "string \<Rightarrow> int64 option" where
  "parseIntFixed s =
     (let body = (if take 1 s = ''-'' \<or> take 1 s = ''+'' then drop 1 s else s);
          v = (if body = [] then None
               else if take 1 body = ''0'' \<and> 1 < length body then digitsValue 8 (drop 1 body) 0
               else digitsValue 10 body 0)
      in case v of
           None \<Rightarrow> None
         | Some n \<Rightarrow>
             if take 1 s = ''-''
             then (if n \<le> 9223372036854775808 then Some (word_of_int (- n)) else None)
             else (if n < 9223372036854775808 then Some (word_of_int n) else None))"

definition fixedHost :: "int host" where
  "fixedHost = \<lparr>
     ParseFloat = parseFixed,
     floatOfInt = (\<lambda>i. sint i * 1000000),
     intOfFloat = (\<lambda>f. word_of_int (f sdiv 1000000)),
     fadd = (\<lambda>a b. a + b),
     fsub = (\<lambda>a b. a - b),
     fmul = (\<lambda>a b. (a * b) sdiv 1000000),
     fdiv = (\<lambda>a b. (a * 1000000) sdiv b),
     feq = (\<lambda>a b. a = b),
     flt = (\<lambda>a b. a < b),
     fle = (\<lambda>a b. a \<le> b),
     fmtFloat = fmtFixed,
     Scanln = (\<lambda>s. (takeWhile (\<lambda>c. c \<noteq> CHR 0x0A) s, drop 1 (dropWhile (\<lambda>c. c \<noteq> CHR 0x0A) s))),
     ParseInt = parseIntFixed\<rparr>"

abbreviation tk :: Token where "tk \<equiv> \<lparr>Type = '''', Literal = '''', Line = 0, Column = 0\<rparr>"

abbreviation w0 :: world where "w0 \<equiv> \<lparr>stdout = '''', stdin = '''', nextRef = 0\<rparr>"

definition list123 :: "int expr option" where
  "list123 = Some (ListLiteral tk [Some (IntegerLiteral tk 1), Some (IntegerLiteral tk 2), Some (IntegerLiteral tk 3)])"

definition loopProgram :: "int stmt" where
  "loopProgram =
     ForEachStatement tk (MkIdentifier tk ''x'') list123
       (BlockStatement tk
          [PrintStatement tk (Some (Identifier (MkIdentifier tk ''x''))),
           LetStatement tk (MkIdentifier tk ''x'') (Some (IntegerLiteral tk 99))])"

text \<open>
  A result that ends a block or a loop at once: a \<open>ReturnValue\<close> or an \<open>Error\<close>
  (Go's \<open>nil\<close> is neither).
\<close>

definition stopsLoop :: "'f Object option \<Rightarrow> bool" where
  "stopsLoop r = (case r of None \<Rightarrow> False | Some x \<Rightarrow> Type_obj x = RETURN_VALUE_OBJ \<or> Type_obj x = ERROR_OBJ)"


text \<open>The lexer on the input \<open>end\<close>, line feed, \<open>x\<close>, after it has read the word \<open>end\<close>.\<close>

definition afterEnd :: Lexer where
  "afterEnd = snd (readIdentifier (Lexer_New (''end'' @ [CHR 0x0A] @ ''x'')))"


section \<open>A host with the floats of Go\<close>

text \<open>
  A \<open>float64\<close> is a finite number \<open>m * 2 ^ e\<close> (\<open>Finite m e\<close>), an infinity with its
  sign, or NaN. A result is rounded to 53 bits, or to the multiple of \<open>2 ^ - 1074\<close>
  when it is that small, the nearest one, and the even one of two that are as near; it
  is an infinity from \<open>2 ^ 1024\<close> on. The sign of zero is not modelled (\<open>==\<close> does not
  see it).
\<close>

datatype float64 = Finite int int | Infinity bool | NaN

text \<open>The number of binary digits of a positive integer.\<close>

function bits :: "int \<Rightarrow> int" where
  "bits n = (if n \<le> 0 then 0 else bits (n div 2) + 1)"
  by pat_completeness auto
termination
  by (relation "measure nat") auto

declare bits.simps [simp del]

lemmas bits_numeral = bits.simps [of "numeral k" for k] bits.simps [of 0] bits.simps [of 1]

definition roundFloat :: "int \<Rightarrow> int \<Rightarrow> float64" where
  "roundFloat m e =
     (let a = \<bar>m\<bar>;
          d = nat (max 0 (max (bits a - 53) (- 1074 - e)));
          q = a div 2 ^ d;
          r = a mod 2 ^ d;
          q1 = (if 2 ^ d < 2 * r \<or> (2 * r = 2 ^ d \<and> odd q) then q + 1 else q)
      in if 1024 < bits q1 + (e + int d) then Infinity (m < 0)
         else Finite (if m < 0 then - q1 else q1) (e + int d))"

text \<open>The quotient of two integers, times \<open>2 ^ e\<close>, rounded once.\<close>

definition roundQuotient :: "int \<Rightarrow> int \<Rightarrow> int \<Rightarrow> float64" where
  "roundQuotient n d e =
     (let s = nat (55 + bits \<bar>d\<bar>);
          q = (\<bar>n\<bar> * 2 ^ s) div \<bar>d\<bar>;
          sticky = (if (\<bar>n\<bar> * 2 ^ s) mod \<bar>d\<bar> = 0 then 0 else 1)
      in roundFloat ((if (n < 0) = (d < 0) then 1 else - 1) * (2 * q + sticky)) (e - int s - 1))"

definition float64_neg :: "float64 \<Rightarrow> float64" where
  "float64_neg x = (case x of Finite m e \<Rightarrow> Finite (- m) e | Infinity s \<Rightarrow> Infinity (\<not> s) | NaN \<Rightarrow> NaN)"

fun float64_add :: "float64 \<Rightarrow> float64 \<Rightarrow> float64" where
  "float64_add (Finite m1 e1) (Finite m2 e2) =
     roundFloat (m1 * 2 ^ nat (e1 - min e1 e2) + m2 * 2 ^ nat (e2 - min e1 e2)) (min e1 e2)"
| "float64_add (Infinity s) (Infinity t) = (if s = t then Infinity s else NaN)"
| "float64_add (Infinity s) (Finite m e) = Infinity s"
| "float64_add (Finite m e) (Infinity s) = Infinity s"
| "float64_add x y = NaN"

fun float64_mul :: "float64 \<Rightarrow> float64 \<Rightarrow> float64" where
  "float64_mul (Finite m1 e1) (Finite m2 e2) = roundFloat (m1 * m2) (e1 + e2)"
| "float64_mul (Infinity s) (Infinity t) = Infinity (s \<noteq> t)"
| "float64_mul (Infinity s) (Finite m e) = (if m = 0 then NaN else Infinity (s \<noteq> (m < 0)))"
| "float64_mul (Finite m e) (Infinity s) = (if m = 0 then NaN else Infinity (s \<noteq> (m < 0)))"
| "float64_mul x y = NaN"

fun float64_div :: "float64 \<Rightarrow> float64 \<Rightarrow> float64" where
  "float64_div (Finite m1 e1) (Finite m2 e2) =
     (if m2 = 0 then (if m1 = 0 then NaN else Infinity (m1 < 0))
      else roundQuotient m1 m2 (e1 - e2))"
| "float64_div (Infinity s) (Finite m e) = Infinity (s \<noteq> (m < 0))"
| "float64_div (Finite m e) (Infinity s) = Finite 0 0"
| "float64_div x y = NaN"

text \<open>The operators \<open>==\<close>, \<open><\<close> and \<open><=\<close>: NaN is in no relation to anything, itself included.\<close>

fun float64_eq :: "float64 \<Rightarrow> float64 \<Rightarrow> bool" where
  "float64_eq (Finite m1 e1) (Finite m2 e2) =
     (m1 * 2 ^ nat (e1 - min e1 e2) = m2 * 2 ^ nat (e2 - min e1 e2))"
| "float64_eq (Infinity s) (Infinity t) = (s = t)"
| "float64_eq x y = False"

fun float64_less :: "float64 \<Rightarrow> float64 \<Rightarrow> bool" where
  "float64_less (Finite m1 e1) (Finite m2 e2) =
     (m1 * 2 ^ nat (e1 - min e1 e2) < m2 * 2 ^ nat (e2 - min e1 e2))"
| "float64_less (Infinity s) (Infinity t) = (s \<and> \<not> t)"
| "float64_less (Infinity s) (Finite m e) = s"
| "float64_less (Finite m e) (Infinity s) = (\<not> s)"
| "float64_less x y = False"

text \<open>
  \<open>int64(f)\<close> drops the fraction; what it gives for a float outside of \<open>int64\<close> depends
  on the machine (here: the low 64 bits, and the least \<open>int64\<close> for an infinity or NaN).
\<close>

definition float64_to_int64 :: "float64 \<Rightarrow> int64" where
  "float64_to_int64 x =
     (case x of
        Finite m e \<Rightarrow>
          word_of_int (if 0 \<le> e then m * 2 ^ nat e
                       else (if m < 0 then - (\<bar>m\<bar> div 2 ^ nat (- e)) else m div 2 ^ nat (- e)))
      | Infinity s \<Rightarrow> word_of_int (- 9223372036854775808)
      | NaN \<Rightarrow> word_of_int (- 9223372036854775808))"

text \<open>\<open>%f\<close>: six decimals, the nearest ones to the exact value.\<close>

definition float64_format :: "float64 \<Rightarrow> string" where
  "float64_format x =
     (case x of
        Finite m e \<Rightarrow>
          (let n = \<bar>m\<bar> * 1000000 * 2 ^ nat e;
               d = 2 ^ nat (- e);
               q = n div d;
               r = n mod d;
               q1 = (if d < 2 * r \<or> (2 * r = d \<and> odd q) then q + 1 else q)
           in (if m < 0 then ''-'' else '''') @ digits (nat (q1 div 1000000)) @ ''.''
                @ drop 1 (digits (nat (1000000 + q1 mod 1000000))))
      | Infinity s \<Rightarrow> (if s then ''-Inf'' else ''+Inf'')
      | NaN \<Rightarrow> ''NaN'')"

text \<open>\<open>ParseFloat\<close> on a plain decimal text (Go reads more forms: a sign, an exponent).\<close>

definition float64_parse :: "string \<Rightarrow> string + float64" where
  "float64_parse s =
     (let whole = takeWhile (\<lambda>c. c \<noteq> CHR ''.'') s;
          frac = drop 1 (dropWhile (\<lambda>c. c \<noteq> CHR ''.'') s)
      in if whole \<noteq> [] \<and> list_all isDigit whole \<and> list_all isDigit frac
            \<and> (frac \<noteq> [] \<or> CHR ''.'' \<notin> set s)
         then Inr (roundQuotient (int (decimalValue (whole @ frac) 0)) (10 ^ length frac) 0)
         else Inl (''strconv.ParseFloat: parsing '' @ [CHR 0x22] @ s @ [CHR 0x22] @ '': invalid syntax''))"

definition float64Host :: "float64 host" where
  "float64Host = \<lparr>
     ParseFloat = float64_parse,
     floatOfInt = (\<lambda>i. roundFloat (sint i) 0),
     intOfFloat = float64_to_int64,
     fadd = float64_add,
     fsub = (\<lambda>a b. float64_add a (float64_neg b)),
     fmul = float64_mul,
     fdiv = float64_div,
     feq = float64_eq,
     flt = float64_less,
     fle = (\<lambda>a b. float64_less a b \<or> float64_eq a b),
     fmtFloat = float64_format,
     Scanln = (\<lambda>s. (takeWhile (\<lambda>c. c \<noteq> CHR 0x0A) s, drop 1 (dropWhile (\<lambda>c. c \<noteq> CHR 0x0A) s))),
     ParseInt = parseIntFixed\<rparr>"
section \<open>Properties of the evaluator\<close>

lemma isTruthy_iff: "isTruthy obj \<longleftrightarrow> obj \<noteq> Null \<and> obj \<noteq> Boolean False"
  by (cases obj rule: isTruthy.cases) simp_all

lemma nativeBool_eq: "nativeBoolToBooleanObject b = Boolean b"
  by (simp add: nativeBoolToBooleanObject_def)

subsection \<open>Division\<close>

lemma divisorIsZero_Integer:
  "divisorIsZero h (Integer b) =
     (if b = 0 then Done True else Panic ''interface conversion: object.Object is *object.Integer, not *object.Float'')"
  by (simp add: divisorIsZero_def)

lemma divisorIsZero_other:
  "dynamicType right \<noteq> ''*object.Integer'' \<Longrightarrow>
   divisorIsZero h right = Panic (''interface conversion: object.Object is '' @ dynamicType right @ '', not *object.Integer'')"
  by (cases right) (simp_all add: divisorIsZero_def)


text \<open>
  Claim C3. The claim: \<open>divide\<close> checks the divisor for zero first and then divides;
  for integers \<open>a\<close> and \<open>b \<noteq> 0\<close> the result is the truncated quotient, and no operands
  make the evaluator crash. The code: the zero check asserts that the divisor is an
  \<open>*object.Integer\<close> and, when that integer is not zero, goes on to assert that the same
  divisor is an \<open>*object.Float\<close>. So with an integer divisor \<open>b\<close> the function returns
  the division-by-zero error when \<open>b = 0\<close> and panics otherwise; with a float divisor
  it panics at the first assertion. \<open>6 divide 3\<close> panics, as a call of the function and
  as an expression given to \<open>Eval\<close>.
\<close>

theorem C3_divide_panics:
  "evalDivideInfixExpression h operator left (Integer b) =
     (if b = 0 then Done (Error ''Eval: Division by zero error'')
      else Panic ''interface conversion: object.Object is *object.Integer, not *object.Float'')
   \<and> evalDivideInfixExpression h operator left (Float f) =
       Panic ''interface conversion: object.Object is *object.Float, not *object.Integer''
   \<and> evalDivideInfixExpression h ''divide'' (Integer 6) (Integer 3) =
       Panic ''interface conversion: object.Object is *object.Integer, not *object.Float''
   \<and> Eval_expr h (Some (InfixExpression t (Some (IntegerLiteral t1 6)) ''divide'' (Some (IntegerLiteral t2 3)))) env w =
       (Panic ''interface conversion: object.Object is *object.Integer, not *object.Float'', w)"
  by (simp add: evalDivideInfixExpression_def divisorIsZero_def isError_def)
subsection \<open>Equality\<close>

lemma equals_is_Boolean: "\<exists>b. evalEqualsInfixExpression h operator left right = Boolean b"
  by (cases left; cases right) (auto simp: nativeBool_eq)

lemma equals_operator_irrelevant:
  "evalEqualsInfixExpression h operator left right = evalEqualsInfixExpression h operator' left right"
  by (cases left; cases right) simp_all

lemma notequals_negates:
  "evalNotEqualsInfixExpression h operator' left right =
     (if evalEqualsInfixExpression h operator left right = Boolean True then Boolean False else Boolean True)"
proof -
  obtain b where b: "evalEqualsInfixExpression h ''equals'' left right = Boolean b"
    using equals_is_Boolean by blast
  have "evalEqualsInfixExpression h operator left right = Boolean b"
    using b equals_operator_irrelevant [of h operator left right "''equals''"] by simp
  then show ?thesis
    using b by (cases b) (simp_all add: evalNotEqualsInfixExpression_def isError_def)
qed

lemma equals_differing_kinds:
  "Type_obj left \<noteq> Type_obj right \<longrightarrow>
     \<not> (Type_obj left \<in> {INTEGER_OBJ, FLOAT_OBJ} \<and> Type_obj right \<in> {INTEGER_OBJ, FLOAT_OBJ}) \<longrightarrow>
     evalEqualsInfixExpression h operator left right = Boolean (samePointer left right)
     \<and> evalEqualsInfixExpression h operator left right = Boolean False"
  by (cases left; cases right) (simp_all add: nativeBool_eq)


text \<open>
  Claim C4, as amended. \<open>equals\<close> compares two integers, two strings and two
  booleans by their contents. It compares two floats with the host's \<open>==\<close> on
  \<open>float64\<close>, and an integer with a float with that \<open>==\<close> after the integer is
  converted to \<open>float64\<close>: this is neither equality of the contents (NaN is not equal
  to itself) nor equality of the two numbers (the conversion rounds an integer beyond
  \<open>2 ^ 53\<close>). On every other pair of operands of different types it compares the two
  pointers, which are never the same: the result is false, as it is for a list and a
  string. \<open>notequals\<close> is the negation of \<open>equals\<close> on the same operands.
\<close>

theorem C4_equals:
  "evalEqualsInfixExpression h operator (Integer a) (Integer b) = Boolean (a = b)
   \<and> evalEqualsInfixExpression h operator (Float x) (Float y) = Boolean (feq h x y)
   \<and> evalEqualsInfixExpression h operator (String s) (String s') = Boolean (s = s')
   \<and> evalEqualsInfixExpression h operator (Boolean p) (Boolean q) = Boolean (p = q)
   \<and> evalEqualsInfixExpression h operator (Integer a) (Float y) = Boolean (feq h (floatOfInt h a) y)
   \<and> evalEqualsInfixExpression h operator (Float x) (Integer b) = Boolean (feq h x (floatOfInt h b))
   \<and> (Type_obj left \<noteq> Type_obj right \<longrightarrow>
        \<not> (Type_obj left \<in> {INTEGER_OBJ, FLOAT_OBJ} \<and> Type_obj right \<in> {INTEGER_OBJ, FLOAT_OBJ}) \<longrightarrow>
        evalEqualsInfixExpression h operator left right = Boolean (samePointer left right)
        \<and> evalEqualsInfixExpression h operator left right = Boolean False)
   \<and> evalEqualsInfixExpression h operator (List r elems) (String s) = Boolean False
   \<and> evalNotEqualsInfixExpression h operator' left right =
        (if evalEqualsInfixExpression h operator left right = Boolean True then Boolean False else Boolean True)"
proof (intro conjI)
  show "Type_obj left \<noteq> Type_obj right \<longrightarrow>
        \<not> (Type_obj left \<in> {INTEGER_OBJ, FLOAT_OBJ} \<and> Type_obj right \<in> {INTEGER_OBJ, FLOAT_OBJ}) \<longrightarrow>
        evalEqualsInfixExpression h operator left right = Boolean (samePointer left right)
        \<and> evalEqualsInfixExpression h operator left right = Boolean False"
    by (rule equals_differing_kinds)
  show "evalNotEqualsInfixExpression h operator' left right =
        (if evalEqualsInfixExpression h operator left right = Boolean True then Boolean False else Boolean True)"
    by (rule notequals_negates)
qed (simp_all add: nativeBool_eq)

theorem C4_equals_witness:
  "Type_obj (List 7 [Integer 1] :: int Object) \<noteq> Type_obj (String ''a'' :: int Object)
   \<and> \<not> (Type_obj (List 7 [Integer 1] :: int Object) \<in> {INTEGER_OBJ, FLOAT_OBJ}
         \<and> Type_obj (String ''a'' :: int Object) \<in> {INTEGER_OBJ, FLOAT_OBJ})
   \<and> evalEqualsInfixExpression fixedHost ''equals'' (List 7 [Integer 1]) (String ''a'') = Boolean False
   \<and> evalNotEqualsInfixExpression fixedHost ''notequals'' (List 7 [Integer 1]) (String ''a'') = Boolean True
   \<and> evalEqualsInfixExpression fixedHost ''equals'' (Integer 2) (Float 2000000) = Boolean True"
  using C4_equals [where h = fixedHost and operator = "''equals''" and operator' = "''notequals''"
      and left = "List 7 [Integer 1]" and right = "String ''a''" and a = 2 and y = 2000000]
  by (simp add: fixedHost_def)


text \<open>
  The claim C4 as it was stated fails on the floats of Go: the integer
  \<open>9007199254740993\<close> (that is \<open>2 ^ 53 + 1\<close>) \<open>equals\<close> the float
  \<open>9007199254740992.0\<close>, which is another number, and the float NaN does not equal
  itself.
\<close>

theorem C4_equals_not_by_value:
  "evalEqualsInfixExpression float64Host ''equals''
      (Integer 9007199254740993) (Float (Finite 9007199254740992 0)) = Boolean True
   \<and> evalEqualsInfixExpression float64Host ''equals'' (Float NaN) (Float NaN) = Boolean False"
  by (simp add: float64Host_def roundFloat_def Let_def bits_numeral nativeBoolToBooleanObject_def)

subsection \<open>Truthiness\<close>

lemma not_inverts_truthiness: "evalNotOperatorExpression obj = Boolean (\<not> isTruthy obj)"
  by (cases obj rule: isTruthy.cases) simp_all

lemma not_on_other_values:
  "obj \<noteq> Boolean True \<longrightarrow> obj \<noteq> Boolean False \<longrightarrow> obj \<noteq> Null \<longrightarrow> evalNotOperatorExpression obj = Boolean False"
  by (cases obj rule: isTruthy.cases) simp_all

lemma truthiness_in_control:
  "Eval_expr h cond env w = (Done c, w1) \<longrightarrow> \<not> isError c \<longrightarrow>
        evalIfStatement h ev cond thenBlock elseIfBlocks elseBlock env w =
          (if isTruthy c then ev (Block thenBlock) env w1 else evalElseIfBlocks h ev elseIfBlocks elseBlock env w1)
        \<and> evalElseIfBlocks h ev ((cond, thenBlock) # elseIfBlocks) elseBlock env w =
          (if isTruthy c then ev (Block thenBlock) env w1 else evalElseIfBlocks h ev elseIfBlocks elseBlock env w1)
        \<and> (\<not> isTruthy c \<longrightarrow> evalWhileLoop h ev (Suc k) cond body env w result = Some (Done result, env, w1))
        \<and> (isTruthy c \<longrightarrow> ev (Block body) env w1 = Some (Done None, env2, w2) \<longrightarrow>
             evalWhileLoop h ev (Suc k) cond body env w result = evalWhileLoop h ev k cond body env2 w2 None)
        \<and> (isTruthy c \<longrightarrow> ev (Block body) env w1 = Some (Done (Some r), env2, w2) \<longrightarrow>
             Type_obj r \<noteq> RETURN_VALUE_OBJ \<longrightarrow> Type_obj r \<noteq> ERROR_OBJ \<longrightarrow>
             evalWhileLoop h ev (Suc k) cond body env w result = evalWhileLoop h ev k cond body env2 w2 (Some r))"
  by (simp add: evalIfStatement_def isError_def)


text \<open>
  Claim C5. A value is truthy exactly when it is neither \<open>Null\<close> nor the boolean
  false; the integer 0 and the empty string are truthy. \<open>not\<close> maps true to false,
  false to true, \<open>Null\<close> to true and every other value to false: it is the negation
  of truthiness. \<open>and\<close> and \<open>or\<close> combine the truthiness of their operands.
  \<open>if\<close> and \<open>elseif\<close> run their block when the condition (not an error) is truthy and
  go on to the next branch otherwise; \<open>while\<close> stops with the last result when the
  condition is not truthy and runs the body once more when it is.
\<close>

theorem C5_truthiness:
  "(isTruthy obj \<longleftrightarrow> obj \<noteq> Null \<and> obj \<noteq> Boolean False)
   \<and> isTruthy (Integer 0 :: 'f Object) \<and> isTruthy (String '''' :: 'f Object)
   \<and> evalNotOperatorExpression (Boolean True :: 'f Object) = Boolean False
   \<and> evalNotOperatorExpression (Boolean False :: 'f Object) = Boolean True
   \<and> evalNotOperatorExpression (Null :: 'f Object) = Boolean True
   \<and> (obj \<noteq> Boolean True \<longrightarrow> obj \<noteq> Boolean False \<longrightarrow> obj \<noteq> Null \<longrightarrow> evalNotOperatorExpression obj = Boolean False)
   \<and> evalNotOperatorExpression obj = Boolean (\<not> isTruthy obj)
   \<and> evalAndInfixExpression operator left right = Boolean (isTruthy left \<and> isTruthy right)
   \<and> evalOrInfixExpression operator left right = Boolean (isTruthy left \<or> isTruthy right)
   \<and> (Eval_expr h cond env w = (Done c, w1) \<longrightarrow> \<not> isError c \<longrightarrow>
        evalIfStatement h ev cond thenBlock elseIfBlocks elseBlock env w =
          (if isTruthy c then ev (Block thenBlock) env w1 else evalElseIfBlocks h ev elseIfBlocks elseBlock env w1)
        \<and> evalElseIfBlocks h ev ((cond, thenBlock) # elseIfBlocks) elseBlock env w =
          (if isTruthy c then ev (Block thenBlock) env w1 else evalElseIfBlocks h ev elseIfBlocks elseBlock env w1)
        \<and> (\<not> isTruthy c \<longrightarrow> evalWhileLoop h ev (Suc k) cond body env w result = Some (Done result, env, w1))
        \<and> (isTruthy c \<longrightarrow> ev (Block body) env w1 = Some (Done None, env2, w2) \<longrightarrow>
             evalWhileLoop h ev (Suc k) cond body env w result = evalWhileLoop h ev k cond body env2 w2 None)
        \<and> (isTruthy c \<longrightarrow> ev (Block body) env w1 = Some (Done (Some r), env2, w2) \<longrightarrow>
             Type_obj r \<noteq> RETURN_VALUE_OBJ \<longrightarrow> Type_obj r \<noteq> ERROR_OBJ \<longrightarrow>
             evalWhileLoop h ev (Suc k) cond body env w result = evalWhileLoop h ev k cond body env2 w2 (Some r)))"
proof (intro conjI)
  show "isTruthy obj \<longleftrightarrow> obj \<noteq> Null \<and> obj \<noteq> Boolean False"
    by (rule isTruthy_iff)
  show "obj \<noteq> Boolean True \<longrightarrow> obj \<noteq> Boolean False \<longrightarrow> obj \<noteq> Null \<longrightarrow> evalNotOperatorExpression obj = Boolean False"
    by (rule not_on_other_values)
  show "evalNotOperatorExpression obj = Boolean (\<not> isTruthy obj)"
    by (rule not_inverts_truthiness)
  show "evalAndInfixExpression operator left right = Boolean (isTruthy left \<and> isTruthy right)"
    by (simp add: evalAndInfixExpression_def nativeBool_eq)
  show "evalOrInfixExpression operator left right = Boolean (isTruthy left \<or> isTruthy right)"
    by (simp add: evalOrInfixExpression_def nativeBool_eq)
  show "Eval_expr h cond env w = (Done c, w1) \<longrightarrow> \<not> isError c \<longrightarrow>
        evalIfStatement h ev cond thenBlock elseIfBlocks elseBlock env w =
          (if isTruthy c then ev (Block thenBlock) env w1 else evalElseIfBlocks h ev elseIfBlocks elseBlock env w1)
        \<and> evalElseIfBlocks h ev ((cond, thenBlock) # elseIfBlocks) elseBlock env w =
          (if isTruthy c then ev (Block thenBlock) env w1 else evalElseIfBlocks h ev elseIfBlocks elseBlock env w1)
        \<and> (\<not> isTruthy c \<longrightarrow> evalWhileLoop h ev (Suc k) cond body env w result = Some (Done result, env, w1))
        \<and> (isTruthy c \<longrightarrow> ev (Block body) env w1 = Some (Done None, env2, w2) \<longrightarrow>
             evalWhileLoop h ev (Suc k) cond body env w result = evalWhileLoop h ev k cond body env2 w2 None)
        \<and> (isTruthy c \<longrightarrow> ev (Block body) env w1 = Some (Done (Some r), env2, w2) \<longrightarrow>
             Type_obj r \<noteq> RETURN_VALUE_OBJ \<longrightarrow> Type_obj r \<noteq> ERROR_OBJ \<longrightarrow>
             evalWhileLoop h ev (Suc k) cond body env w result = evalWhileLoop h ev k cond body env2 w2 (Some r))"
    by (rule truthiness_in_control)
qed simp_all


theorem C5_truthiness_witness:
  "Eval_expr fixedHost (Some (IntegerLiteral tk 0)) NewEnvironment w0 = (Done (Integer 0), w0)
   \<and> \<not> isError (Integer 0 :: int Object) \<and> isTruthy (Integer 0 :: int Object)
   \<and> evalIfStatement fixedHost (Eval fixedHost (Suc (Suc (Suc 0)))) (Some (IntegerLiteral tk 0))
        (BlockStatement tk [ExpressionStatement tk (Some (StringLiteral (MkStringLiteral tk ''then'')))]) []
        (Some (BlockStatement tk [ExpressionStatement tk (Some (StringLiteral (MkStringLiteral tk ''else'')))]))
        NewEnvironment w0
      = Some (Done (Some (String ''then'')), NewEnvironment, w0)
   \<and> Eval_expr fixedHost (Some (Identifier (MkIdentifier tk ''x''))) (Set NewEnvironment ''x'' Null) w0 = (Done Null, w0)
   \<and> \<not> isError (Null :: int Object) \<and> \<not> isTruthy (Null :: int Object)
   \<and> evalIfStatement fixedHost (Eval fixedHost (Suc (Suc (Suc 0)))) (Some (Identifier (MkIdentifier tk ''x'')))
        (BlockStatement tk [ExpressionStatement tk (Some (StringLiteral (MkStringLiteral tk ''then'')))]) []
        (Some (BlockStatement tk [ExpressionStatement tk (Some (StringLiteral (MkStringLiteral tk ''else'')))]))
        (Set NewEnvironment ''x'' Null) w0
      = Some (Done (Some (String ''else'')), Set NewEnvironment ''x'' Null, w0)
   \<and> evalWhileLoop fixedHost (Eval fixedHost (Suc (Suc (Suc 0)))) (Suc 0) (Some (Identifier (MkIdentifier tk ''x'')))
        (BlockStatement tk []) (Set NewEnvironment ''x'' Null) w0 (Some Null)
      = Some (Done (Some Null), Set NewEnvironment ''x'' Null, w0)"
  using C5_truthiness [where h = fixedHost and cond = "Some (IntegerLiteral tk 0)" and env = NewEnvironment
      and w = w0 and ?w1.0 = w0 and c = "Integer 0" and ev = "Eval fixedHost (Suc (Suc (Suc 0)))"
      and thenBlock = "BlockStatement tk [ExpressionStatement tk (Some (StringLiteral (MkStringLiteral tk ''then'')))]"
      and elseIfBlocks = "[]"
      and elseBlock = "Some (BlockStatement tk [ExpressionStatement tk (Some (StringLiteral (MkStringLiteral tk ''else'')))])"
      and obj = Null and operator = "''and''" and left = Null and right = Null
      and k = 0 and body = "BlockStatement tk []" and result = "Some Null" and ?env2.0 = NewEnvironment
      and ?w2.0 = w0 and r = Null]
    C5_truthiness [where h = fixedHost and cond = "Some (Identifier (MkIdentifier tk ''x''))"
      and env = "Set NewEnvironment ''x'' Null"
      and w = w0 and ?w1.0 = w0 and c = "Null" and ev = "Eval fixedHost (Suc (Suc (Suc 0)))"
      and thenBlock = "BlockStatement tk [ExpressionStatement tk (Some (StringLiteral (MkStringLiteral tk ''then'')))]"
      and elseIfBlocks = "[]"
      and elseBlock = "Some (BlockStatement tk [ExpressionStatement tk (Some (StringLiteral (MkStringLiteral tk ''else'')))])"
      and k = 0 and body = "BlockStatement tk []" and result = "Some Null"
      and obj = Null and operator = "''and''" and left = Null and right = Null and ?env2.0 = NewEnvironment
      and ?w2.0 = w0 and r = Null]
  by (simp add: isError_def NewEnvironment_def liftExpr_def evalIfStatement_def)

subsection \<open>Indexing a list\<close>

lemma getItem_list_side:
  "Eval_expr h list env w = (Done listObj, w1) \<Longrightarrow>
   (isError listObj \<longrightarrow> evalGetItemAtIndexExpression h list index env w = (Done listObj, w1))
   \<and> (\<not> isError listObj \<longrightarrow> Type_obj listObj \<noteq> LIST_OBJ \<longrightarrow>
        evalGetItemAtIndexExpression h list index env w =
          (Done (Error (''Eval: '' @ [CHR 0x27] @ ''get item at index'' @ [CHR 0x27]
                        @ '' expected a list, got '' @ Type_obj listObj)), w1))"
  by (cases listObj) (simp_all add: isError_def)

lemma getItem_index_side:
  "Eval_expr h list env w = (Done (List r elements), w1) \<Longrightarrow>
   Eval_expr h index env w1 = (Done indexObj, w2) \<Longrightarrow>
   (isError indexObj \<longrightarrow> evalGetItemAtIndexExpression h list index env w = (Done indexObj, w2))
   \<and> (\<not> isError indexObj \<longrightarrow> Type_obj indexObj \<noteq> INTEGER_OBJ \<longrightarrow>
        evalGetItemAtIndexExpression h list index env w =
          (Done (Error (''Eval: '' @ [CHR 0x27] @ ''get item at index'' @ [CHR 0x27]
                        @ '' index must be a number, got '' @ Type_obj indexObj)), w2))"
  by (cases indexObj) (simp_all add: isError_def)

lemma getItem_bounds:
  "Eval_expr h list env w = (Done (List r elements), w1) \<Longrightarrow>
   Eval_expr h index env w1 = (Done (Integer i), w2) \<Longrightarrow>
   evalGetItemAtIndexExpression h list index env w =
     (if sint i < 0 \<or> int (length elements) \<le> sint i
      then (Done (Error (''Eval: Index out of bounds: '' @ itoa (sint i)
              @ '', list length: '' @ itoa (int (length elements)))), w2)
      else (Done (elements ! nat (sint i)), w2))"
  by (simp add: isError_def)


text \<open>
  Claim C7. \<open>get item at index i from xs\<close> evaluates the list side first. An error
  there is the result. A value that is not a list gives the error
  \<open>'get item at index' expected a list, got T\<close>. Then the index side is evaluated:
  an error there is the result, a value that is not an integer gives the error
  \<open>'get item at index' index must be a number, got T\<close>, an integer below 0 or not
  below the length gives \<open>Index out of bounds: i, list length: n\<close>, and any other
  integer gives the element at that position: the object the list holds, with its
  reference when it is a list itself.
\<close>

theorem C7_get_item:
  "Eval_expr h list env w = (Done listObj, w1) \<longrightarrow>
   (isError listObj \<longrightarrow> evalGetItemAtIndexExpression h list index env w = (Done listObj, w1))
   \<and> (\<not> isError listObj \<longrightarrow> Type_obj listObj \<noteq> LIST_OBJ \<longrightarrow>
        evalGetItemAtIndexExpression h list index env w =
          (Done (Error (''Eval: '' @ [CHR 0x27] @ ''get item at index'' @ [CHR 0x27]
                        @ '' expected a list, got '' @ Type_obj listObj)), w1))
   \<and> (listObj = List r elements \<longrightarrow> Eval_expr h index env w1 = (Done indexObj, w2) \<longrightarrow>
        (isError indexObj \<longrightarrow> evalGetItemAtIndexExpression h list index env w = (Done indexObj, w2))
        \<and> (\<not> isError indexObj \<longrightarrow> Type_obj indexObj \<noteq> INTEGER_OBJ \<longrightarrow>
             evalGetItemAtIndexExpression h list index env w =
               (Done (Error (''Eval: '' @ [CHR 0x27] @ ''get item at index'' @ [CHR 0x27]
                             @ '' index must be a number, got '' @ Type_obj indexObj)), w2))
        \<and> (indexObj = Integer i \<longrightarrow>
             evalGetItemAtIndexExpression h list index env w =
               (if sint i < 0 \<or> int (length elements) \<le> sint i
                then (Done (Error (''Eval: Index out of bounds: '' @ itoa (sint i)
                        @ '', list length: '' @ itoa (int (length elements)))), w2)
                else (Done (elements ! nat (sint i)), w2))))"
  using getItem_list_side [of h list env w listObj w1 index]
    getItem_index_side [of h list env w r elements w1 index indexObj w2]
    getItem_bounds [of h list env w r elements w1 index i w2]
  by blast


lemma list123_eval:
  "Eval_expr fixedHost list123 NewEnvironment w0 =
     (Done (List 0 [Integer 1, Integer 2, Integer 3]), w0\<lparr>nextRef := 1\<rparr>)"
  by (simp add: list123_def isError_def)

theorem C7_get_item_witness:
  "Eval_expr fixedHost list123 NewEnvironment w0 = (Done (List 0 [Integer 1, Integer 2, Integer 3]), w0\<lparr>nextRef := 1\<rparr>)
   \<and> evalGetItemAtIndexExpression fixedHost list123 (Some (IntegerLiteral tk 5)) NewEnvironment w0 =
       (Done (Error ''Eval: Index out of bounds: 5, list length: 3''), w0\<lparr>nextRef := 1\<rparr>)
   \<and> evalGetItemAtIndexExpression fixedHost list123 (Some (IntegerLiteral tk (- 1))) NewEnvironment w0 =
       (Done (Error ''Eval: Index out of bounds: -1, list length: 3''), w0\<lparr>nextRef := 1\<rparr>)
   \<and> evalGetItemAtIndexExpression fixedHost list123 (Some (IntegerLiteral tk 1)) NewEnvironment w0 =
       (Done (Integer 2), w0\<lparr>nextRef := 1\<rparr>)
   \<and> evalGetItemAtIndexExpression fixedHost list123 (Some (StringLiteral (MkStringLiteral tk ''1''))) NewEnvironment w0 =
       (Done (Error ''Eval: 'get item at index' index must be a number, got STRING''), w0\<lparr>nextRef := 1\<rparr>)
   \<and> evalGetItemAtIndexExpression fixedHost (Some (IntegerLiteral tk 7)) (Some (IntegerLiteral tk 0)) NewEnvironment w0 =
       (Done (Error ''Eval: 'get item at index' expected a list, got INTEGER''), w0)"
  using list123_eval
    C7_get_item [of fixedHost list123 NewEnvironment w0 "List 0 [Integer 1, Integer 2, Integer 3]" "w0\<lparr>nextRef := 1\<rparr>"
      "Some (IntegerLiteral tk 5)" 0 "[Integer 1, Integer 2, Integer 3]" "Integer 5" "w0\<lparr>nextRef := 1\<rparr>" 5]
    C7_get_item [of fixedHost list123 NewEnvironment w0 "List 0 [Integer 1, Integer 2, Integer 3]" "w0\<lparr>nextRef := 1\<rparr>"
      "Some (IntegerLiteral tk (- 1))" 0 "[Integer 1, Integer 2, Integer 3]" "Integer (- 1)" "w0\<lparr>nextRef := 1\<rparr>" "- 1"]
    C7_get_item [of fixedHost list123 NewEnvironment w0 "List 0 [Integer 1, Integer 2, Integer 3]" "w0\<lparr>nextRef := 1\<rparr>"
      "Some (IntegerLiteral tk 1)" 0 "[Integer 1, Integer 2, Integer 3]" "Integer 1" "w0\<lparr>nextRef := 1\<rparr>" 1]
    C7_get_item [of fixedHost list123 NewEnvironment w0 "List 0 [Integer 1, Integer 2, Integer 3]" "w0\<lparr>nextRef := 1\<rparr>"
      "Some (StringLiteral (MkStringLiteral tk ''1''))" 0 "[Integer 1, Integer 2, Integer 3]" "String ''1''" "w0\<lparr>nextRef := 1\<rparr>" 0]
    C7_get_item [of fixedHost "Some (IntegerLiteral tk 7)" NewEnvironment w0 "Integer 7" w0
      "Some (IntegerLiteral tk 0)" 0 "[]" "Integer 0" w0 0]
  by (simp add: isError_def itoa_def digits_numeral)

subsection \<open>Conversions\<close>

lemma convertToNumber_cases:
  "Eval_expr h e env w = (Done v, w1) \<longrightarrow>
     (isError v \<longrightarrow> evalConvertToNumberExpression h e env w = (Done v, w1))
   \<and> (v = Integer i \<longrightarrow> evalConvertToNumberExpression h e env w = (Done (Integer i), w1))
   \<and> (v = Float f \<longrightarrow> evalConvertToNumberExpression h e env w = (Done (Float f), w1))
   \<and> (v = String s \<longrightarrow>
        evalConvertToNumberExpression h e env w =
          (case ParseFloat h s of
             Inl err \<Rightarrow> (Done (Error (''Eval: Cannot convert string '' @ [CHR 0x27] @ s @ [CHR 0x27]
                                       @ '' to number: '' @ err)), w1)
           | Inr floatVal \<Rightarrow>
               if CHR ''.'' \<in> set s then (Done (Float floatVal), w1)
               else (Done (Integer (intOfFloat h floatVal)), w1)))
   \<and> (Type_obj v \<in> {BOOLEAN_OBJ, NULL_OBJ, LIST_OBJ, RETURN_VALUE_OBJ} \<longrightarrow>
        evalConvertToNumberExpression h e env w =
          (Done (Error (''Eval: Cannot convert type '' @ Type_obj v @ '' to number'')), w1))"
  by (cases v) (simp_all add: isError_def)

lemma convertToString_cases:
  "Eval_expr h e env w = (Done v, w1) \<longrightarrow>
     evalConvertToStringExpression h e env w =
       (if isError v then (Done v, w1) else (Done (String (Inspect h v)), w1))"
  by simp

lemma roundtrip_float:
  "ParseFloat h ''3.14'' = Inr x \<longrightarrow> fmtFloat h x = ''3.140000'' \<longrightarrow>
     Eval_expr h (Some (ConvertToStringExpression t (Some (ConvertToNumberExpression t'
        (Some (StringLiteral (MkStringLiteral t'' ''3.14''))))))) env w = (Done (String ''3.140000''), w)"
  by (simp add: isError_def)

lemma roundtrip_int:
  "ParseFloat h ''3'' = Inr y \<longrightarrow> intOfFloat h y = 3 \<longrightarrow>
     Eval_expr h (Some (ConvertToNumberExpression t' (Some (StringLiteral (MkStringLiteral t'' ''3''))))) env w
       = (Done (Integer 3), w)
     \<and> Eval_expr h (Some (ConvertToStringExpression t (Some (ConvertToNumberExpression t'
        (Some (StringLiteral (MkStringLiteral t'' ''3''))))))) env w = (Done (String ''3''), w)"
  by (simp add: isError_def itoa_def digits_numeral)


text \<open>
  Claim C8. \<open>convert to number\<close> returns an integer or a float as it is; it hands a
  string to \<open>strconv.ParseFloat\<close>, and returns the float when the string contains a
  point and \<open>int64\<close> of the float when it does not; when the host rejects the string
  the result is the error \<open>Cannot convert string 's' to number: ...\<close>; a boolean,
  \<open>Null\<close>, a list or a return value gives \<open>Cannot convert type T to number\<close>.
  \<open>convert to string\<close> of a value that is not an error is the string of its
  \<open>Inspect\<close>. So on a host that reads \<open>3.14\<close> as a float it prints as
  \<open>3.140000\<close> (Go does), \<open>"3.14"\<close> converted to a number and back is
  \<open>"3.140000"\<close>, and on a host that reads \<open>3\<close> as a float whose \<open>int64\<close> is 3,
  \<open>"3"\<close> becomes the integer 3, whose string is \<open>"3"\<close>.
\<close>

theorem C8_conversion:
  "(Eval_expr h e env w = (Done v, w1) \<longrightarrow>
     (isError v \<longrightarrow> evalConvertToNumberExpression h e env w = (Done v, w1))
   \<and> (v = Integer i \<longrightarrow> evalConvertToNumberExpression h e env w = (Done (Integer i), w1))
   \<and> (v = Float f \<longrightarrow> evalConvertToNumberExpression h e env w = (Done (Float f), w1))
   \<and> (v = String s \<longrightarrow>
        evalConvertToNumberExpression h e env w =
          (case ParseFloat h s of
             Inl err \<Rightarrow> (Done (Error (''Eval: Cannot convert string '' @ [CHR 0x27] @ s @ [CHR 0x27]
                                       @ '' to number: '' @ err)), w1)
           | Inr floatVal \<Rightarrow>
               if CHR ''.'' \<in> set s then (Done (Float floatVal), w1)
               else (Done (Integer (intOfFloat h floatVal)), w1)))
   \<and> (Type_obj v \<in> {BOOLEAN_OBJ, NULL_OBJ, LIST_OBJ, RETURN_VALUE_OBJ} \<longrightarrow>
        evalConvertToNumberExpression h e env w =
          (Done (Error (''Eval: Cannot convert type '' @ Type_obj v @ '' to number'')), w1)))
   \<and> (Eval_expr h e env w = (Done v, w1) \<longrightarrow>
        evalConvertToStringExpression h e env w =
          (if isError v then (Done v, w1) else (Done (String (Inspect h v)), w1)))
   \<and> (ParseFloat h ''3.14'' = Inr x \<longrightarrow> fmtFloat h x = ''3.140000'' \<longrightarrow>
        Eval_expr h (Some (ConvertToStringExpression t (Some (ConvertToNumberExpression t'
          (Some (StringLiteral (MkStringLiteral t'' ''3.14''))))))) env w = (Done (String ''3.140000''), w))
   \<and> (ParseFloat h ''3'' = Inr y \<longrightarrow> intOfFloat h y = 3 \<longrightarrow>
        Eval_expr h (Some (ConvertToNumberExpression t' (Some (StringLiteral (MkStringLiteral t'' ''3''))))) env w
          = (Done (Integer 3), w)
        \<and> Eval_expr h (Some (ConvertToStringExpression t (Some (ConvertToNumberExpression t'
            (Some (StringLiteral (MkStringLiteral t'' ''3''))))))) env w = (Done (String ''3''), w))"
  using convertToNumber_cases [of h e env w v w1 i f s] convertToString_cases [of h e env w v w1]
    roundtrip_float [of h x t t' t'' env w] roundtrip_int [of h y t' t'' env w t]
  by blast

theorem C8_conversion_witness:
  "ParseFloat fixedHost ''3.14'' = Inr 3140000 \<and> fmtFloat fixedHost 3140000 = ''3.140000''
   \<and> Eval_expr fixedHost (Some (ConvertToStringExpression tk (Some (ConvertToNumberExpression tk
        (Some (StringLiteral (MkStringLiteral tk ''3.14''))))))) NewEnvironment w0 = (Done (String ''3.140000''), w0)
   \<and> ParseFloat fixedHost ''3'' = Inr 3000000 \<and> intOfFloat fixedHost 3000000 = 3
   \<and> Eval_expr fixedHost (Some (ConvertToNumberExpression tk (Some (StringLiteral (MkStringLiteral tk ''3''))))) NewEnvironment w0
        = (Done (Integer 3), w0)
   \<and> Eval_expr fixedHost (Some (ConvertToStringExpression tk (Some (ConvertToNumberExpression tk
        (Some (StringLiteral (MkStringLiteral tk ''3''))))))) NewEnvironment w0 = (Done (String ''3''), w0)
   \<and> Eval_expr fixedHost (Some (StringLiteral (MkStringLiteral tk ''abc''))) NewEnvironment w0 = (Done (String ''abc''), w0)
   \<and> evalConvertToNumberExpression fixedHost (Some (StringLiteral (MkStringLiteral tk ''abc''))) NewEnvironment w0
        = (Done (Error ''Eval: Cannot convert string 'abc' to number: strconv.ParseFloat: parsing \"abc\": invalid syntax''), w0)
   \<and> Eval_expr fixedHost (Some (BooleanLiteral tk True)) NewEnvironment w0 = (Done (Boolean True), w0)
   \<and> evalConvertToNumberExpression fixedHost (Some (BooleanLiteral tk True)) NewEnvironment w0
        = (Done (Error ''Eval: Cannot convert type BOOLEAN to number''), w0)"
  using C8_conversion [where h = fixedHost and x = 3140000 and y = 3000000 and t = tk and t' = tk and t'' = tk
      and env = NewEnvironment and w = w0 and e = "Some (StringLiteral (MkStringLiteral tk ''abc''))"
      and v = "String ''abc''" and s = "''abc''" and ?w1.0 = w0]
    C8_conversion [where h = fixedHost and x = 3140000 and y = 3000000 and t = tk and t' = tk and t'' = tk
      and env = NewEnvironment and w = w0 and e = "Some (BooleanLiteral tk True)"
      and v = "Boolean True" and ?w1.0 = w0]
  by (simp add: fixedHost_def parseFixed_def isDigit_def fmtFixed_def digits_numeral signed_divide_int_def nativeBool_eq)

subsection \<open>The foreach loop\<close>

lemma forEach_iterable:
  "Eval_expr h iter env w = (Done v, w1) \<longrightarrow>
     (isError v \<longrightarrow> evalForEachStatement h ev (MkIdentifier t var) iter body env w = Some (Done (Some v), env, w1))
   \<and> (\<not> isError v \<longrightarrow> Type_obj v \<noteq> LIST_OBJ \<longrightarrow>
        evalForEachStatement h ev (MkIdentifier t var) iter body env w =
          Some (Done (Some (Error (''Eval: '' @ [CHR 0x27] @ ''for each'' @ [CHR 0x27]
                  @ '' loop requires a list as iterable, got '' @ Type_obj v))), env, w1))
   \<and> (v = List r elements \<longrightarrow>
        evalForEachStatement h ev (MkIdentifier t var) iter body env w =
          evalForEachLoop ev var body elements env w1 (Some Null))"
  by (cases v) (simp_all add: evalForEachStatement_def isError_def)

lemma forEach_frame:
  "Get (Set (NewEnclosedEnvironment env) var element) var = Some element"
  "store (Set (NewEnclosedEnvironment env) var element) = [var \<mapsto> element]"
  "outer (Set (NewEnclosedEnvironment env) var element) = Some env"
  by (simp_all add: NewEnclosedEnvironment_def)

lemma forEach_step:
  "ev (Block body) (Set (NewEnclosedEnvironment env) var element) w = Some (Done r, env1, w1) \<longrightarrow>
     evalForEachLoop ev var body (element # rest) env w result =
       (if stopsLoop r then Some (Done r, env, w1) else evalForEachLoop ev var body rest env w1 r)"
  by (cases r) (simp_all add: stopsLoop_def isError_def)

lemma forEach_abnormal:
  "ev (Block body) (Set (NewEnclosedEnvironment env) var element) w = None \<longrightarrow>
      evalForEachLoop ev var body (element # rest) env w result = None"
  "ev (Block body) (Set (NewEnclosedEnvironment env) var element) w = Some (Panic m, env1, w1) \<longrightarrow>
      evalForEachLoop ev var body (element # rest) env w result = Some (Panic m, env, w1)"
  "ev (Block body) (Set (NewEnclosedEnvironment env) var element) w = Some (Exit c, env1, w1) \<longrightarrow>
      evalForEachLoop ev var body (element # rest) env w result = Some (Exit c, env, w1)"
  by simp_all

lemma forEach_env_unchanged:
  "evalForEachLoop ev var body elements env w result = Some (out, env', w') \<Longrightarrow> env' = env"
proof (induction elements arbitrary: w result)
  case Nil
  then show ?case by simp
next
  case (Cons element rest)
  show ?case
  proof (cases "ev (Block body) (Set (NewEnclosedEnvironment env) var element) w")
    case None
    with Cons.prems show ?thesis by simp
  next
    case (Some res)
    obtain o1 env1 w1 where res: "res = (o1, env1, w1)" by (cases res)
    show ?thesis
    proof (cases o1)
      case (Done r)
      show ?thesis
      proof (cases "stopsLoop r")
        case True
        with Cons.prems Some res Done forEach_step [of ev body env var element w r env1 w1 rest result]
        show ?thesis by simp
      next
        case False
        with Cons.prems Some res Done forEach_step [of ev body env var element w r env1 w1 rest result]
        have "evalForEachLoop ev var body rest env w1 r = Some (out, env', w')" by simp
        then show ?thesis by (rule Cons.IH)
      qed
    next
      case (Panic m)
      with Cons.prems Some res show ?thesis by simp
    next
      case (Exit c)
      with Cons.prems Some res show ?thesis by simp
    qed
  qed
qed

lemma forEach_only_fresh_frames:
  "(\<forall>x \<in> set elements. \<forall>w. ev (Block body) (Set (NewEnclosedEnvironment env) var x) w
        = ev' (Block body) (Set (NewEnclosedEnvironment env) var x) w) \<Longrightarrow>
   evalForEachLoop ev var body elements env w result = evalForEachLoop ev' var body elements env w result"
proof (induction elements arbitrary: w result)
  case Nil
  then show ?case by simp
next
  case (Cons element rest)
  have same: "ev (Block body) (Set (NewEnclosedEnvironment env) var element) w
        = ev' (Block body) (Set (NewEnclosedEnvironment env) var element) w"
    using Cons.prems by simp
  have rest: "\<And>w result. evalForEachLoop ev var body rest env w result = evalForEachLoop ev' var body rest env w result"
    using Cons.IH Cons.prems by simp
  show ?case
    by (auto simp add: same rest split: option.split outcome.split)
qed

text \<open>
  Claim C6. \<open>foreach\<close> evaluates the iterable: an error there is the result, a value
  that is not a list gives the error \<open>'for each' loop requires a list as iterable, got T\<close>,
  and a list is walked from its first element on, starting with the result \<open>Null\<close>
  (the result over the empty list). For each element the body is evaluated in a new
  frame whose only binding is the loop variable, bound to the element, and whose
  \<open>outer\<close> is the environment of the statement. A \<open>ReturnValue\<close> or an \<open>Error\<close>
  of the body is the result at once; any other result of the body becomes the result
  so far and the loop goes on with the next element, in the environment of the
  statement again: what the body bound is gone with the frame. So the body is only
  ever run in such new frames (two evaluators that agree on them give the same loop),
  and the environment of the statement is the same after the loop.
\<close>

theorem C6_foreach:
  "(Eval_expr h iter env w = (Done v, w1) \<longrightarrow>
     (isError v \<longrightarrow> evalForEachStatement h ev (MkIdentifier t var) iter body env w = Some (Done (Some v), env, w1))
   \<and> (\<not> isError v \<longrightarrow> Type_obj v \<noteq> LIST_OBJ \<longrightarrow>
        evalForEachStatement h ev (MkIdentifier t var) iter body env w =
          Some (Done (Some (Error (''Eval: '' @ [CHR 0x27] @ ''for each'' @ [CHR 0x27]
                  @ '' loop requires a list as iterable, got '' @ Type_obj v))), env, w1))
   \<and> (v = List r elements \<longrightarrow>
        evalForEachStatement h ev (MkIdentifier t var) iter body env w =
          evalForEachLoop ev var body elements env w1 (Some Null)))
   \<and> evalForEachLoop ev var body [] env w result = Some (Done result, env, w)
   \<and> Get (Set (NewEnclosedEnvironment env) var element) var = Some element
   \<and> store (Set (NewEnclosedEnvironment env) var element) = [var \<mapsto> element]
   \<and> outer (Set (NewEnclosedEnvironment env) var element) = Some env
   \<and> (ev (Block body) (Set (NewEnclosedEnvironment env) var element) w = Some (Done res, env1, w1) \<longrightarrow>
        evalForEachLoop ev var body (element # rest) env w result =
          (if stopsLoop res then Some (Done res, env, w1) else evalForEachLoop ev var body rest env w1 res))
   \<and> (ev (Block body) (Set (NewEnclosedEnvironment env) var element) w = None \<longrightarrow>
        evalForEachLoop ev var body (element # rest) env w result = None)
   \<and> (ev (Block body) (Set (NewEnclosedEnvironment env) var element) w = Some (Panic m, env1, w1) \<longrightarrow>
        evalForEachLoop ev var body (element # rest) env w result = Some (Panic m, env, w1))
   \<and> (ev (Block body) (Set (NewEnclosedEnvironment env) var element) w = Some (Exit c, env1, w1) \<longrightarrow>
        evalForEachLoop ev var body (element # rest) env w result = Some (Exit c, env, w1))
   \<and> (evalForEachLoop ev var body elements env w result = Some (out, env', w') \<longrightarrow> env' = env)
   \<and> ((\<forall>x \<in> set elements. \<forall>w. ev (Block body) (Set (NewEnclosedEnvironment env) var x) w
          = ev' (Block body) (Set (NewEnclosedEnvironment env) var x) w) \<longrightarrow>
        evalForEachLoop ev var body elements env w result = evalForEachLoop ev' var body elements env w result)"
  by (intro conjI forEach_iterable forEach_frame forEach_step forEach_abnormal evalForEachLoop.simps(1)
      impI [OF forEach_env_unchanged] impI [OF forEach_only_fresh_frames])

lemma loopProgram_run:
  "Eval fixedHost (Suc (Suc (Suc (Suc 0)))) (Statement loopProgram) NewEnvironment w0 =
     Some (Done (Some (Integer 99)), NewEnvironment, w0\<lparr>stdout := ''1'' @ [CHR 0x0A] @ ''2'' @ [CHR 0x0A] @ ''3'' @ [CHR 0x0A], nextRef := 1\<rparr>)"
  by (simp add: loopProgram_def list123_def evalForEachStatement_def isError_def NewEnclosedEnvironment_def
      NewEnvironment_def evalPrintStatement_def evalLetStatement_def Println_def itoa_def digits_numeral)


theorem C6_foreach_witness:
  "Eval_expr fixedHost list123 NewEnvironment w0 = (Done (List 0 [Integer 1, Integer 2, Integer 3]), w0\<lparr>nextRef := 1\<rparr>)
   \<and> evalForEachStatement fixedHost (Eval fixedHost (Suc (Suc (Suc 0)))) (MkIdentifier tk ''x'') list123
         (BlockStatement tk
            [PrintStatement tk (Some (Identifier (MkIdentifier tk ''x''))),
             LetStatement tk (MkIdentifier tk ''x'') (Some (IntegerLiteral tk 99))]) NewEnvironment w0
       = Some (Done (Some (Integer 99)), NewEnvironment,
               w0\<lparr>stdout := ''1'' @ [CHR 0x0A] @ ''2'' @ [CHR 0x0A] @ ''3'' @ [CHR 0x0A], nextRef := 1\<rparr>)
   \<and> Eval_expr fixedHost (Some (IntegerLiteral tk 7)) NewEnvironment w0 = (Done (Integer 7), w0)
   \<and> evalForEachStatement fixedHost (Eval fixedHost (Suc (Suc (Suc 0)))) (MkIdentifier tk ''x'') (Some (IntegerLiteral tk 7))
         (BlockStatement tk []) NewEnvironment w0
       = Some (Done (Some (Error ''Eval: 'for each' loop requires a list as iterable, got INTEGER'')), NewEnvironment, w0)"
  using list123_eval loopProgram_run
    C6_foreach [where h = fixedHost and iter = list123 and env = NewEnvironment and w = w0
      and v = "List 0 [Integer 1, Integer 2, Integer 3]" and ?w1.0 = "w0\<lparr>nextRef := 1\<rparr>"
      and ev = "Eval fixedHost (Suc (Suc (Suc 0)))" and t = tk and var = "''x''"
      and body = "BlockStatement tk
            [PrintStatement tk (Some (Identifier (MkIdentifier tk ''x''))),
             LetStatement tk (MkIdentifier tk ''x'') (Some (IntegerLiteral tk 99))]"
      and r = 0 and elements = "[Integer 1, Integer 2, Integer 3]" and result = "Some Null"
      and element = "Integer 1" and res = "Some (Integer 99)" and ?env1.0 = NewEnvironment
      and rest = "[]" and m = "''''" and c = 0 and out = "Done None" and env' = NewEnvironment and w' = w0
      and ev' = "Eval fixedHost (Suc (Suc (Suc 0)))"]
    C6_foreach [where h = fixedHost and iter = "Some (IntegerLiteral tk 7)" and env = NewEnvironment and w = w0
      and v = "Integer 7" and ?w1.0 = w0
      and ev = "Eval fixedHost (Suc (Suc (Suc 0)))" and t = tk and var = "''x''"
      and body = "BlockStatement tk []"
      and r = 0 and elements = "[]" and result = "Some Null"
      and element = "Integer 1" and res = "Some (Integer 99)" and ?env1.0 = NewEnvironment
      and rest = "[]" and m = "''''" and c = 0 and out = "Done None" and env' = NewEnvironment and w' = w0
      and ev' = "Eval fixedHost (Suc (Suc (Suc 0)))"]
  by (simp add: loopProgram_def isError_def)

section \<open>Properties of the lexer\<close>

lemma peekKeyword_restores:
  "position (snd (peekKeyword l keyword)) = position l
   \<and> readPosition (snd (peekKeyword l keyword)) = readPosition l
   \<and> column (snd (peekKeyword l keyword)) = column l
   \<and> ch (snd (peekKeyword l keyword)) = ch l"
  by (simp add: peekKeyword_def Let_def)

lemma afterEnd_eq:
  "afterEnd = \<lparr>input = ''end'' @ [CHR 0x0A] @ ''x'', position = 3, readPosition = 4, ch = CHR 0x0A,
                line = 1, column = 5, errors = []\<rparr>"
  by code_simp

text \<open>
  Claim C9. The claim: a failed peek leaves position, read position, current character,
  line and column as they were, also when whitespace with a line feed comes before the
  peeked word. The code: \<open>peekKeyword\<close> saves and puts back \<open>position\<close>,
  \<open>readPosition\<close>, \<open>column\<close> and \<open>ch\<close> (in every state), and never \<open>line\<close>,
  which \<open>skipWhitespace\<close> increments at each line feed. On the input \<open>end\<close>, line
  feed, \<open>x\<close>, after the word \<open>end\<close> is read on line 1, the peek for \<open>if\<close> fails and
  leaves the lexer on line 2, at the position it had.
\<close>

theorem C9_peek_moves_line:
  "fst (peekKeyword afterEnd ''if'') = False
   \<and> line afterEnd = 1
   \<and> line (snd (peekKeyword afterEnd ''if'')) = 2
   \<and> snd (peekKeyword afterEnd ''if'') \<noteq> afterEnd
   \<and> position (snd (peekKeyword l keyword)) = position l
   \<and> readPosition (snd (peekKeyword l keyword)) = readPosition l
   \<and> column (snd (peekKeyword l keyword)) = column l
   \<and> ch (snd (peekKeyword l keyword)) = ch l"
  by (simp add: peekKeyword_restores) code_simp

section \<open>Properties of the parser\<close>

subsection \<open>What a parsed program is made of\<close>

text \<open>
  Every expression node that \<open>parseExpression\<close> or \<open>parseStatement\<close> returns is of
  a kind that a registered function builds. \<open>P\<close> is any property of those kinds.
\<close>

lemma exprsOkD: "exprsOk P pe \<Longrightarrow> pe prec p = Some (Some e, p1) \<Longrightarrow> everyExpr P e"
  by (auto simp: exprsOk_def)

lemma stmtsOkD: "stmtsOk P ps \<Longrightarrow> ps p = Some (Some s, p1) \<Longrightarrow> everyExpr_stmt P s"
  by (auto simp: stmtsOk_def)

lemma list_all_id_map [simp]: "list_all id (map f xs) = list_all f xs"
  by (induction xs) simp_all

lemma list_all_pred_option_map [simp]:
  "list_all (pred_option id) (map (map_option f) xs) = list_all (\<lambda>x. pred_option f x) xs"
  by (induction xs) (simp_all add: option.pred_map comp_def)

lemma pred_option_id_map [simp]: "pred_option id (map_option f x) = pred_option f x"
  by (cases x) simp_all

lemma exprsOk_opt: "exprsOk P pe \<Longrightarrow> pe prec p = Some (e, p1) \<Longrightarrow> pred_option (everyExpr P) e"
  by (cases e) (auto dest: exprsOkD)

lemma appendStatement_ok:
  "list_all (everyExpr_stmt P) statements \<Longrightarrow> pred_option (everyExpr_stmt P) stmt \<Longrightarrow>
   list_all (everyExpr_stmt P) (appendStatement statements stmt)"
  by (cases stmt) (simp_all add: appendStatement_def)

lemma stmtsOk_opt: "stmtsOk P ps \<Longrightarrow> ps p = Some (s, p1) \<Longrightarrow> pred_option (everyExpr_stmt P) s"
  by (cases s) (auto dest: stmtsOkD)

lemma parseBlockStatement_loop_ok:
  "stmtsOk P ps \<Longrightarrow> list_all (everyExpr_stmt P) statements \<Longrightarrow>
   parseBlockStatement_loop ps k statements p = Some (res, p1) \<Longrightarrow> list_all (everyExpr_stmt P) res"
proof (induction k arbitrary: statements p)
  case 0
  then show ?case by (simp split: if_splits)
next
  case (Suc k)
  show ?case
  proof (cases "endsBlock p")
    case True
    with Suc.prems show ?thesis by simp
  next
    case False
    with Suc.prems obtain stmt p2 where step: "ps p = Some (stmt, p2)"
      and rest: "parseBlockStatement_loop ps k (appendStatement statements stmt) (nextToken p2) = Some (res, p1)"
      by (auto split: option.splits)
    have "list_all (everyExpr_stmt P) (appendStatement statements stmt)"
      using Suc.prems(1,2) step by (intro appendStatement_ok stmtsOk_opt)
    then show ?thesis using Suc.IH [OF Suc.prems(1) _ rest] by simp
  qed
qed

lemma parseBlockStatement_ok:
  "stmtsOk P ps \<Longrightarrow> parseBlockStatement ps k p = Some (block, p1) \<Longrightarrow> everyExpr_block P block"
  by (auto simp: parseBlockStatement_def split: option.splits dest: parseBlockStatement_loop_ok [where statements = "[]"])

lemma ParseProgram_loop_ok:
  "stmtsOk P ps \<Longrightarrow> list_all (everyExpr_stmt P) statements \<Longrightarrow>
   ParseProgram_loop ps k statements p = Some (res, p1) \<Longrightarrow> list_all (everyExpr_stmt P) res"
proof (induction k arbitrary: statements p)
  case 0
  then show ?case by (simp split: if_splits)
next
  case (Suc k)
  show ?case
  proof (cases "curTokenIs p EOF")
    case True
    with Suc.prems show ?thesis by simp
  next
    case False
    with Suc.prems obtain stmt p2 where step: "ps p = Some (stmt, p2)"
      and rest: "ParseProgram_loop ps k (appendStatement statements stmt) (nextToken p2) = Some (res, p1)"
      by (auto split: option.splits)
    have "list_all (everyExpr_stmt P) (appendStatement statements stmt)"
      using Suc.prems(1,2) step by (intro appendStatement_ok stmtsOk_opt)
    then show ?thesis using Suc.IH [OF Suc.prems(1) _ rest] by simp
  qed
qed

lemma parseExpressions_loop_ok:
  "exprsOk P pe \<Longrightarrow> list_all (\<lambda>x. pred_option (everyExpr P) x) args \<Longrightarrow>
   parseExpressions_loop pe k args p = Some (res, p1) \<Longrightarrow> list_all (\<lambda>x. pred_option (everyExpr P) x) res"
proof (induction k arbitrary: args p)
  case 0
  then show ?case by (simp split: if_splits)
next
  case (Suc k)
  show ?case
  proof (cases "startsExpression p")
    case False
    with Suc.prems show ?thesis by simp
  next
    case True
    with Suc.prems obtain e p2 where step: "pe LOWEST (nextToken p) = Some (e, p2)"
      and rest: "parseExpressions_loop pe k (args @ [e]) p2 = Some (res, p1)"
      by (auto split: option.splits)
    have "list_all (\<lambda>x. pred_option (everyExpr P) x) (args @ [e])"
      using Suc.prems(1,2) exprsOk_opt [OF Suc.prems(1) step] by simp
    then show ?thesis using Suc.IH [OF Suc.prems(1) _ rest] by simp
  qed
qed

lemma parseElseIfBlocks_ok:
  "exprsOk P pe \<Longrightarrow> stmtsOk P ps \<Longrightarrow>
   list_all (\<lambda>b. pred_option (everyExpr P) (fst b) \<and> everyExpr_block P (snd b)) blocks \<Longrightarrow>
   parseElseIfBlocks pe ps k j blocks p = Some (Some res, p1) \<Longrightarrow>
   list_all (\<lambda>b. pred_option (everyExpr P) (fst b) \<and> everyExpr_block P (snd b)) res"
proof (induction j arbitrary: blocks p)
  case 0
  then show ?case by (simp split: if_splits)
next
  case (Suc j)
  show ?case
  proof (cases "peekTokenIs p ELSEIF")
    case False
    with Suc.prems show ?thesis by simp
  next
    case True
    with Suc.prems obtain cond p2 p3 block p4 where
      c: "pe LOWEST (nextToken p) = Some (cond, p2)"
      and b: "parseBlockStatement ps k p3 = Some (block, p4)"
      and rest: "parseElseIfBlocks pe ps k j (blocks @ [(cond, block)]) p4 = Some (Some res, p1)"
      by (auto split: option.splits prod.splits bool.splits)
    have "list_all (\<lambda>b. pred_option (everyExpr P) (fst b) \<and> everyExpr_block P (snd b)) (blocks @ [(cond, block)])"
      using Suc.prems(3) exprsOk_opt [OF Suc.prems(1) c] parseBlockStatement_ok [OF Suc.prems(2) b] by simp
    then show ?thesis using Suc.IH [OF Suc.prems(1,2) _ rest] by simp
  qed
qed

lemma list_all_elseIf_map [simp]:
  "list_all (\<lambda>b. pred_option id (fst b) \<and> snd b) (map (map_prod (map_option f) g) xs) =
   list_all (\<lambda>b. pred_option f (fst b) \<and> g (snd b)) xs"
proof (induction xs)
  case Nil
  show ?case by simp
next
  case (Cons a xs)
  then show ?case by (cases "fst a") simp_all
qed

lemma parseElseBlock_ok:
  "stmtsOk P ps \<Longrightarrow> parseElseBlock ps k p = Some (elseBlock, p1) \<Longrightarrow> pred_option (everyExpr_block P) elseBlock"
  by (auto simp: parseElseBlock_def split: if_splits option.splits dest: parseBlockStatement_ok)

lemma parseIfStatement_ok:
  assumes pe: "exprsOk P pe" and ps: "stmtsOk P ps"
    and res: "parseIfStatement pe ps k p = Some (Some s, p1)"
  shows "everyExpr_stmt P s"
proof -
  from res obtain cond p2 p3 thenBlock p4 elseIfBlocks p5 elseBlock p6 where
    c: "pe LOWEST (nextToken p) = Some (cond, p2)"
    and t: "parseBlockStatement ps k p3 = Some (thenBlock, p4)"
    and ei: "parseElseIfBlocks pe ps k k [] p4 = Some (Some elseIfBlocks, p5)"
    and el: "parseElseBlock ps k p5 = Some (elseBlock, p6)"
    and s: "s = IfStatement (curToken p) cond thenBlock elseIfBlocks elseBlock"
    by (auto simp: parseIfStatement_def split: option.splits prod.splits bool.splits)
  show ?thesis
    using exprsOk_opt [OF pe c] parseBlockStatement_ok [OF ps t]
      parseElseIfBlocks_ok [OF pe ps _ ei] parseElseBlock_ok [OF ps el]
    by (simp add: s)
qed

lemma parseWhileStatement_ok:
  "exprsOk P pe \<Longrightarrow> stmtsOk P ps \<Longrightarrow> parseWhileStatement pe ps k p = Some (Some s, p1) \<Longrightarrow> everyExpr_stmt P s"
  by (auto simp: parseWhileStatement_def split: option.splits prod.splits bool.splits
      dest: exprsOk_opt parseBlockStatement_ok)

lemma parseForEachStatement_ok:
  "exprsOk P pe \<Longrightarrow> stmtsOk P ps \<Longrightarrow> parseForEachStatement pe ps k p = Some (Some s, p1) \<Longrightarrow> everyExpr_stmt P s"
  by (auto simp: parseForEachStatement_def split: option.splits prod.splits bool.splits
      dest: exprsOk_opt parseBlockStatement_ok)

lemma parseLetStatement_ok:
  "exprsOk P pe \<Longrightarrow> parseLetStatement pe p = Some (Some s, p1) \<Longrightarrow> everyExpr_stmt P s"
  by (auto simp: parseLetStatement_def split: option.splits prod.splits bool.splits dest: exprsOk_opt)

lemma parseReturnStatement_ok:
  "exprsOk P pe \<Longrightarrow> parseReturnStatement pe p = Some (Some s, p1) \<Longrightarrow> everyExpr_stmt P s"
  by (auto simp: parseReturnStatement_def split: option.splits dest: exprsOk_opt)

lemma parseExpressionStatement_ok:
  "exprsOk P pe \<Longrightarrow> parseExpressionStatement pe p = Some (Some s, p1) \<Longrightarrow> everyExpr_stmt P s"
  by (auto simp: parseExpressionStatement_def split: option.splits dest: exprsOk_opt)

lemma parsePrintStatement_ok:
  "exprsOk P pe \<Longrightarrow> parsePrintStatement pe p = Some (Some s, p1) \<Longrightarrow> everyExpr_stmt P s"
  by (auto simp: parsePrintStatement_def split: option.splits dest: exprsOk_opt)

lemma parseExitStatement_ok:
  "exprsOk P pe \<Longrightarrow> parseExitStatement pe p = Some (Some s, p1) \<Longrightarrow> everyExpr_stmt P s"
  by (auto simp: parseExitStatement_def split: option.splits if_splits dest: exprsOk_opt)

lemma parseInputStatement_ok:
  "parseInputStatement p = (Some s, p1) \<Longrightarrow> everyExpr_stmt P s"
  by (auto simp: parseInputStatement_def split: if_splits)

lemma callStatement_ok:
  "exprsOk P pe \<Longrightarrow> stmtsOk P ps \<Longrightarrow> callStatement pe ps k fn p = Some (Some s, p1) \<Longrightarrow> everyExpr_stmt P s"
  by (cases fn)
    (auto simp: callStatement_def
      dest: parseLetStatement_ok parseIfStatement_ok parsePrintStatement_ok parseWhileStatement_ok
        parseForEachStatement_ok parseReturnStatement_ok parseExitStatement_ok parseInputStatement_ok)

lemma parseFunctionStatement_ok:
  assumes reg: "\<And>e. registeredKind e \<Longrightarrow> P e"
  shows "stmtsOk P ps \<Longrightarrow> parseFunctionStatement ps k p = Some (Some e, p1) \<Longrightarrow> everyExpr P e"
  by (auto simp: parseFunctionStatement_def registeredKind_def intro!: reg
      split: option.splits prod.splits bool.splits if_splits dest: parseBlockStatement_ok)

lemma parseListLiteral_ok:
  assumes reg: "\<And>e. registeredKind e \<Longrightarrow> P e" and pe: "exprsOk P pe"
    and res: "parseListLiteral pe k p = Some (Some e, p1)"
  shows "everyExpr P e"
proof (cases "peekTokenIs p END")
  case True
  with res show ?thesis by (auto simp: parseListLiteral_def registeredKind_def intro!: reg)
next
  case False
  with res obtain e1 p2 elements where
    first: "pe LOWEST (nextToken p) = Some (e1, p2)"
    and rest: "parseExpressions_loop pe k [e1] p2 = Some (elements, p1)"
    and e: "e = ListLiteral (curToken p) elements"
    by (auto simp: parseListLiteral_def split: option.splits)
  have "list_all (\<lambda>x. pred_option (everyExpr P) x) elements"
    using parseExpressions_loop_ok [OF pe _ rest] exprsOk_opt [OF pe first] by simp
  then show ?thesis by (simp add: e reg registeredKind_def)
qed

lemma parseGetItemAtIndexPrefix_ok:
  assumes reg: "\<And>e. registeredKind e \<Longrightarrow> P e"
  shows "exprsOk P pe \<Longrightarrow> parseGetItemAtIndexPrefix pe p = Some (Some e, p1) \<Longrightarrow> everyExpr P e"
  by (auto simp: parseGetItemAtIndexPrefix_def registeredKind_def intro!: reg
      split: option.splits prod.splits bool.splits dest: exprsOk_opt)

lemma parseConvertToNumberExpression_ok:
  assumes reg: "\<And>e. registeredKind e \<Longrightarrow> P e"
  shows "exprsOk P pe \<Longrightarrow> parseConvertToNumberExpression pe p = Some (Some e, p1) \<Longrightarrow> everyExpr P e"
  by (auto simp: parseConvertToNumberExpression_def registeredKind_def intro!: reg split: option.splits dest: exprsOk_opt)

lemma parseConvertToStringExpression_ok:
  assumes reg: "\<And>e. registeredKind e \<Longrightarrow> P e"
  shows "exprsOk P pe \<Longrightarrow> parseConvertToStringExpression pe p = Some (Some e, p1) \<Longrightarrow> everyExpr P e"
  by (auto simp: parseConvertToStringExpression_def registeredKind_def intro!: reg split: option.splits dest: exprsOk_opt)

lemma parseLeaf_ok:
  assumes reg: "\<And>e. registeredKind e \<Longrightarrow> P e"
  shows "parseIdentifier p = (Some e, p1) \<Longrightarrow> everyExpr P e"
    and "parseIntegerLiteral h p = (Some e, p1) \<Longrightarrow> everyExpr P e"
    and "parseStringLiteral p = (Some e, p1) \<Longrightarrow> everyExpr P e"
    and "parseBoolean p = (Some e, p1) \<Longrightarrow> everyExpr P e"
    and "parseIsDefinedExpression p = (Some e, p1) \<Longrightarrow> everyExpr P e"
  by (auto simp: parseIdentifier_def parseIntegerLiteral_def parseStringLiteral_def parseBoolean_def
      parseIsDefinedExpression_def registeredKind_def intro!: reg split: option.splits prod.splits bool.splits)

lemma registered_prefix:
  "map_of prefixParseFns t = Some fn \<Longrightarrow>
   fn \<noteq> FnParseFloatLiteral \<and> fn \<noteq> FnParsePrefixExpression \<and> fn \<noteq> FnParseGroupedExpression"
  by (auto simp: prefixParseFns_def split: if_splits)

lemma callPrefix_ok:
  assumes reg: "\<And>e. registeredKind e \<Longrightarrow> P e" and pe: "exprsOk P pe" and ps: "stmtsOk P ps"
    and fn: "fn \<noteq> FnParseFloatLiteral \<and> fn \<noteq> FnParsePrefixExpression \<and> fn \<noteq> FnParseGroupedExpression"
    and res: "callPrefix h pe ps k fn p = Some (Some e, p1)"
  shows "everyExpr P e"
proof (cases fn)
  case FnParseIdentifier
  with res show ?thesis by (auto simp: callPrefix_def intro: parseLeaf_ok(1) [OF reg])
next
  case FnParseIntegerLiteral
  with res show ?thesis by (auto simp: callPrefix_def intro: parseLeaf_ok(2) [OF reg])
next
  case FnParseStringLiteral
  with res show ?thesis by (auto simp: callPrefix_def intro: parseLeaf_ok(3) [OF reg])
next
  case FnParseBoolean
  with res show ?thesis by (auto simp: callPrefix_def intro: parseLeaf_ok(4) [OF reg])
next
  case FnParseIsDefinedExpression
  with res show ?thesis by (auto simp: callPrefix_def intro: parseLeaf_ok(5) [OF reg])
next
  case FnParseFunctionStatement
  with res show ?thesis by (auto simp: callPrefix_def intro: parseFunctionStatement_ok [OF reg ps])
next
  case FnParseListLiteral
  with res show ?thesis by (auto simp: callPrefix_def intro: parseListLiteral_ok [OF reg pe])
next
  case FnParseGetItemAtIndexPrefix
  with res show ?thesis by (auto simp: callPrefix_def intro: parseGetItemAtIndexPrefix_ok [OF reg pe])
next
  case FnParseConvertToNumberExpression
  with res show ?thesis by (auto simp: callPrefix_def intro: parseConvertToNumberExpression_ok [OF reg pe])
next
  case FnParseConvertToStringExpression
  with res show ?thesis by (auto simp: callPrefix_def intro: parseConvertToStringExpression_ok [OF reg pe])
qed (use fn in simp_all)

lemma parse_ok:
  assumes reg: "\<And>e. registeredKind e \<Longrightarrow> P e"
  shows "exprsOk P (parseExpression h n) \<and> stmtsOk P (parseStatement h n)"
proof (induction n)
  case 0
  show ?case by (simp add: exprsOk_def stmtsOk_def)
next
  case (Suc n)
  then have pe: "exprsOk P (parseExpression h n)" and ps: "stmtsOk P (parseStatement h n)"
    by simp_all
  have "exprsOk P (parseExpression h (Suc n))"
    unfolding exprsOk_def
  proof (intro allI impI)
    fix prec p e p1
    assume res: "parseExpression h (Suc n) prec p = Some (Some e, p1)"
    then obtain fn where fn: "map_of prefixParseFns (Type (curToken p)) = Some fn"
      and call: "callPrefix h (parseExpression h n) (parseStatement h n) n fn p = Some (Some e, p1)"
      by (auto split: option.splits)
    show "everyExpr P e"
      using callPrefix_ok [OF reg pe ps registered_prefix [OF fn] call] .
  qed
  moreover have "stmtsOk P (parseStatement h (Suc n))"
    unfolding stmtsOk_def
  proof (intro allI impI)
    fix p s p1
    assume res: "parseStatement h (Suc n) p = Some (Some s, p1)"
    show "everyExpr_stmt P s"
    proof (cases "map_of statementParseFns (Type (curToken p))")
      case None
      with res show ?thesis by (auto dest: parseExpressionStatement_ok [OF pe])
    next
      case (Some fn)
      with res show ?thesis by (auto dest: callStatement_ok [OF pe ps])
    qed
  qed
  ultimately show ?case by (rule conjI)
qed

lemma ParseProgram_ok:
  "(\<And>e. registeredKind e \<Longrightarrow> P e) \<Longrightarrow> ParseProgram h n p = Some (statements, p1) \<Longrightarrow>
   list_all (everyExpr_stmt P) statements"
  using ParseProgram_loop_ok [where statements = "[]" and ps = "parseStatement h n" and P = P] parse_ok [of P h n]
  by (auto simp: ParseProgram_def)

subsection \<open>Number literals\<close>

lemma digitsValue_not_digit:
  "c \<in> set s \<Longrightarrow> \<not> isDigit c \<Longrightarrow> digitsValue b s acc = None"
  by (induction s arbitrary: acc) auto

lemma parseIntFixed_dot: "CHR ''.'' \<in> set s \<Longrightarrow> parseIntFixed s = None"
proof -
  assume dot: "CHR ''.'' \<in> set s"
  have nd: "\<not> isDigit (CHR ''.'')" by (simp add: isDigit_def)
  obtain c cs where s: "s = c # cs" using dot by (cases s) auto
  show ?thesis
  proof (cases "c = CHR ''-'' \<or> c = CHR ''+''")
    case True
    then have in_cs: "CHR ''.'' \<in> set cs" using dot s by auto
    then obtain d ds where cs: "cs = d # ds" by (cases cs) auto
    show ?thesis
    proof (cases "d = CHR ''0'' \<and> ds \<noteq> []")
      case True
      then have "CHR ''.'' \<in> set ds" using in_cs cs by auto
      then have "digitsValue 8 ds 0 = None" using nd by (rule digitsValue_not_digit)
      then show ?thesis using \<open>c = CHR ''-'' \<or> c = CHR ''+''\<close> True s cs
        by (auto simp: parseIntFixed_def Let_def)
    next
      case False
      have "digitsValue 10 cs 0 = None" using in_cs nd by (rule digitsValue_not_digit)
      then show ?thesis using \<open>c = CHR ''-'' \<or> c = CHR ''+''\<close> False s cs
        by (auto simp: parseIntFixed_def Let_def)
    qed
  next
    case False
    show ?thesis
    proof (cases "c = CHR ''0'' \<and> cs \<noteq> []")
      case True
      then have "CHR ''.'' \<in> set cs" using dot s by auto
      then have "digitsValue 8 cs 0 = None" using nd by (rule digitsValue_not_digit)
      then show ?thesis using \<open>\<not> (c = CHR ''-'' \<or> c = CHR ''+'')\<close> True s
        by (auto simp: parseIntFixed_def Let_def)
    next
      case False
      have "digitsValue 10 s 0 = None" using dot nd by (rule digitsValue_not_digit)
      then show ?thesis using \<open>\<not> (c = CHR ''-'' \<or> c = CHR ''+'')\<close> False s
        by (auto simp: parseIntFixed_def Let_def)
    qed
  qed
qed

lemma number_is_integer:
  "Type (curToken p) = NUMBER \<longrightarrow> parseExpression h (Suc n) prec p = Some (parseIntegerLiteral h p)"
  by (simp add: prefixParseFns_def callPrefix_def)

lemma no_float_registered: "map_of prefixParseFns t \<noteq> Some FnParseFloatLiteral"
  by (simp add: prefixParseFns_def)

lemma number_with_dot:
  "(\<forall>s. CHR ''.'' \<in> set s \<longrightarrow> ParseInt h s = None) \<longrightarrow> Type (curToken p) = NUMBER \<longrightarrow>
   CHR ''.'' \<in> set (Literal (curToken p)) \<longrightarrow>
   parseExpression h (Suc n) prec p =
     Some (None, p\<lparr>perrors := perrors p @
       [''could not parse '' @ quoted (Literal (curToken p)) @ '' as integer at line ''
        @ itoa (Line (curToken p)) @ '', column '' @ itoa (Column (curToken p))]\<rparr>)"
  by (simp add: prefixParseFns_def callPrefix_def parseIntegerLiteral_def)

lemma no_float_literal:
  "ParseProgram h n p = Some (statements, p1) \<longrightarrow>
   list_all (everyExpr_stmt (\<lambda>e. \<not> isFloatLiteral e)) statements"
proof
  assume "ParseProgram h n p = Some (statements, p1)"
  then show "list_all (everyExpr_stmt (\<lambda>e. \<not> isFloatLiteral e)) statements"
    by (rule ParseProgram_ok [rotated]) (auto simp: registeredKind_def isFloatLiteral_def split: expr.splits)
qed

text \<open>
  Claim C10. \<open>registerParseFunctions\<close> gives the token kind \<open>NUMBER\<close> the function
  \<open>parseIntegerLiteral\<close> and gives \<open>parseFloatLiteral\<close> to no token kind. So at a
  \<open>NUMBER\<close> token \<open>parseExpression\<close> returns what \<open>parseIntegerLiteral\<close>
  returns; when the text of the token has a decimal point, which
  \<open>strconv.ParseInt\<close> refuses, that is \<open>nil\<close> and the diagnostic
  \<open>could not parse "..." as integer at line ..., column ...\<close>. No program that
  \<open>ParseProgram\<close> returns holds a \<open>FloatLiteral\<close> node.
\<close>

theorem C10_number_literal:
  "map_of prefixParseFns NUMBER = Some FnParseIntegerLiteral
   \<and> (\<forall>t. map_of prefixParseFns t \<noteq> Some FnParseFloatLiteral)
   \<and> (Type (curToken p) = NUMBER \<longrightarrow> parseExpression h (Suc n) prec p = Some (parseIntegerLiteral h p))
   \<and> ((\<forall>s. CHR ''.'' \<in> set s \<longrightarrow> ParseInt h s = None) \<longrightarrow> Type (curToken p) = NUMBER \<longrightarrow>
        CHR ''.'' \<in> set (Literal (curToken p)) \<longrightarrow>
        parseExpression h (Suc n) prec p =
          Some (None, p\<lparr>perrors := perrors p @
            [''could not parse '' @ quoted (Literal (curToken p)) @ '' as integer at line ''
             @ itoa (Line (curToken p)) @ '', column '' @ itoa (Column (curToken p))]\<rparr>))
   \<and> (ParseProgram h m p = Some (statements, p1) \<longrightarrow>
        list_all (everyExpr_stmt (\<lambda>e. \<not> isFloatLiteral e)) statements)"
  by (intro conjI allI no_float_registered number_is_integer number_with_dot no_float_literal)
    (simp add: prefixParseFns_def)

lemma parser_3_14:
  "Parser_New (Lexer_New ''3.14'') =
     \<lparr>lexer = \<lparr>input = ''3.14'', position = 5, readPosition = 6, ch = CHR 0x00,
                line = 1, column = 7, errors = []\<rparr>,
      curToken = \<lparr>Type = NUMBER, Literal = ''3.14'', Line = 1, Column = 3\<rparr>,
      peekToken = \<lparr>Type = EOF, Literal = [CHR 0x00], Line = 1, Column = 6\<rparr>,
      perrors = []\<rparr>"
  by code_simp

lemma program_3_14:
  "ParseProgram fixedHost 2 (Parser_New (Lexer_New ''3.14'')) =
     Some ([ExpressionStatement \<lparr>Type = NUMBER, Literal = ''3.14'', Line = 1, Column = 3\<rparr> None],
           \<lparr>lexer = \<lparr>input = ''3.14'', position = 6, readPosition = 7, ch = CHR 0x00,
                      line = 1, column = 8, errors = []\<rparr>,
            curToken = \<lparr>Type = EOF, Literal = [CHR 0x00], Line = 1, Column = 6\<rparr>,
            peekToken = \<lparr>Type = EOF, Literal = [CHR 0x00], Line = 1, Column = 7\<rparr>,
            perrors = [''could not parse '' @ [CHR 0x22] @ ''3.14'' @ [CHR 0x22] @ '' as integer at line 1, column 3'']\<rparr>)"
  by code_simp

lemma parser_3_14_fields:
  "curToken (Parser_New (Lexer_New ''3.14'')) = \<lparr>Type = NUMBER, Literal = ''3.14'', Line = 1, Column = 3\<rparr>"
  "perrors (Parser_New (Lexer_New ''3.14'')) = []"
  by (simp_all add: parser_3_14)

lemma ParseInt_fixedHost: "ParseInt fixedHost = parseIntFixed"
  by (simp add: fixedHost_def)

theorem C10_number_literal_witness:
  "Type (curToken (Parser_New (Lexer_New ''3.14''))) = NUMBER
   \<and> Literal (curToken (Parser_New (Lexer_New ''3.14''))) = ''3.14''
   \<and> CHR ''.'' \<in> set (Literal (curToken (Parser_New (Lexer_New ''3.14''))))
   \<and> parseExpression fixedHost (Suc 0) LOWEST (Parser_New (Lexer_New ''3.14'')) =
        Some (None, (Parser_New (Lexer_New ''3.14''))
          \<lparr>perrors := [''could not parse '' @ [CHR 0x22] @ ''3.14'' @ [CHR 0x22] @ '' as integer at line 1, column 3'']\<rparr>)
   \<and> ParseProgram fixedHost 2 (Parser_New (Lexer_New ''3.14'')) =
        Some ([ExpressionStatement \<lparr>Type = NUMBER, Literal = ''3.14'', Line = 1, Column = 3\<rparr> None],
              \<lparr>lexer = \<lparr>input = ''3.14'', position = 6, readPosition = 7, ch = CHR 0x00,
                         line = 1, column = 8, errors = []\<rparr>,
               curToken = \<lparr>Type = EOF, Literal = [CHR 0x00], Line = 1, Column = 6\<rparr>,
               peekToken = \<lparr>Type = EOF, Literal = [CHR 0x00], Line = 1, Column = 7\<rparr>,
               perrors = [''could not parse '' @ [CHR 0x22] @ ''3.14'' @ [CHR 0x22] @ '' as integer at line 1, column 3'']\<rparr>)
   \<and> list_all (everyExpr_stmt (\<lambda>e. \<not> isFloatLiteral e))
        [ExpressionStatement \<lparr>Type = NUMBER, Literal = ''3.14'', Line = 1, Column = 3\<rparr> (None :: int expr option)]"
  using C10_number_literal [where h = fixedHost and p = "Parser_New (Lexer_New ''3.14'')" and n = 0
      and prec = LOWEST and m = 2
      and statements = "[ExpressionStatement \<lparr>Type = NUMBER, Literal = ''3.14'', Line = 1, Column = 3\<rparr> None]"
      and ?p1.0 = "\<lparr>lexer = \<lparr>input = ''3.14'', position = 6, readPosition = 7, ch = CHR 0x00,
                         line = 1, column = 8, errors = []\<rparr>,
               curToken = \<lparr>Type = EOF, Literal = [CHR 0x00], Line = 1, Column = 6\<rparr>,
               peekToken = \<lparr>Type = EOF, Literal = [CHR 0x00], Line = 1, Column = 7\<rparr>,
               perrors = [''could not parse '' @ [CHR 0x22] @ ''3.14'' @ [CHR 0x22] @ '' as integer at line 1, column 3'']\<rparr>"]
  by (simp add: parser_3_14_fields program_3_14 parseIntFixed_dot ParseInt_fixedHost parseIntegerLiteral_def
      quoted_def itoa_def digits_numeral del: parseExpression.simps)

subsection \<open>Binary operators\<close>

lemma precedence_ignored: "parseExpression h n prec p = parseExpression h n prec' p"
  by (cases n) simp_all

lemma identifier_alone:
  "Type (curToken p) = IDENT \<longrightarrow>
   parseExpression h (Suc n) prec p =
     Some (Some (Identifier (MkIdentifier (curToken p) (Literal (curToken p)))), p)"
  by (simp add: prefixParseFns_def callPrefix_def parseIdentifier_def)

lemma operator_has_no_prefix:
  "Type (curToken p) \<in> set binaryOperators \<longrightarrow>
   parseExpression h (Suc n) prec p = Some (None, noPrefixParseFnError p (Type (curToken p)))"
  by (auto simp: binaryOperators_def prefixParseFns_def)

lemma no_infix_expression:
  "ParseProgram h n p = Some (statements, p1) \<longrightarrow>
   list_all (everyExpr_stmt (\<lambda>e. \<not> isInfixExpression e)) statements"
proof
  assume "ParseProgram h n p = Some (statements, p1)"
  then show "list_all (everyExpr_stmt (\<lambda>e. \<not> isInfixExpression e)) statements"
    by (rule ParseProgram_ok [rotated]) (auto simp: registeredKind_def isInfixExpression_def split: expr.splits)
qed

text \<open>
  Claim C2, as amended. The parser builds no \<open>InfixExpression\<close>: no infix function is
  registered, and \<open>parseExpression\<close> returns what the prefix function of the current
  token returns, whatever the precedence it is given and whatever token comes next (at
  an identifier: the identifier, with the parser where it was). The token of a binary
  operator has no prefix function: there \<open>parseExpression\<close> returns \<open>nil\<close> and
  adds the diagnostic \<open>no prefix parse function for ... found\<close>. No program that
  \<open>ParseProgram\<close> returns holds an \<open>InfixExpression\<close> node.
\<close>

theorem C2_prefix_only:
  "infixParseFns = []
   \<and> parseExpression h n prec p = parseExpression h n prec' p
   \<and> (Type (curToken p) = IDENT \<longrightarrow>
        parseExpression h (Suc n) prec p =
          Some (Some (Identifier (MkIdentifier (curToken p) (Literal (curToken p)))), p))
   \<and> (Type (curToken p) \<in> set binaryOperators \<longrightarrow>
        parseExpression h (Suc n) prec p = Some (None, noPrefixParseFnError p (Type (curToken p))))
   \<and> (ParseProgram h m p = Some (statements, p1) \<longrightarrow>
        list_all (everyExpr_stmt (\<lambda>e. \<not> isInfixExpression e)) statements)"
  by (intro conjI precedence_ignored identifier_alone operator_has_no_prefix no_infix_expression)
    (simp add: infixParseFns_def)

lemma parser_1_add_2:
  "Parser_New (Lexer_New ''1 add 2'') =
     \<lparr>lexer = \<lparr>input = ''1 add 2'', position = 5, readPosition = 6, ch = CHR '' '',
                line = 1, column = 7, errors = []\<rparr>,
      curToken = \<lparr>Type = NUMBER, Literal = ''1'', Line = 1, Column = 3\<rparr>,
      peekToken = \<lparr>Type = ADD, Literal = ''add'', Line = 1, Column = 5\<rparr>,
      perrors = []\<rparr>"
  by code_simp

lemma parser_1_add_2_next:
  "nextToken (Parser_New (Lexer_New ''1 add 2'')) =
     \<lparr>lexer = \<lparr>input = ''1 add 2'', position = 7, readPosition = 8, ch = CHR 0x00,
                line = 1, column = 9, errors = []\<rparr>,
      curToken = \<lparr>Type = ADD, Literal = ''add'', Line = 1, Column = 5\<rparr>,
      peekToken = \<lparr>Type = NUMBER, Literal = ''2'', Line = 1, Column = 9\<rparr>,
      perrors = []\<rparr>"
  by code_simp

lemma parser_a:
  "Parser_New (Lexer_New ''a'') =
     \<lparr>lexer = \<lparr>input = ''a'', position = 2, readPosition = 3, ch = CHR 0x00,
                line = 1, column = 4, errors = []\<rparr>,
      curToken = \<lparr>Type = IDENT, Literal = ''a'', Line = 1, Column = 3\<rparr>,
      peekToken = \<lparr>Type = EOF, Literal = [CHR 0x00], Line = 1, Column = 3\<rparr>,
      perrors = []\<rparr>"
  by code_simp

lemma program_1_add_2:
  "ParseProgram fixedHost 3 (Parser_New (Lexer_New ''1 add 2'')) =
     Some ([ExpressionStatement \<lparr>Type = NUMBER, Literal = ''1'', Line = 1, Column = 3\<rparr>
              (Some (IntegerLiteral \<lparr>Type = NUMBER, Literal = ''1'', Line = 1, Column = 3\<rparr> 1)),
            ExpressionStatement \<lparr>Type = ADD, Literal = ''add'', Line = 1, Column = 5\<rparr> None,
            ExpressionStatement \<lparr>Type = NUMBER, Literal = ''2'', Line = 1, Column = 9\<rparr>
              (Some (IntegerLiteral \<lparr>Type = NUMBER, Literal = ''2'', Line = 1, Column = 9\<rparr> 2))],
           \<lparr>lexer = \<lparr>input = ''1 add 2'', position = 9, readPosition = 10, ch = CHR 0x00,
                      line = 1, column = 11, errors = []\<rparr>,
            curToken = \<lparr>Type = EOF, Literal = [CHR 0x00], Line = 1, Column = 9\<rparr>,
            peekToken = \<lparr>Type = EOF, Literal = [CHR 0x00], Line = 1, Column = 10\<rparr>,
            perrors = [''no prefix parse function for ADD found at line 1, column 5'']\<rparr>)"
  by code_simp

lemma expression_1_add_2:
  "parseExpression fixedHost (Suc 0) LOWEST (Parser_New (Lexer_New ''1 add 2'')) =
     Some (Some (IntegerLiteral \<lparr>Type = NUMBER, Literal = ''1'', Line = 1, Column = 3\<rparr> 1),
           Parser_New (Lexer_New ''1 add 2''))"
  by (simp add: parser_1_add_2 prefixParseFns_def callPrefix_def parseIntegerLiteral_def
      ParseInt_fixedHost parseIntFixed_def isDigit_def)

theorem C2_prefix_only_witness:
  "Type (curToken (nextToken (Parser_New (Lexer_New ''1 add 2'')))) = ADD
   \<and> ADD \<in> set binaryOperators
   \<and> parseExpression fixedHost (Suc 0) SUM_PREC (nextToken (Parser_New (Lexer_New ''1 add 2''))) =
        Some (None, (nextToken (Parser_New (Lexer_New ''1 add 2'')))
          \<lparr>perrors := [''no prefix parse function for ADD found at line 1, column 5'']\<rparr>)
   \<and> Type (curToken (Parser_New (Lexer_New ''a''))) = IDENT
   \<and> parseExpression fixedHost (Suc 0) LOWEST (Parser_New (Lexer_New ''a'')) =
        Some (Some (Identifier (MkIdentifier \<lparr>Type = IDENT, Literal = ''a'', Line = 1, Column = 3\<rparr> ''a'')),
              Parser_New (Lexer_New ''a''))
   \<and> list_all (everyExpr_stmt (\<lambda>e. \<not> isInfixExpression e))
        [ExpressionStatement \<lparr>Type = NUMBER, Literal = ''1'', Line = 1, Column = 3\<rparr>
           (Some (IntegerLiteral \<lparr>Type = NUMBER, Literal = ''1'', Line = 1, Column = 3\<rparr> 1)),
         ExpressionStatement \<lparr>Type = ADD, Literal = ''add'', Line = 1, Column = 5\<rparr> None,
         ExpressionStatement \<lparr>Type = NUMBER, Literal = ''2'', Line = 1, Column = 9\<rparr>
           (Some (IntegerLiteral \<lparr>Type = NUMBER, Literal = ''2'', Line = 1, Column = 9\<rparr> 2 :: int expr))]"
proof -
  have cur: "curToken (nextToken (Parser_New (Lexer_New ''1 add 2''))) =
      \<lparr>Type = ADD, Literal = ''add'', Line = 1, Column = 5\<rparr>"
    and errs: "perrors (nextToken (Parser_New (Lexer_New ''1 add 2''))) = []"
    by (simp_all add: parser_1_add_2_next)
  have cur_a: "curToken (Parser_New (Lexer_New ''a'')) = \<lparr>Type = IDENT, Literal = ''a'', Line = 1, Column = 3\<rparr>"
    by (simp add: parser_a)
  show ?thesis
    using C2_prefix_only [where h = fixedHost and n = 0 and prec = SUM_PREC and prec' = LOWEST
        and p = "nextToken (Parser_New (Lexer_New ''1 add 2''))" and m = 0 and statements = "[]"
        and ?p1.0 = "nextToken (Parser_New (Lexer_New ''1 add 2''))"]
      C2_prefix_only [where h = fixedHost and n = 0 and prec = LOWEST and prec' = LOWEST
        and p = "Parser_New (Lexer_New ''a'')" and m = 0 and statements = "[]"
        and ?p1.0 = "Parser_New (Lexer_New ''a'')"]
      C2_prefix_only [where h = fixedHost and n = 0 and prec = LOWEST and prec' = LOWEST
        and p = "Parser_New (Lexer_New ''1 add 2'')" and m = 3
        and statements = "[ExpressionStatement \<lparr>Type = NUMBER, Literal = ''1'', Line = 1, Column = 3\<rparr>
              (Some (IntegerLiteral \<lparr>Type = NUMBER, Literal = ''1'', Line = 1, Column = 3\<rparr> 1)),
            ExpressionStatement \<lparr>Type = ADD, Literal = ''add'', Line = 1, Column = 5\<rparr> None,
            ExpressionStatement \<lparr>Type = NUMBER, Literal = ''2'', Line = 1, Column = 9\<rparr>
              (Some (IntegerLiteral \<lparr>Type = NUMBER, Literal = ''2'', Line = 1, Column = 9\<rparr> 2))]"
        and ?p1.0 = "\<lparr>lexer = \<lparr>input = ''1 add 2'', position = 9, readPosition = 10, ch = CHR 0x00,
                      line = 1, column = 11, errors = []\<rparr>,
            curToken = \<lparr>Type = EOF, Literal = [CHR 0x00], Line = 1, Column = 9\<rparr>,
            peekToken = \<lparr>Type = EOF, Literal = [CHR 0x00], Line = 1, Column = 10\<rparr>,
            perrors = [''no prefix parse function for ADD found at line 1, column 5'']\<rparr>"]
    by (simp add: cur errs cur_a program_1_add_2 binaryOperators_def noPrefixParseFnError_def itoa_def
        digits_numeral del: parseExpression.simps)
qed

text \<open>
  The claim C2 as it was stated fails on the text \<open>1 add 2\<close>. \<open>parseExpression\<close>
  returns the integer literal \<open>1\<close> and leaves the parser where it was, before the
  token \<open>add\<close>; \<open>ParseProgram\<close> returns three expression statements, the literal
  \<open>1\<close>, \<open>nil\<close> for \<open>add\<close> and the literal \<open>2\<close>, and the diagnostic for
  \<open>add\<close>.
\<close>

theorem C2_no_infix_built:
  "parseExpression fixedHost (Suc 0) LOWEST (Parser_New (Lexer_New ''1 add 2'')) =
     Some (Some (IntegerLiteral \<lparr>Type = NUMBER, Literal = ''1'', Line = 1, Column = 3\<rparr> 1),
           Parser_New (Lexer_New ''1 add 2''))
   \<and> peekToken (Parser_New (Lexer_New ''1 add 2'')) = \<lparr>Type = ADD, Literal = ''add'', Line = 1, Column = 5\<rparr>
   \<and> ParseProgram fixedHost 3 (Parser_New (Lexer_New ''1 add 2'')) =
     Some ([ExpressionStatement \<lparr>Type = NUMBER, Literal = ''1'', Line = 1, Column = 3\<rparr>
              (Some (IntegerLiteral \<lparr>Type = NUMBER, Literal = ''1'', Line = 1, Column = 3\<rparr> 1)),
            ExpressionStatement \<lparr>Type = ADD, Literal = ''add'', Line = 1, Column = 5\<rparr> None,
            ExpressionStatement \<lparr>Type = NUMBER, Literal = ''2'', Line = 1, Column = 9\<rparr>
              (Some (IntegerLiteral \<lparr>Type = NUMBER, Literal = ''2'', Line = 1, Column = 9\<rparr> 2))],
           \<lparr>lexer = \<lparr>input = ''1 add 2'', position = 9, readPosition = 10, ch = CHR 0x00,
                      line = 1, column = 11, errors = []\<rparr>,
            curToken = \<lparr>Type = EOF, Literal = [CHR 0x00], Line = 1, Column = 9\<rparr>,
            peekToken = \<lparr>Type = EOF, Literal = [CHR 0x00], Line = 1, Column = 10\<rparr>,
            perrors = [''no prefix parse function for ADD found at line 1, column 5'']\<rparr>)"
proof (intro conjI)
  show "peekToken (Parser_New (Lexer_New ''1 add 2'')) = \<lparr>Type = ADD, Literal = ''add'', Line = 1, Column = 5\<rparr>"
    by (simp add: parser_1_add_2)
qed (rule expression_1_add_2 program_1_add_2)+


end
